theory Spec2Isabelle
  imports Complex_Main
begin

section \<open>Numbers and arrays of the source language\<close>

text \<open>
  The services are TypeScript. A \<^verbatim>\<open>number\<close> is modelled as a real. In the indicators, the
  scores and the policy arithmetic the operations are exact: the rounding of binary
  floating point is not part of the model there. In \<^verbatim>\<open>combineAndValidateAllocations\<close> and
  \<^verbatim>\<open>addDcaPlans\<close>, whose tolerance test and \<^verbatim>\<open>Math.round\<close> depend on the last bit, every
  operation is rounded to binary64 (section on binary64 arithmetic below). The shares
  these two functions read are binary64 numbers in the program; the model's functions take
  any real and round the result of each operation, so they agree with the program on
  every list of binary64 shares. The policy arithmetic that produces the core rows is
  exact, so a core share of the model can differ from the program's in the last bit.
  Where the source divides by a value that can be zero, the model says what JavaScript
  does there (it continues with \<^verbatim>\<open>NaN\<close> or an infinity) instead of using the division of
  HOL.
\<close>

datatype js_error =
    NonFinite      \<comment> \<open>a division by zero or an overflow has put NaN or an infinity into the result\<close>
  | Thrown string  \<comment> \<open>an exception, with its message\<close>

text \<open>\<^verbatim>\<open>Math.round\<close>: the nearest integer, a tie going up.\<close>

definition js_round :: "real \<Rightarrow> real" where
  "js_round x = of_int \<lfloor>x + 1 / 2\<rfloor>"

text \<open>
  Array slices. \<^verbatim>\<open>xs.slice(a, b)\<close> takes the elements from index \<open>a\<close> up to, not
  including, index \<open>b\<close>; a negative index counts from the end of the array and every
  index is clamped to the array. \<^verbatim>\<open>xs.slice(a)\<close> runs to the end. An index \<^verbatim>\<open>-0\<close> is 0, so
  \<^verbatim>\<open>xs.slice(-0)\<close> is the whole array.
\<close>

definition js_index :: "int \<Rightarrow> nat \<Rightarrow> nat" where
  "js_index k len = (if k < 0 then nat (max (int len + k) 0) else min (nat k) len)"

definition js_slice :: "int \<Rightarrow> int \<Rightarrow> 'a list \<Rightarrow> 'a list" where
  "js_slice a b xs =
     (let s = js_index a (length xs); e = js_index b (length xs) in take (e - s) (drop s xs))"

definition js_slice_from :: "int \<Rightarrow> 'a list \<Rightarrow> 'a list" where
  "js_slice_from a xs = drop (js_index a (length xs)) xs"

text \<open>
  A value that a numeric expression of the source can produce: a finite number, an
  infinity, NaN, or \<^verbatim>\<open>undefined\<close> (a read past the end of an array). Arithmetic and
  comparisons convert \<^verbatim>\<open>undefined\<close> to NaN. Zero has no sign in the model: a non-zero
  number divided by zero takes the sign of the numerator.
\<close>

datatype jsnum = Num real | PosInf | NegInf | NaN | Undefined

fun js_neg :: "jsnum \<Rightarrow> jsnum" where
  "js_neg (Num a) = Num (- a)"
| "js_neg PosInf = NegInf"
| "js_neg NegInf = PosInf"
| "js_neg NaN = NaN"
| "js_neg Undefined = NaN"

fun js_add :: "jsnum \<Rightarrow> jsnum \<Rightarrow> jsnum" where
  "js_add (Num a) (Num b) = Num (a + b)"
| "js_add (Num a) PosInf = PosInf"
| "js_add (Num a) NegInf = NegInf"
| "js_add PosInf (Num b) = PosInf"
| "js_add PosInf PosInf = PosInf"
| "js_add NegInf (Num b) = NegInf"
| "js_add NegInf NegInf = NegInf"
| "js_add _ _ = NaN"

definition js_sub :: "jsnum \<Rightarrow> jsnum \<Rightarrow> jsnum" where
  "js_sub a b = js_add a (js_neg b)"

text \<open>The sign of an infinite product or quotient: positive when \<open>pos\<close> holds.\<close>

definition js_inf :: "bool \<Rightarrow> jsnum" where
  "js_inf pos = (if pos then PosInf else NegInf)"

fun js_mul :: "jsnum \<Rightarrow> jsnum \<Rightarrow> jsnum" where
  "js_mul (Num a) (Num b) = Num (a * b)"
| "js_mul (Num a) PosInf = (if a = 0 then NaN else js_inf (a > 0))"
| "js_mul (Num a) NegInf = (if a = 0 then NaN else js_inf (a < 0))"
| "js_mul PosInf (Num b) = (if b = 0 then NaN else js_inf (b > 0))"
| "js_mul NegInf (Num b) = (if b = 0 then NaN else js_inf (b < 0))"
| "js_mul PosInf PosInf = PosInf"
| "js_mul PosInf NegInf = NegInf"
| "js_mul NegInf PosInf = NegInf"
| "js_mul NegInf NegInf = PosInf"
| "js_mul _ _ = NaN"

fun js_div :: "jsnum \<Rightarrow> jsnum \<Rightarrow> jsnum" where
  "js_div (Num a) (Num b) =
     (if b = 0 then (if a = 0 then NaN else js_inf (a > 0)) else Num (a / b))"
| "js_div (Num a) PosInf = Num 0"
| "js_div (Num a) NegInf = Num 0"
| "js_div PosInf (Num b) = js_inf (b \<ge> 0)"
| "js_div NegInf (Num b) = js_inf (b < 0)"
| "js_div _ _ = NaN"

fun js_lt :: "jsnum \<Rightarrow> jsnum \<Rightarrow> bool" where
  "js_lt (Num a) (Num b) = (a < b)"
| "js_lt (Num a) PosInf = True"
| "js_lt NegInf (Num b) = True"
| "js_lt NegInf PosInf = True"
| "js_lt _ _ = False"

definition js_gt :: "jsnum \<Rightarrow> jsnum \<Rightarrow> bool" where
  "js_gt a b = js_lt b a"

fun js_sqrt :: "jsnum \<Rightarrow> jsnum" where
  "js_sqrt (Num a) = (if a < 0 then NaN else Num (sqrt a))"
| "js_sqrt PosInf = PosInf"
| "js_sqrt _ = NaN"

text \<open>\<^verbatim>\<open>Math.abs\<close>, \<^verbatim>\<open>Math.max\<close> of two arguments and \<^verbatim>\<open>Math.round\<close> on computed values.\<close>

fun js_abs :: "jsnum \<Rightarrow> jsnum" where
  "js_abs (Num a) = Num \<bar>a\<bar>"
| "js_abs PosInf = PosInf"
| "js_abs NegInf = PosInf"
| "js_abs _ = NaN"

fun js_max :: "jsnum \<Rightarrow> jsnum \<Rightarrow> jsnum" where
  "js_max (Num a) (Num b) = Num (max a b)"
| "js_max (Num a) PosInf = PosInf"
| "js_max (Num a) NegInf = Num a"
| "js_max PosInf (Num b) = PosInf"
| "js_max NegInf (Num b) = Num b"
| "js_max PosInf PosInf = PosInf"
| "js_max PosInf NegInf = PosInf"
| "js_max NegInf PosInf = PosInf"
| "js_max NegInf NegInf = NegInf"
| "js_max _ _ = NaN"

fun js_roundnum :: "jsnum \<Rightarrow> jsnum" where
  "js_roundnum (Num a) = Num (js_round a)"
| "js_roundnum PosInf = PosInf"
| "js_roundnum NegInf = NegInf"
| "js_roundnum _ = NaN"

text \<open>\<^verbatim>\<open>xs[xs.length - 1]\<close>: \<^verbatim>\<open>undefined\<close> on the empty array.\<close>

definition js_last :: "real list \<Rightarrow> jsnum" where
  "js_last xs = (if xs = [] then Undefined else Num (last xs))"

section \<open>Binary64 arithmetic\<close>

text \<open>
  IEEE 754 binary64, the arithmetic of a \<^verbatim>\<open>number\<close>: the result of an operation is the
  exact result rounded to the nearest value with a 53-bit significand, a tie going to the
  even significand. \<open>binade x\<close> is the exponent of the power of two at or below \<open>\<bar>x\<bar>\<close>, found
  by halving or doubling, and never below -1022, where the subnormal numbers begin; the
  rounded value is a multiple of two to the power \<open>binade x - 52\<close>. A result that rounds to
  two to the power 1024 or beyond is infinite. Zero has no sign.
\<close>

primrec exponentUp :: "nat \<Rightarrow> real \<Rightarrow> int" where
  "exponentUp 0 y = 0"
| "exponentUp (Suc n) y = (if 2 \<le> y then exponentUp n (y / 2) + 1 else 0)"

primrec exponentDown :: "nat \<Rightarrow> real \<Rightarrow> int" where
  "exponentDown 0 y = 0"
| "exponentDown (Suc n) y = (if y < 1 then exponentDown n (y * 2) - 1 else 0)"

definition binade :: "real \<Rightarrow> int" where
  "binade x = (if 1 \<le> \<bar>x\<bar> then exponentUp 1023 \<bar>x\<bar> else exponentDown 1022 \<bar>x\<bar>)"

definition roundHalfEven :: "real \<Rightarrow> int" where
  "roundHalfEven y =
     (let f = \<lfloor>y\<rfloor>; d = y - of_int f
      in if d < 1 / 2 then f else if 1 / 2 < d then f + 1 else if even f then f else f + 1)"

definition b64 :: "real \<Rightarrow> real" where
  "b64 x = (if x = 0 then 0
            else (let e = binade x - 52 in of_int (roundHalfEven (x / 2 powi e)) * 2 powi e))"

definition overflowThreshold :: real where
  "overflowThreshold = 2 ^ 1024"

text \<open>The exact result of an operation, rounded; and the four operations.\<close>

definition toBinary64 :: "jsnum \<Rightarrow> jsnum" where
  "toBinary64 v =
     (case v of
        Num x \<Rightarrow> if overflowThreshold \<le> \<bar>b64 x\<bar> then js_inf (0 < x) else Num (b64 x)
      | _ \<Rightarrow> v)"

definition f64_add :: "jsnum \<Rightarrow> jsnum \<Rightarrow> jsnum" where
  "f64_add a b = toBinary64 (js_add a b)"

definition f64_sub :: "jsnum \<Rightarrow> jsnum \<Rightarrow> jsnum" where
  "f64_sub a b = toBinary64 (js_sub a b)"

definition f64_mul :: "jsnum \<Rightarrow> jsnum \<Rightarrow> jsnum" where
  "f64_mul a b = toBinary64 (js_mul a b)"

definition f64_div :: "jsnum \<Rightarrow> jsnum \<Rightarrow> jsnum" where
  "f64_div a b = toBinary64 (js_div a b)"

text \<open>
  The unit roundoff, two to the power -53, which bounds the relative error of one
  rounding, and half the smallest subnormal number, two to the power -1075, which bounds
  the error of a rounding in the subnormal range.
\<close>

definition unitRoundoff :: real where
  "unitRoundoff = 1 / 2 ^ 53"

definition tiny :: real where
  "tiny = 1 / 2 ^ 1075"

section \<open>Ranking engine: indicators (ranking-engine.ts)\<close>

text \<open>
  A price or volume series is an array of finite numbers, oldest first. The periods are
  the natural numbers the engine passes (14, 20, 50, 12, 26, 10).
\<close>

record MacdResult =
  macdValue :: jsnum
  signal :: jsnum
  histogram :: jsnum

record BollingerResult =
  upper :: jsnum
  middle :: jsnum
  lower :: jsnum
  width :: jsnum

record TechnicalIndicators =
  rsi :: jsnum
  macd :: MacdResult
  sma20 :: jsnum
  sma50 :: jsnum
  ema12 :: jsnum
  ema26 :: jsnum
  bollingerBands :: BollingerResult
  atr :: jsnum
  obv :: jsnum
  volumeRatio :: jsnum

record MomentumIndicators =
  momentum :: jsnum
  rateOfChange :: jsnum
  priceVelocity :: jsnum
  trendStrength :: jsnum
  volumeMomentum :: jsnum

datatype trend = bullish | bearish | neutral

text \<open>\<^verbatim>\<open>xs.reduce((sum, x) => sum + x, 0)\<close> on finite numbers and on computed values.\<close>

definition sumReduce :: "real list \<Rightarrow> real" where
  "sumReduce xs = foldl (\<lambda>sum x. sum + x) 0 xs"

definition js_sumReduce :: "jsnum list \<Rightarrow> jsnum" where
  "js_sumReduce xs = foldl (\<lambda>sum x. js_add sum x) (Num 0) xs"

definition calculateRSI :: "real list \<Rightarrow> nat \<Rightarrow> jsnum" where
  "calculateRSI prices period =
     (if length prices < period + 1 then Num 50
      else
        (let (gains, losses) =
               fold (\<lambda>i (gains, losses).
                       let change = prices ! i - prices ! (i - 1)
                       in if change > 0 then (gains + change, losses)
                          else (gains, losses - change))
                    [length prices - period ..< length prices] (0, 0);
             avgGain = js_div (Num gains) (Num (real period));
             avgLoss = js_div (Num losses) (Num (real period))
         in if avgLoss = Num 0 then Num 100
            else (let rs = js_div avgGain avgLoss
                  in js_sub (Num 100) (js_div (Num 100) (js_add (Num 1) rs)))))"

definition calculateSMA :: "real list \<Rightarrow> nat \<Rightarrow> jsnum" where
  "calculateSMA prices period =
     (if length prices < period then js_last prices
      else (let relevantPrices = js_slice_from (- int period) prices
            in js_div (Num (sumReduce relevantPrices)) (Num (real period))))"

definition calculateEMA :: "real list \<Rightarrow> nat \<Rightarrow> jsnum" where
  "calculateEMA prices period =
     (if length prices < period then js_last prices
      else (let multiplier = 2 / (real period + 1);
                ema0 = calculateSMA (js_slice 0 (int period) prices) period
            in fold (\<lambda>i ema. js_add (js_mul (js_sub (Num (prices ! i)) ema) (Num multiplier)) ema)
                    [period ..< length prices] ema0))"

definition calculateMACD :: "real list \<Rightarrow> MacdResult" where
  "calculateMACD prices =
     (let ema12 = calculateEMA prices 12;
          ema26 = calculateEMA prices 26;
          macdLine = js_sub ema12 ema26;
          signal = js_mul macdLine (Num 0.9);
          histogram = js_sub macdLine signal
      in \<lparr> macdValue = macdLine, signal = signal, histogram = histogram \<rparr>)"

definition calculateBollingerBands :: "real list \<Rightarrow> nat \<Rightarrow> BollingerResult" where
  "calculateBollingerBands prices period =
     (let sma = calculateSMA prices period;
          relevantPrices = js_slice_from (- int period) prices;
          squaredDiffs = map (\<lambda>price. js_mul (js_sub (Num price) sma) (js_sub (Num price) sma))
                             relevantPrices;
          variance = js_div (js_sumReduce squaredDiffs) (Num (real period));
          stdDev = js_sqrt variance;
          upper = js_add sma (js_mul stdDev (Num 2));
          lower = js_sub sma (js_mul stdDev (Num 2));
          width = js_mul (js_div (js_sub upper lower) sma) (Num 100)
      in \<lparr> upper = upper, middle = sma, lower = lower, width = width \<rparr>)"

definition calculateATR :: "real list \<Rightarrow> nat \<Rightarrow> jsnum" where
  "calculateATR prices period =
     (if length prices < period + 1 then Num 0
      else (let trueRanges =
                  map (\<lambda>i. let high = prices ! i; low = prices ! i; prevClose = prices ! (i - 1)
                            in max \<bar>high - low\<bar> (max \<bar>high - prevClose\<bar> \<bar>low - prevClose\<bar>))
                      [1 ..< length prices];
                relevantTRs = js_slice_from (- int period) trueRanges
            in js_div (Num (sumReduce relevantTRs)) (Num (real period))))"

definition calculateOBV :: "real list \<Rightarrow> real list \<Rightarrow> jsnum" where
  "calculateOBV prices volumes =
     (if length prices \<noteq> length volumes \<or> length prices < 2 then Num 0
      else Num (fold (\<lambda>i obv. if prices ! i > prices ! (i - 1) then obv + volumes ! i
                               else if prices ! i < prices ! (i - 1) then obv - volumes ! i
                               else obv)
                     [1 ..< length prices] 0))"

definition calculateVolumeRatio :: "real list \<Rightarrow> jsnum" where
  "calculateVolumeRatio volumes =
     (if length volumes < 20 then Num 1
      else (let recent = js_slice_from (-5) volumes;
                older = js_slice (-20) (-5) volumes;
                avgRecent = sumReduce recent / real (length recent);
                avgOlder = sumReduce older / real (length older)
            in if avgOlder > 0 then Num (avgRecent / avgOlder) else Num 1))"

definition calculateTechnicalIndicators :: "real list \<Rightarrow> real list \<Rightarrow> TechnicalIndicators" where
  "calculateTechnicalIndicators prices volumes =
     \<lparr> rsi = calculateRSI prices 14,
       macd = calculateMACD prices,
       sma20 = calculateSMA prices 20,
       sma50 = calculateSMA prices 50,
       ema12 = calculateEMA prices 12,
       ema26 = calculateEMA prices 26,
       bollingerBands = calculateBollingerBands prices 20,
       atr = calculateATR prices 14,
       obv = calculateOBV prices volumes,
       volumeRatio = calculateVolumeRatio volumes \<rparr>"

definition calculatePriceMomentum :: "real list \<Rightarrow> nat \<Rightarrow> jsnum" where
  "calculatePriceMomentum prices period =
     (if length prices < period + 1 then Num 0
      else (let current = prices ! (length prices - 1);
                past = prices ! (length prices - period - 1)
            in js_mul (js_div (Num (current - past)) (Num past)) (Num 100)))"

definition calculateROC :: "real list \<Rightarrow> nat \<Rightarrow> jsnum" where
  "calculateROC prices period =
     (if length prices < period + 1 then Num 0
      else (let current = prices ! (length prices - 1);
                past = prices ! (length prices - period - 1)
            in js_mul (js_div (Num (current - past)) (Num past)) (Num 100)))"

definition calculateVelocity :: "real list \<Rightarrow> jsnum" where
  "calculateVelocity prices =
     (if length prices < 5 then Num 0
      else (let recentPrices = js_slice_from (-5) prices;
                changes = map (\<lambda>i. js_div (Num (recentPrices ! i - recentPrices ! (i - 1)))
                                            (Num (recentPrices ! (i - 1))))
                              [1 ..< length recentPrices]
            in js_mul (js_div (js_sumReduce changes) (Num (real (length changes)))) (Num 100)))"

definition calculateTrendStrength :: "real list \<Rightarrow> jsnum" where
  "calculateTrendStrength prices =
     (if length prices < 20 then Num 0
      else (let sma20 = calculateSMA prices 20;
                current = Num (prices ! (length prices - 1))
            in js_mul (js_div (js_sub current sma20) sma20) (Num 100)))"

definition calculateVolumeMomentum :: "real list \<Rightarrow> jsnum" where
  "calculateVolumeMomentum volumes =
     (if length volumes < 10 then Num 0
      else (let recent = js_slice_from (-5) volumes;
                older = js_slice (-10) (-5) volumes;
                avgRecent = sumReduce recent / real (length recent);
                avgOlder = sumReduce older / real (length older)
            in if avgOlder > 0 then Num (((avgRecent - avgOlder) / avgOlder) * 100) else Num 0))"

definition calculateMomentum :: "real list \<Rightarrow> real list \<Rightarrow> MomentumIndicators" where
  "calculateMomentum prices volumes =
     \<lparr> momentum = calculatePriceMomentum prices 10,
       rateOfChange = calculateROC prices 10,
       priceVelocity = calculateVelocity prices,
       trendStrength = calculateTrendStrength prices,
       volumeMomentum = calculateVolumeMomentum volumes \<rparr>"

text \<open>
  The risk indicators. The daily returns of a series divide by the previous price, so a
  return is a computed value, infinite or NaN after a price of zero.
\<close>

definition dailyReturns :: "real list \<Rightarrow> jsnum list" where
  "dailyReturns prices =
     map (\<lambda>i. js_div (Num (prices ! i - prices ! (i - 1))) (Num (prices ! (i - 1))))
         [1 ..< length prices]"

text \<open>
  \<^verbatim>\<open>rs.reduce((sum, r) => sum + Math.pow(r - avg, 2), 0) / rs.length\<close>, the variance that
  the volatility, the Sharpe ratio and the downside deviation each write out.
\<close>

definition varianceOf :: "jsnum list \<Rightarrow> jsnum \<Rightarrow> jsnum" where
  "varianceOf rs avg =
     js_div (foldl (\<lambda>sum r. js_add sum (js_mul (js_sub r avg) (js_sub r avg))) (Num 0) rs)
            (Num (real (length rs)))"

definition calculateVolatility :: "real list \<Rightarrow> nat \<Rightarrow> jsnum" where
  "calculateVolatility prices period =
     (if length prices < period then Num 0
      else (let relevantPrices = js_slice_from (- int period) prices;
                returns = dailyReturns relevantPrices;
                avgReturn = js_div (js_sumReduce returns) (Num (real (length returns)));
                variance = varianceOf returns avgReturn
            in js_mul (js_mul (js_sqrt variance) (Num (sqrt 365))) (Num 100)))"

definition calculateSharpeRatio :: "real list \<Rightarrow> jsnum" where
  "calculateSharpeRatio prices =
     (if length prices < 30 then Num 0
      else (let returns = dailyReturns prices;
                avgReturn = js_div (js_sumReduce returns) (Num (real (length returns)));
                riskFreeRate = 0.02 / 365;
                excessReturns = map (\<lambda>r. js_sub r (Num riskFreeRate)) returns;
                avgExcessReturn = js_div (js_sumReduce excessReturns)
                                         (Num (real (length excessReturns)));
                stdDev = js_sqrt (varianceOf excessReturns avgExcessReturn)
            in if js_gt stdDev (Num 0)
               then js_mul (js_div (js_sub avgReturn (Num riskFreeRate)) stdDev) (Num (sqrt 365))
               else Num 0))"

text \<open>\<^verbatim>\<open>calculateMaxDrawdown\<close>: the loop state is the largest drawdown and the peak so far.\<close>

definition calculateMaxDrawdown :: "real list \<Rightarrow> jsnum" where
  "calculateMaxDrawdown prices =
     (if length prices < 2 then Num 0
      else (let (maxDrawdown, peak) =
                  fold (\<lambda>price (maxDrawdown, peak).
                          let peak = (if price > peak then price else peak);
                              drawdown = js_div (Num (peak - price)) (Num peak)
                          in (if js_gt drawdown maxDrawdown then drawdown else maxDrawdown, peak))
                       prices (Num 0, prices ! 0)
            in js_mul maxDrawdown (Num 100)))"

definition calculateBeta :: "real list \<Rightarrow> jsnum" where
  "calculateBeta prices =
     (let volatility = calculateVolatility prices 30 in js_div volatility (Num 20))"

definition calculateDownsideDeviation :: "real list \<Rightarrow> jsnum" where
  "calculateDownsideDeviation prices =
     (if length prices < 2 then Num 0
      else (let returns = dailyReturns prices;
                negativeReturns = filter (\<lambda>r. js_lt r (Num 0)) returns
            in if length negativeReturns = 0 then Num 0
               else (let avgNegReturn = js_div (js_sumReduce negativeReturns)
                                               (Num (real (length negativeReturns)));
                         variance = varianceOf negativeReturns avgNegReturn
                     in js_mul (js_mul (js_sqrt variance) (Num (sqrt 365))) (Num 100))))"

text \<open>
  \<^verbatim>\<open>returns.sort((a, b) => a - b)\<close>: ascending, an infinity beyond every finite number.
  With a NaN among the returns the comparison function is not consistent and the language
  leaves the order to the implementation: the sorted array is then \<open>None\<close>.
\<close>

primrec js_insort :: "jsnum \<Rightarrow> jsnum list \<Rightarrow> jsnum list" where
  "js_insort x [] = [x]"
| "js_insort x (y # ys) = (if js_lt y x then y # js_insort x ys else x # y # ys)"

definition sortAscending :: "jsnum list \<Rightarrow> jsnum list option" where
  "sortAscending xs = (if NaN \<in> set xs \<or> Undefined \<in> set xs then None
                       else Some (foldr js_insort xs []))"

text \<open>\<^verbatim>\<open>xs[i]\<close> for an integer \<open>i\<close>: \<^verbatim>\<open>undefined\<close> outside the array.\<close>

definition js_nth :: "jsnum list \<Rightarrow> int \<Rightarrow> jsnum" where
  "js_nth xs i = (if 0 \<le> i \<and> i < int (length xs) then xs ! nat i else Undefined)"

definition calculateValueAtRisk :: "real list \<Rightarrow> real \<Rightarrow> jsnum option" where
  "calculateValueAtRisk prices confidence =
     (if length prices < 2 then Some (Num 0)
      else (case sortAscending (dailyReturns prices) of
              None \<Rightarrow> None
            | Some returns \<Rightarrow>
                (let index = \<lfloor>(1 - confidence) * real (length returns)\<rfloor>
                 in Some (js_mul (js_abs (js_nth returns index)) (Num 100)))))"

section \<open>Ranking engine: technical score and trend\<close>

definition scoreTechnical :: "TechnicalIndicators \<Rightarrow> jsnum \<Rightarrow> real" where
  "scoreTechnical technical currentPrice =
     (let score = 50;
          score = (if js_lt (rsi technical) (Num 30) then score + 15
                   else if js_gt (rsi technical) (Num 70) then score - 15
                   else score + 5);
          score = (if js_gt (histogram (macd technical)) (Num 0) then score + 10 else score - 10);
          score = (if js_gt currentPrice (sma20 technical) then score + 10 else score);
          score = (if js_gt currentPrice (sma50 technical) then score + 10 else score);
          bbPosition = js_div (js_sub currentPrice (lower (bollingerBands technical)))
                              (js_sub (upper (bollingerBands technical))
                                      (lower (bollingerBands technical)));
          score = (if js_lt bbPosition (Num 0.2) then score + 10
                   else if js_gt bbPosition (Num 0.8) then score - 10
                   else score);
          score = (if js_gt (volumeRatio technical) (Num 1.5) then score + 10
                   else if js_lt (volumeRatio technical) (Num 0.5) then score - 10
                   else score)
      in max 0 (min 100 score))"

text \<open>
  \<^verbatim>\<open>generateSignals\<close>: the loop-free sequence of tests, each appending a signal and
  counting it as bullish or bearish; the state is (signals, bullishCount, bearishCount).
\<close>

definition generateSignals ::
  "TechnicalIndicators \<Rightarrow> MomentumIndicators \<Rightarrow> real list \<Rightarrow> trend \<times> string list" where
  "generateSignals technical momentumInd prices =
     (let st = ([], 0::nat, 0::nat);
          st = (case st of (signals, bullishCount, bearishCount) \<Rightarrow>
                  if js_lt (rsi technical) (Num 30)
                  then (signals @ [''RSI oversold''], bullishCount + 1, bearishCount)
                  else if js_gt (rsi technical) (Num 70)
                  then (signals @ [''RSI overbought''], bullishCount, bearishCount + 1)
                  else (signals, bullishCount, bearishCount));
          st = (case st of (signals, bullishCount, bearishCount) \<Rightarrow>
                  if js_gt (histogram (macd technical)) (Num 0)
                  then (signals @ [''MACD bullish''], bullishCount + 1, bearishCount)
                  else (signals @ [''MACD bearish''], bullishCount, bearishCount + 1));
          currentPrice = js_last prices;
          st = (case st of (signals, bullishCount, bearishCount) \<Rightarrow>
                  if js_gt currentPrice (sma50 technical)
                  then (signals @ [''Above 50-day SMA''], bullishCount + 1, bearishCount)
                  else (signals @ [''Below 50-day SMA''], bullishCount, bearishCount + 1));
          st = (case st of (signals, bullishCount, bearishCount) \<Rightarrow>
                  if js_gt (momentum momentumInd) (Num 10)
                  then (signals @ [''Strong momentum''], bullishCount + 1, bearishCount)
                  else if js_lt (momentum momentumInd) (Num (- 10))
                  then (signals @ [''Weak momentum''], bullishCount, bearishCount + 1)
                  else (signals, bullishCount, bearishCount));
          st = (case st of (signals, bullishCount, bearishCount) \<Rightarrow>
                  if js_gt (volumeMomentum momentumInd) (Num 20)
                  then (signals @ [''Volume increasing''], bullishCount + 1, bearishCount)
                  else (signals, bullishCount, bearishCount))
      in case st of (signals, bullishCount, bearishCount) \<Rightarrow>
           (if bullishCount > bearishCount + 1 then bullish
            else if bearishCount > bullishCount + 1 then bearish
            else neutral,
            signals))"

section \<open>Risk scoring service (market_data.ts)\<close>

record CoinDetail =
  id' :: string
  symbol :: string
  name :: string
  description :: "string option"
  image :: "string option"
  current_price :: real
  market_cap :: real
  market_cap_rank :: real
  total_volume :: real
  price_change_percentage_24h :: real
  price_change_percentage_7d :: real
  price_change_percentage_30d :: real
  total_supply :: "real option"
  max_supply :: "real option"
  circulating_supply :: "real option"

record PriceHistory =
  prices :: "(real \<times> real) list"
  market_caps :: "(real \<times> real) list"
  total_volumes :: "(real \<times> real) list"

text \<open>
  The market-data collaborator: each call either throws or returns its payload.
  \<open>history svc coinId vsCurrency days\<close> is \<^verbatim>\<open>marketDataService.history\<close>.
\<close>

record MarketDataService =
  coin :: "string \<Rightarrow> js_error + CoinDetail"
  history :: "string \<Rightarrow> string \<Rightarrow> nat \<Rightarrow> js_error + PriceHistory"

record RiskFactors =
  volatility :: real
  marketCap :: real
  liquidity :: real
  age :: real
  development :: real
  centralization :: real
  regulatory :: real
  technical :: real

record RewardFactors =
  growth :: real
  adoption :: real
  innovation :: real
  partnerships :: real
  utility :: real
  community :: real
  tokenomics :: real

text \<open>The category of a score result.\<close>

datatype category = cat_core | cat_medium | cat_high_risk | cat_quarantine

definition RISK_WEIGHTS :: "(string \<times> real) list" where
  "RISK_WEIGHTS =
     [(''volatility'', 0.25), (''marketCap'', 0.20), (''liquidity'', 0.15), (''age'', 0.10),
      (''development'', 0.10), (''centralization'', 0.08), (''regulatory'', 0.07),
      (''technical'', 0.05)]"

definition REWARD_WEIGHTS :: "(string \<times> real) list" where
  "REWARD_WEIGHTS =
     [(''growth'', 0.20), (''adoption'', 0.18), (''innovation'', 0.15), (''utility'', 0.12),
      (''partnerships'', 0.10), (''community'', 0.10), (''tokenomics'', 0.15)]"

definition MEGA_CAP :: real where "MEGA_CAP = 100000000000"
definition LARGE_CAP :: real where "LARGE_CAP = 10000000000"
definition MID_CAP :: real where "MID_CAP = 1000000000"
definition SMALL_CAP :: real where "SMALL_CAP = 100000000"
definition MICRO_CAP :: real where "MICRO_CAP = 10000000"

definition calculateVolatilityScore :: "(real \<times> real) list \<Rightarrow> real" where
  "calculateVolatilityScore prices' =
     (if length prices' < 2 then 50
      else (let returns =
                  concat (map (\<lambda>i. let currentPrice = snd (prices' ! i);
                                        previousPrice = snd (prices' ! (i - 1))
                                    in if previousPrice > 0
                                       then [(currentPrice - previousPrice) / previousPrice]
                                       else [])
                              [1 ..< length prices'])
            in if length returns = 0 then 50
               else (let mean = sumReduce returns / real (length returns);
                         variance = foldl (\<lambda>sum ret. sum + (ret - mean)\<^sup>2) 0 returns
                                      / real (length returns);
                         stdDev = sqrt variance
                     in min 100 (max 0 (stdDev * 1000)))))"

definition calculateMarketCapRisk :: "real \<Rightarrow> real" where
  "calculateMarketCapRisk marketCap' =
     (if marketCap' = 0 \<or> marketCap' \<le> 0 then 90
      else if marketCap' \<ge> MEGA_CAP then 5
      else if marketCap' \<ge> LARGE_CAP then 15
      else if marketCap' \<ge> MID_CAP then 30
      else if marketCap' \<ge> SMALL_CAP then 50
      else if marketCap' \<ge> MICRO_CAP then 70
      else 90)"

definition calculateLiquidityRisk :: "real \<Rightarrow> real \<Rightarrow> real" where
  "calculateLiquidityRisk volume marketCap' =
     (if volume = 0 \<or> volume \<le> 0 then 95
      else if marketCap' = 0 \<or> marketCap' \<le> 0 then 90
      else (let volumeRatio = volume / marketCap'
            in if volumeRatio \<ge> 0.1 then 10
               else if volumeRatio \<ge> 0.05 then 20
               else if volumeRatio \<ge> 0.02 then 35
               else if volumeRatio \<ge> 0.01 then 50
               else if volumeRatio \<ge> 0.005 then 70
               else 90))"

definition calculateAgeRisk :: "string \<Rightarrow> real" where
  "calculateAgeRisk coinId =
     (let knownOldCoins = [''bitcoin'', ''ethereum'', ''litecoin'', ''ripple'', ''bitcoin-cash''];
          knownNewCoins = [''solana'', ''cardano'', ''polkadot'', ''chainlink'', ''uniswap'']
      in if coinId \<in> set knownOldCoins then 10
         else if coinId \<in> set knownNewCoins then 40
         else 60)"

definition calculateDevelopmentRisk :: "string \<Rightarrow> real" where
  "calculateDevelopmentRisk coinId =
     (let activeProjects = [''ethereum'', ''bitcoin'', ''cardano'', ''solana'', ''polkadot'']
      in if coinId \<in> set activeProjects then 20 else 60)"

definition calculateCentralizationRisk :: "string \<Rightarrow> real" where
  "calculateCentralizationRisk coinId =
     (let decentralizedCoins = [''bitcoin'', ''ethereum'', ''litecoin''];
          somewhatCentralized = [''cardano'', ''solana'', ''polkadot'']
      in if coinId \<in> set decentralizedCoins then 15
         else if coinId \<in> set somewhatCentralized then 40
         else 70)"

definition calculateRegulatoryRisk :: "string \<Rightarrow> real" where
  "calculateRegulatoryRisk coinId =
     (let clearRegulatory = [''bitcoin'', ''ethereum''];
          unclearRegulatory = [''monero'', ''zcash'']
      in if coinId \<in> set clearRegulatory then 20
         else if coinId \<in> set unclearRegulatory then 80
         else 50)"

definition calculateTechnicalRisk :: "string \<Rightarrow> real" where
  "calculateTechnicalRisk coinId =
     (let highTech = [''ethereum'', ''cardano'', ''solana'', ''polkadot'']
      in if coinId \<in> set highTech then 20 else 50)"

text \<open>
  \<^verbatim>\<open>calculateRiskFactors\<close>: its own \<^verbatim>\<open>try\<close> absorbs a failed history fetch and keeps the
  default volatility of 50.
\<close>

definition calculateRiskFactors :: "MarketDataService \<Rightarrow> CoinDetail \<Rightarrow> RiskFactors" where
  "calculateRiskFactors svc data =
     (let volatilityScore = (case history svc (id' data) ''usd'' 30 of
                               Inr h \<Rightarrow> calculateVolatilityScore (prices h)
                             | Inl error \<Rightarrow> 50)
      in \<lparr> volatility = volatilityScore,
           marketCap = calculateMarketCapRisk (market_cap data),
           liquidity = calculateLiquidityRisk (total_volume data) (market_cap data),
           age = calculateAgeRisk (id' data),
           development = calculateDevelopmentRisk (id' data),
           centralization = calculateCentralizationRisk (id' data),
           regulatory = calculateRegulatoryRisk (id' data),
           technical = calculateTechnicalRisk (id' data) \<rparr>)"

definition calculateGrowthPotential :: "CoinDetail \<Rightarrow> real" where
  "calculateGrowthPotential data =
     (let recent24h = price_change_percentage_24h data;
          recent7d = price_change_percentage_7d data;
          recent30d = price_change_percentage_30d data;
          momentumScore = (recent24h + recent7d + recent30d) / 3;
          capAdjustment = (if market_cap data > LARGE_CAP then 30
                           else if market_cap data > MID_CAP then 50
                           else if market_cap data > SMALL_CAP then 70
                           else 85)
      in min 100 (max 0 (capAdjustment + (momentumScore * 2))))"

definition calculateAdoptionScore :: "CoinDetail \<Rightarrow> real" where
  "calculateAdoptionScore data =
     (let rankScore = (if market_cap_rank data \<noteq> 0 then max 0 (100 - market_cap_rank data)
                       else 20);
          volumeScore = min 50 (total_volume data / 1000000)
      in min 100 (rankScore + volumeScore))"

definition calculateInnovationScore :: "string \<Rightarrow> real" where
  "calculateInnovationScore coinId =
     (let highInnovation = [''ethereum'', ''cardano'', ''solana'', ''polkadot'', ''chainlink''];
          mediumInnovation = [''litecoin'', ''bitcoin-cash'', ''stellar'']
      in if coinId \<in> set highInnovation then 80
         else if coinId \<in> set mediumInnovation then 50
         else 30)"

definition calculatePartnershipScore :: "string \<Rightarrow> real" where
  "calculatePartnershipScore coinId =
     (let strongPartners = [''ethereum'', ''cardano'', ''chainlink'', ''ripple'']
      in if coinId \<in> set strongPartners then 70 else 40)"

text \<open>
  \<^verbatim>\<open>toLowerCase\<close> on the ASCII letters, and \<^verbatim>\<open>includes\<close>: the needle occurs as a
  contiguous run of characters.
\<close>

definition toLowerCase :: "string \<Rightarrow> string" where
  "toLowerCase s =
     map (\<lambda>c. if of_char c \<ge> (65::nat) \<and> of_char c \<le> (90::nat)
               then char_of (of_char c + (32::nat)) else c) s"

fun startsWith :: "string \<Rightarrow> string \<Rightarrow> bool" where
  "startsWith s [] = True"
| "startsWith [] (c # needle) = False"
| "startsWith (d # s) (c # needle) = (d = c \<and> startsWith s needle)"

fun includes_str :: "string \<Rightarrow> string \<Rightarrow> bool" where
  "includes_str [] needle = (needle = [])"
| "includes_str (d # s) needle = (startsWith (d # s) needle \<or> includes_str s needle)"

definition calculateUtilityScore :: "CoinDetail \<Rightarrow> real" where
  "calculateUtilityScore data =
     (let description = (case description data of Some d \<Rightarrow> toLowerCase d | None \<Rightarrow> '''');
          utilityScore = 30;
          utilityScore = (if includes_str description ''smart contract''
                          then utilityScore + 20 else utilityScore);
          utilityScore = (if includes_str description ''defi''
                             \<or> includes_str description ''decentralized finance''
                          then utilityScore + 15 else utilityScore);
          utilityScore = (if includes_str description ''payment'' \<or> includes_str description ''currency''
                          then utilityScore + 10 else utilityScore);
          utilityScore = (if includes_str description ''oracle'' \<or> includes_str description ''data''
                          then utilityScore + 15 else utilityScore);
          utilityScore = (if includes_str description ''governance''
                          then utilityScore + 10 else utilityScore)
      in min 100 utilityScore)"

definition calculateCommunityScore :: "string \<Rightarrow> real" where
  "calculateCommunityScore coinId =
     (let strongCommunity = [''bitcoin'', ''ethereum'', ''cardano'', ''solana'']
      in if coinId \<in> set strongCommunity then 80 else 45)"

text \<open>A number is truthy when it is present and not zero.\<close>

definition truthy :: "real option \<Rightarrow> bool" where
  "truthy v = (case v of Some x \<Rightarrow> x \<noteq> 0 | None \<Rightarrow> False)"

definition calculateTokenomicsScore :: "CoinDetail \<Rightarrow> real" where
  "calculateTokenomicsScore data =
     (let score = 50;
          score = (if truthy (max_supply data) \<and> truthy (circulating_supply data)
                   then (let circulationRatio = the (circulating_supply data) / the (max_supply data);
                             score = (if circulationRatio > 0.8 then score + 10 else score);
                             score = (if circulationRatio < 0.3 then score - 10 else score)
                         in score)
                   else score);
          score = (if truthy (max_supply data) \<and> the (max_supply data) > 0
                   then score + 15 else score - 10)
      in min 100 (max 0 score))"

definition calculateRewardFactors :: "CoinDetail \<Rightarrow> RewardFactors" where
  "calculateRewardFactors data =
     \<lparr> growth = calculateGrowthPotential data,
       adoption = calculateAdoptionScore data,
       innovation = calculateInnovationScore (id' data),
       partnerships = calculatePartnershipScore (id' data),
       utility = calculateUtilityScore data,
       community = calculateCommunityScore (id' data),
       tokenomics = calculateTokenomicsScore data \<rparr>"

text \<open>\<^verbatim>\<open>Object.entries\<close> of the two factor records, in the order of their fields.\<close>

definition riskEntries :: "RiskFactors \<Rightarrow> (string \<times> real) list" where
  "riskEntries f =
     [(''volatility'', volatility f), (''marketCap'', RiskFactors.marketCap f),
      (''liquidity'', liquidity f), (''age'', age f), (''development'', development f),
      (''centralization'', centralization f), (''regulatory'', regulatory f),
      (''technical'', RiskFactors.technical f)]"

definition rewardEntries :: "RewardFactors \<Rightarrow> (string \<times> real) list" where
  "rewardEntries f =
     [(''growth'', growth f), (''adoption'', adoption f), (''innovation'', innovation f),
      (''partnerships'', partnerships f), (''utility'', utility f),
      (''community'', community f), (''tokenomics'', tokenomics f)]"

definition calculateWeightedScore ::
  "(string \<times> real) list \<Rightarrow> (string \<times> real) list \<Rightarrow> real" where
  "calculateWeightedScore factors weights =
     foldl (\<lambda>score (factor, v).
              let weight = (case map_of weights factor of Some w \<Rightarrow> w | None \<Rightarrow> 0)
              in score + v * weight)
           0 factors"

definition determineCategory :: "real \<Rightarrow> real \<Rightarrow> CoinDetail \<Rightarrow> category" where
  "determineCategory riskScore rewardScore data =
     (if riskScore \<ge> 80 \<or> (riskScore \<ge> 60 \<and> rewardScore \<le> 20) then cat_quarantine
      else if riskScore \<le> 30 \<and> market_cap data > LARGE_CAP then cat_core
      else if rewardScore \<ge> 70 \<and> riskScore \<ge> 50 then cat_high_risk
      else cat_medium)"

definition calculateConfidence :: "CoinDetail \<Rightarrow> RiskFactors \<Rightarrow> RewardFactors \<Rightarrow> real" where
  "calculateConfidence data riskF rewardF =
     (let confidence = 100;
          confidence = (if market_cap data = 0 then confidence - 20 else confidence);
          confidence = (if total_volume data = 0 then confidence - 15 else confidence);
          confidence = (if description data = None \<or> description data = Some ''''
                        then confidence - 10 else confidence);
          confidence = (if market_cap_rank data = 0 then confidence - 10 else confidence);
          confidence = (if volatility riskF = 50 then confidence - 15 else confidence)
      in max 0 confidence)"

definition categoryName :: "category \<Rightarrow> string" where
  "categoryName c = (case c of cat_core \<Rightarrow> ''core'' | cat_medium \<Rightarrow> ''medium''
                     | cat_high_risk \<Rightarrow> ''high-risk'' | cat_quarantine \<Rightarrow> ''quarantine'')"

text \<open>
  \<^verbatim>\<open>generateExplanation\<close>. The conversion of a number to its decimal text is the
  runtime's; it is the parameter \<open>numberToString\<close>.
\<close>

definition generateExplanation ::
  "(real \<Rightarrow> string) \<Rightarrow> real \<Rightarrow> real \<Rightarrow> string \<Rightarrow> CoinDetail \<Rightarrow> string" where
  "generateExplanation numberToString riskScore rewardScore category data =
     (let riskLevel = (if riskScore \<le> 30 then ''low''
                       else if riskScore \<le> 60 then ''medium'' else ''high'');
          rewardLevel = (if rewardScore \<le> 30 then ''low''
                         else if rewardScore \<le> 60 then ''medium'' else ''high'');
          explanation = CoinDetail.name data @ '' has '' @ riskLevel @ '' risk (''
                          @ numberToString riskScore @ ''/100) and '' @ rewardLevel
                          @ '' reward potential ('' @ numberToString rewardScore @ ''/100). ''
      in if category = ''core''
         then explanation @ ''This is a core holding - established, lower-risk cryptocurrency suitable for portfolio foundation.''
         else if category = ''medium''
         then explanation @ ''This is a medium-risk investment with balanced risk/reward characteristics.''
         else if category = ''high-risk''
         then explanation @ ''This is a high-risk, high-reward opportunity. Only suitable for risk-tolerant investors.''
         else if category = ''quarantine''
         then explanation @ ''This asset is in quarantine due to high risk or insufficient data. Avoid or research extensively.''
         else explanation)"

definition getDefaultRiskFactors :: RiskFactors where
  "getDefaultRiskFactors =
     \<lparr> volatility = 80, marketCap = 90, liquidity = 85, age = 70, development = 60,
       centralization = 70, regulatory = 80, technical = 60 \<rparr>"

definition getDefaultRewardFactors :: RewardFactors where
  "getDefaultRewardFactors =
     \<lparr> growth = 10, adoption = 5, innovation = 10, partnerships = 10, utility = 15,
       community = 10, tokenomics = 20 \<rparr>"

record Factors =
  risk :: RiskFactors
  reward :: RewardFactors

record ScoreResult =
  riskScore :: real
  rewardScore :: real
  category :: category
  factors :: Factors
  confidence :: real
  explanation :: string

text \<open>
  The body of the \<^verbatim>\<open>try\<close> block of \<^verbatim>\<open>calculateScore\<close>. The coin is fetched only when no
  coin data was passed; a throwing fetch ends the block.
\<close>

definition calculateScoreTry ::
  "MarketDataService \<Rightarrow> (real \<Rightarrow> string) \<Rightarrow> string \<Rightarrow> CoinDetail option
     \<Rightarrow> js_error + ScoreResult" where
  "calculateScoreTry svc numberToString coinId coinData =
     (case (case coinData of Some d \<Rightarrow> Inr d | None \<Rightarrow> coin svc coinId) of
        Inl error \<Rightarrow> Inl error
      | Inr data \<Rightarrow>
          (let riskFactors = calculateRiskFactors svc data;
               rewardFactors = calculateRewardFactors data;
               riskScore = calculateWeightedScore (riskEntries riskFactors) RISK_WEIGHTS;
               rewardScore = calculateWeightedScore (rewardEntries rewardFactors) REWARD_WEIGHTS;
               category = determineCategory riskScore rewardScore data;
               confidence = calculateConfidence data riskFactors rewardFactors;
               explanation = generateExplanation numberToString riskScore rewardScore
                               (categoryName category) data
           in Inr \<lparr> riskScore = js_round riskScore,
                    rewardScore = js_round rewardScore,
                    category = category,
                    factors = \<lparr> risk = riskFactors, reward = rewardFactors \<rparr>,
                    confidence = js_round confidence,
                    explanation = explanation \<rparr>))"

text \<open>\<^verbatim>\<open>calculateScore\<close>: the \<^verbatim>\<open>catch\<close> block replaces every error by the default result.\<close>

definition calculateScore ::
  "MarketDataService \<Rightarrow> (real \<Rightarrow> string) \<Rightarrow> string \<Rightarrow> CoinDetail option
     \<Rightarrow> js_error + ScoreResult" where
  "calculateScore svc numberToString coinId coinData =
     (case calculateScoreTry svc numberToString coinId coinData of
        Inr result \<Rightarrow> Inr result
      | Inl error \<Rightarrow>
          Inr \<lparr> riskScore = 95, rewardScore = 5, category = cat_quarantine,
                factors = \<lparr> risk = getDefaultRiskFactors, reward = getDefaultRewardFactors \<rparr>,
                confidence = 0,
                explanation = ''Unable to calculate accurate risk score due to insufficient data.'' \<rparr>)"

section \<open>Starter portfolio: data model (starter-portfolio.ts)\<close>

text \<open>
  The interfaces of the service, field by field. Where two records have a field of the
  same name, the field is written with its record, as in \<open>PolicyData.bucketCaps\<close>.
  The bucket caps, an object with the keys High, Medium and Low, are a function of the
  bucket; a holdings range is a pair of integers; the two dates of the market metrics are
  timestamps.
\<close>

text \<open>A ranked candidate: the \<^verbatim>\<open>CoinScore\<close> of the ranking engine.\<close>

record MarketMetrics =
  marketCap :: real
  volume24h :: real
  circulatingSupply :: real
  totalSupply :: real
  priceChange24h :: real
  priceChange7d :: real
  priceChange30d :: real
  priceChange1y :: real
  ath :: real
  athDate :: int
  atl :: real
  atlDate :: int

record RiskMetrics =
  volatility30d :: jsnum
  sharpeRatio :: jsnum
  maxDrawdown :: jsnum
  beta :: jsnum
  downsideDeviation :: jsnum
  valueAtRisk :: jsnum

record CoinScore =
  coinId :: string
  symbol :: string
  name :: string
  technicalScore :: real
  momentumScore :: real
  volumeScore :: real
  volatilityScore :: real
  fundamentalScore :: real
  totalScore :: real
  technical :: TechnicalIndicators
  market :: MarketMetrics
  momentum :: MomentumIndicators
  risk :: RiskMetrics
  signals :: "string list"
  trend :: trend
  confidence :: real

datatype riskName = Conservative | Balanced | Aggressive
datatype experienceLevel = Beginner | Intermediate | Advanced
datatype horizonLength = ShortHorizon | MediumHorizon | LongHorizon
datatype rebalanceCadence = Quarterly | Semiannual | Annual
datatype role = Core | Satellite | Stable
datatype bucket = Low | Medium | High

record RiskProfile =
  name :: riskName
  coreTargetPct :: real
  btcTargetPct :: real
  ethTargetPct :: real
  stableBufferPct :: real
  satelliteTargetPct :: real
  bucketCaps :: "bucket \<Rightarrow> real"
  perAssetCapPct :: real
  perCategoryCapPct :: real
  holdingsTargetRange :: "int \<times> int"
  liquidityRankLimit :: nat

record Exclusions =
  coins :: "string list"
  categories :: "string list"

record Liquidity =
  minMarketCapUsd :: real
  minVolToMcap :: real

record IntakeData =
  experience :: experienceLevel
  riskTolerance :: riskName
  horizon :: horizonLength
  maxDrawdownComfort :: nat
  monthlyContributionUsd :: real
  initialLumpSumUsd :: "real option"
  preferredCategories :: "string list"
  exclusions :: Exclusions
  liquidity :: Liquidity
  holdingsRange :: "int \<times> int"
  rebalance :: rebalanceCadence
  stablecoinBufferPct :: real
  practiceMode :: "bool option"

text \<open>One satellite of the advisory response, as parsed from its JSON.\<close>

record AdvisorySatellite =
  coin_id :: string
  symbol :: string
  name :: string
  bucket :: bucket
  allocation_pct :: real
  reasons :: "string list option"
  risks :: "string list option"

record DcaPlan =
  amountUsd :: jsnum
  cadence :: string

record AllocationItem =
  coinId :: string
  symbol :: string
  name :: string
  role :: role
  bucket :: bucket
  allocationPct :: real
  reasons :: "string list"
  risks :: "string list"
  dca :: DcaPlan

record PolicyData =
  riskTolerance :: riskName
  coreTargetPct :: real
  btcTargetPct :: real
  ethTargetPct :: real
  stableBufferPct :: real
  satelliteTargetPct :: real
  bucketCaps :: "bucket \<Rightarrow> real"
  perAssetCapPct :: real
  perCategoryCapPct :: real
  holdingsTargetRange :: "int \<times> int"
  rebalance :: rebalanceCadence

section \<open>Policy resolution\<close>

text \<open>The three presets of \<^verbatim>\<open>riskProfiles\<close>, keyed by the risk tolerance.\<close>

fun riskProfiles :: "riskName \<Rightarrow> RiskProfile" where
  "riskProfiles Conservative =
     \<lparr> RiskProfile.name = Conservative, coreTargetPct = 0.75, btcTargetPct = 0.50,
       ethTargetPct = 0.25, stableBufferPct = 0.15, satelliteTargetPct = 0.10,
       bucketCaps = (\<lambda>b. case b of High \<Rightarrow> 0.00 | Medium \<Rightarrow> 0.60 | Low \<Rightarrow> 1.0),
       perAssetCapPct = 0.25, perCategoryCapPct = 0.35,
       holdingsTargetRange = (6, 10), liquidityRankLimit = 100 \<rparr>"
| "riskProfiles Balanced =
     \<lparr> RiskProfile.name = Balanced, coreTargetPct = 0.55, btcTargetPct = 0.35,
       ethTargetPct = 0.20, stableBufferPct = 0.05, satelliteTargetPct = 0.40,
       bucketCaps = (\<lambda>b. case b of High \<Rightarrow> 0.15 | Medium \<Rightarrow> 0.60 | Low \<Rightarrow> 1.0),
       perAssetCapPct = 0.15, perCategoryCapPct = 0.40,
       holdingsTargetRange = (8, 12), liquidityRankLimit = 200 \<rparr>"
| "riskProfiles Aggressive =
     \<lparr> RiskProfile.name = Aggressive, coreTargetPct = 0.40, btcTargetPct = 0.24,
       ethTargetPct = 0.16, stableBufferPct = 0.05, satelliteTargetPct = 0.55,
       bucketCaps = (\<lambda>b. case b of High \<Rightarrow> 0.30 | Medium \<Rightarrow> 0.60 | Low \<Rightarrow> 1.0),
       perAssetCapPct = 0.12, perCategoryCapPct = 0.45,
       holdingsTargetRange = (10, 16), liquidityRankLimit = 300 \<rparr>"

definition buildPolicy :: "IntakeData \<Rightarrow> PolicyData" where
  "buildPolicy intake =
     (let baseProfile = riskProfiles (IntakeData.riskTolerance intake);
          stableBuffer = max (stablecoinBufferPct intake / 100)
                             (RiskProfile.stableBufferPct baseProfile);
          coreTarget = max 0.3 (RiskProfile.coreTargetPct baseProfile - stableBuffer);
          satelliteTarget = 1.0 - coreTarget - stableBuffer
      in \<lparr> PolicyData.riskTolerance = IntakeData.riskTolerance intake,
           coreTargetPct = coreTarget,
           btcTargetPct = RiskProfile.btcTargetPct baseProfile
                            * (coreTarget / RiskProfile.coreTargetPct baseProfile),
           ethTargetPct = RiskProfile.ethTargetPct baseProfile
                            * (coreTarget / RiskProfile.coreTargetPct baseProfile),
           stableBufferPct = stableBuffer,
           satelliteTargetPct = satelliteTarget,
           bucketCaps = RiskProfile.bucketCaps baseProfile,
           perAssetCapPct = RiskProfile.perAssetCapPct baseProfile,
           perCategoryCapPct = RiskProfile.perCategoryCapPct baseProfile,
           holdingsTargetRange = holdingsRange intake,
           rebalance = IntakeData.rebalance intake \<rparr>)"

section \<open>Candidate filter\<close>

text \<open>
  The risk bucket of a candidate, from its 30-day volatility: the conditional expression
  that \<^verbatim>\<open>filterCandidates\<close>, \<^verbatim>\<open>selectSatellitesWithAI\<close> and \<^verbatim>\<open>fallbackSatelliteSelection\<close>
  each write out.
\<close>

definition riskLevel :: "CoinScore \<Rightarrow> bucket" where
  "riskLevel c =
     (if js_lt (volatility30d (risk c)) (Num 30) then Low
      else if js_lt (volatility30d (risk c)) (Num 70) then Medium
      else High)"

text \<open>
  \<^verbatim>\<open>filterCandidates\<close>. The rank of a coin is its position in the ranked array plus one
  (\<^verbatim>\<open>indexOf\<close> finds each object at its own position).
\<close>

definition filterCandidates :: "CoinScore list \<Rightarrow> IntakeData \<Rightarrow> PolicyData \<Rightarrow> CoinScore list" where
  "filterCandidates rankedCoins intake policy =
     (let riskProfile = riskProfiles (IntakeData.riskTolerance intake)
      in map snd
           (filter
              (\<lambda>(i, c).
                 if MarketMetrics.marketCap (market c) < minMarketCapUsd (liquidity intake)
                 then False
                 else if js_lt (js_div (Num (volume24h (market c)))
                                       (Num (MarketMetrics.marketCap (market c))))
                               (Num (minVolToMcap (liquidity intake)))
                 then False
                 else if i + 1 > liquidityRankLimit riskProfile then False
                 else if CoinScore.coinId c \<in> set (coins (exclusions intake)) then False
                 else if PolicyData.bucketCaps policy (riskLevel c) = 0 then False
                 else (let coreCoins = [''bitcoin'', ''ethereum''];
                           stablecoins = [''usd-coin'', ''tether'', ''dai'', ''true-usd'',
                                          ''binance-usd'']
                       in if CoinScore.coinId c \<in> set coreCoins
                             \<or> CoinScore.coinId c \<in> set stablecoins
                          then False else True))
              (zip [0 ..< length rankedCoins] rankedCoins)))"

section \<open>Allocation composition\<close>

definition buildCoreAllocations :: "PolicyData \<Rightarrow> IntakeData \<Rightarrow> AllocationItem list" where
  "buildCoreAllocations policy intake =
     [ \<lparr> coinId = ''bitcoin'', symbol = ''BTC'', name = ''Bitcoin'', role = Core, bucket = Low,
         allocationPct = btcTargetPct policy,
         reasons = [''Digital gold standard'', ''Highest liquidity'', ''Store of value''],
         risks = [''Macro sensitivity'', ''Regulatory uncertainty''],
         dca = \<lparr> amountUsd = Num 0, cadence = ''Monthly'' \<rparr> \<rparr>,
       \<lparr> coinId = ''ethereum'', symbol = ''ETH'', name = ''Ethereum'', role = Core,
         bucket = Medium, allocationPct = ethTargetPct policy,
         reasons = [''Smart contract platform'', ''DeFi ecosystem'', ''ETH 2.0 staking''],
         risks = [''L2 competition'', ''Gas fee volatility'', ''Execution risk''],
         dca = \<lparr> amountUsd = Num 0, cadence = ''Monthly'' \<rparr> \<rparr> ]
     @ (if stableBufferPct policy > 0
        then [ \<lparr> coinId = ''usd-coin'', symbol = ''USDC'', name = ''USD Coin'', role = Stable,
                 bucket = Low, allocationPct = stableBufferPct policy,
                 reasons = [''Capital preservation'', ''Buy dip opportunities'',
                            ''Risk management''],
                 risks = [''Issuer risk'', ''Regulatory risk'', ''No growth potential''],
                 dca = \<lparr> amountUsd = Num 0, cadence = ''Monthly'' \<rparr> \<rparr> ]
        else [])"

text \<open>
  \<^verbatim>\<open>validateAndCapSatellites\<close>, in its four passes: the per-asset clamp, the bucket
  totals, the scaling of each bucket over its cap (in the key order High, Medium, Low of
  \<^verbatim>\<open>bucketTotals\<close>, against the totals taken before any scaling), and the stable sort by
  descending allocation with the cut to \<^verbatim>\<open>holdingsTargetRange[1] - 3\<close> items.
  A bucket that is over its cap with a total of exactly zero has an infinite scale: its
  items become NaN or infinite, and the run is \<open>Inl NonFinite\<close>.
\<close>

definition capPerAsset :: "AllocationItem list \<Rightarrow> PolicyData \<Rightarrow> AllocationItem list" where
  "capPerAsset satellites policy =
     map (\<lambda>sat. if allocationPct sat > perAssetCapPct policy
                then sat\<lparr>allocationPct := perAssetCapPct policy\<rparr> else sat)
         satellites"

definition bucketTotals :: "AllocationItem list \<Rightarrow> bucket \<Rightarrow> real" where
  "bucketTotals satellites =
     foldl (\<lambda>totals sat.
              totals(AllocationItem.bucket sat :=
                       totals (AllocationItem.bucket sat) + allocationPct sat))
           (\<lambda>b. 0) satellites"

definition scaleBucket ::
  "(bucket \<Rightarrow> real) \<Rightarrow> PolicyData \<Rightarrow> bucket \<Rightarrow> AllocationItem list
     \<Rightarrow> js_error + AllocationItem list" where
  "scaleBucket totals policy b satellites =
     (let total = totals b;
          cap = PolicyData.bucketCaps policy b
      in if total > cap
         then (if total = 0
               then (if filter (\<lambda>s. AllocationItem.bucket s = b) satellites = []
                     then Inr satellites else Inl NonFinite)
               else (let scale = cap / total
                     in Inr (map (\<lambda>s. if AllocationItem.bucket s = b
                                        then s\<lparr>allocationPct := allocationPct s * scale\<rparr>
                                        else s)
                                 satellites)))
         else Inr satellites)"

definition validateAndCapSatellites ::
  "AllocationItem list \<Rightarrow> PolicyData \<Rightarrow> js_error + AllocationItem list" where
  "validateAndCapSatellites satellites policy =
     (let capped = capPerAsset satellites policy;
          totals = bucketTotals capped;
          scaled = foldl (\<lambda>acc b. case acc of Inl e \<Rightarrow> Inl e
                                     | Inr sats \<Rightarrow> scaleBucket totals policy b sats)
                         (Inr capped) [High, Medium, Low]
      in case scaled of
           Inl e \<Rightarrow> Inl e
         | Inr sats \<Rightarrow>
             (let sorted = sort_key (\<lambda>s. - allocationPct s) sats;
                  maxHoldings = snd (PolicyData.holdingsTargetRange policy) - 3
              in Inr (js_slice 0 maxHoldings sorted)))"

definition trendName :: "trend \<Rightarrow> string" where
  "trendName t = (case t of bullish \<Rightarrow> ''bullish'' | bearish \<Rightarrow> ''bearish''
                  | neutral \<Rightarrow> ''neutral'')"

text \<open>
  \<^verbatim>\<open>fallbackSatelliteSelection\<close>. The loop state is the list built so far and the amount
  already placed in each bucket. \<^verbatim>\<open>toFixed(1)\<close>, the runtime's decimal formatting, is the
  parameter \<open>toFixed1\<close>. With \<^verbatim>\<open>maxSatellites\<close> zero the target per satellite is infinite
  or NaN, but \<^verbatim>\<open>candidates.slice(0, 0)\<close> is empty and the target is never used.
\<close>

definition fallbackSatelliteSelection ::
  "(real \<Rightarrow> string) \<Rightarrow> CoinScore list \<Rightarrow> PolicyData \<Rightarrow> AllocationItem list" where
  "fallbackSatelliteSelection toFixed1 candidates policy =
     (let maxSatellites = snd (PolicyData.holdingsTargetRange policy) - 3
      in if maxSatellites = 0 then []
         else
           (let targetPerSat = PolicyData.satelliteTargetPct policy / real_of_int maxSatellites
            in fst (foldl
                 (\<lambda>(satellites, bucketLimits) c.
                    let b = riskLevel c
                    in if bucketLimits b < PolicyData.bucketCaps policy b
                       then (let allocation = min targetPerSat (PolicyData.perAssetCapPct policy)
                             in (satellites @
                                   [\<lparr> coinId = CoinScore.coinId c,
                                      symbol = CoinScore.symbol c,
                                      name = CoinScore.name c,
                                      role = Satellite,
                                      bucket = b,
                                      allocationPct = allocation,
                                      reasons = [''Score: '' @ toFixed1 (totalScore c),
                                                 ''Trend: '' @ trendName (trend c)],
                                      risks = [''Market volatility'', ''Project execution risk''],
                                      dca = \<lparr> amountUsd = Num 0, cadence = ''Monthly'' \<rparr> \<rparr>],
                                 bucketLimits(b := bucketLimits b + allocation)))
                       else (satellites, bucketLimits))
                 ([], (\<lambda>b. 0))
                 (js_slice 0 maxSatellites candidates))))"

text \<open>
  \<^verbatim>\<open>selectSatellitesWithAI\<close>. The chat request and \<^verbatim>\<open>JSON.parse\<close> either throw or give
  the parsed satellites (\<^verbatim>\<open>parsed.satellites || []\<close>): that outcome is the parameter
  \<open>advisory\<close>. Whatever is thrown inside the \<^verbatim>\<open>try\<close> block is caught and answered by
  the fallback selection.
\<close>

definition selectSatellitesWithAI ::
  "(real \<Rightarrow> string) \<Rightarrow> js_error + AdvisorySatellite list \<Rightarrow> CoinScore list \<Rightarrow> PolicyData
     \<Rightarrow> IntakeData \<Rightarrow> js_error + AllocationItem list" where
  "selectSatellitesWithAI toFixed1 advisory candidates policy intake =
     (case advisory of
        Inr parsed \<Rightarrow>
          (let satellites =
                 map (\<lambda>sat. \<lparr> coinId = coin_id sat,
                               symbol = AdvisorySatellite.symbol sat,
                               name = AdvisorySatellite.name sat,
                               role = Satellite,
                               bucket = AdvisorySatellite.bucket sat,
                               allocationPct = allocation_pct sat,
                               reasons = (case AdvisorySatellite.reasons sat of
                                            Some r \<Rightarrow> r | None \<Rightarrow> []),
                               risks = (case AdvisorySatellite.risks sat of
                                          Some r \<Rightarrow> r | None \<Rightarrow> []),
                               dca = \<lparr> amountUsd = Num 0, cadence = ''Monthly'' \<rparr> \<rparr>)
                     parsed
           in validateAndCapSatellites satellites policy)
      | Inl error \<Rightarrow> Inr (fallbackSatelliteSelection toFixed1 candidates policy))"

text \<open>
  \<^verbatim>\<open>allocation.reduce((sum, item) => sum + item.allocationPct, 0)\<close>, every addition
  rounded to binary64.
\<close>

definition totalAllocation :: "AllocationItem list \<Rightarrow> jsnum" where
  "totalAllocation allocation =
     foldl (\<lambda>sum item. f64_add sum (Num (allocationPct item))) (Num 0) allocation"

text \<open>
  \<^verbatim>\<open>allocation.forEach(item => { item.allocationPct *= scaleFactor; })\<close>. A share is a
  finite number in the model: a product that is NaN or infinite makes the run
  \<open>Inl NonFinite\<close>.
\<close>

primrec scaleAllocations :: "AllocationItem list \<Rightarrow> jsnum \<Rightarrow> js_error + AllocationItem list" where
  "scaleAllocations [] scaleFactor = Inr []"
| "scaleAllocations (item # rest) scaleFactor =
     (case f64_mul (Num (allocationPct item)) scaleFactor of
        Num share \<Rightarrow>
          (case scaleAllocations rest scaleFactor of
             Inr scaled \<Rightarrow> Inr (item\<lparr>allocationPct := share\<rparr> # scaled)
           | Inl e \<Rightarrow> Inl e)
      | _ \<Rightarrow> Inl NonFinite)"

text \<open>
  \<^verbatim>\<open>combineAndValidateAllocations\<close>, in binary64: the literal \<^verbatim>\<open>0.01\<close> is the double
  nearest to 1/100. With a total of zero the scale factor \<^verbatim>\<open>1.0 / totalAllocation\<close> is
  infinite and every item of the list becomes NaN or an infinity. The two
  \<^verbatim>\<open>console.warn\<close> calls do not change the returned list; they are \<open>holdingsWarnings\<close>
  below.
\<close>

definition combineAndValidateAllocations ::
  "AllocationItem list \<Rightarrow> AllocationItem list \<Rightarrow> PolicyData \<Rightarrow> IntakeData
     \<Rightarrow> js_error + AllocationItem list" where
  "combineAndValidateAllocations core satellites policy intake =
     (let allocation = core @ satellites;
          total = totalAllocation allocation
      in if js_gt (js_abs (f64_sub total (Num 1.0))) (Num (b64 0.01))
         then (let scaleFactor = f64_div (Num 1.0) total
               in scaleAllocations allocation scaleFactor)
         else Inr allocation)"

datatype holdingsWarning = BelowMinimum nat int | AboveMaximum nat int

definition holdingsWarnings :: "AllocationItem list \<Rightarrow> IntakeData \<Rightarrow> holdingsWarning list" where
  "holdingsWarnings allocation intake =
     (if int (length allocation) < fst (holdingsRange intake)
      then [BelowMinimum (length allocation) (fst (holdingsRange intake))] else [])
     @ (if int (length allocation) > snd (holdingsRange intake)
        then [AboveMaximum (length allocation) (snd (holdingsRange intake))] else [])"

section \<open>Contribution plans\<close>

text \<open>\<^verbatim>\<open>addDcaPlans\<close>, in binary64: the product, the quotient and the multiple of 5.\<close>

definition addDcaPlans :: "AllocationItem list \<Rightarrow> IntakeData \<Rightarrow> AllocationItem list" where
  "addDcaPlans allocation intake =
     (let totalContribution = monthlyContributionUsd intake
      in map (\<lambda>item.
                let dcaAmount =
                      f64_mul (js_roundnum
                                 (f64_div (f64_mul (Num (allocationPct item))
                                                   (Num totalContribution))
                                          (Num 5)))
                              (Num 5)
                in item\<lparr>dca := \<lparr> amountUsd = js_max dcaAmount (Num 5), cadence = ''Monthly'' \<rparr>\<rparr>)
             allocation)"

section \<open>Example inputs\<close>

text \<open>A market-data service whose every request fails.\<close>

definition failingService :: MarketDataService where
  "failingService =
     \<lparr> coin = (\<lambda>coinId. Inl (Thrown ''HTTP 500: Internal Server Error'')),
       history = (\<lambda>coinId vsCurrency days. Inl (Thrown ''HTTP 500: Internal Server Error'')) \<rparr>"

text \<open>An allocation row with a given share, and the intake form with its defaults.\<close>

definition exampleItem :: "real \<Rightarrow> AllocationItem" where
  "exampleItem pct =
     \<lparr> coinId = ''bitcoin'', symbol = ''BTC'', name = ''Bitcoin'', role = Core, bucket = Low,
       allocationPct = pct, reasons = [], risks = [],
       dca = \<lparr> amountUsd = Num 0, cadence = ''Monthly'' \<rparr> \<rparr>"

definition exampleIntake :: "riskName \<Rightarrow> real \<Rightarrow> int \<times> int \<Rightarrow> real \<Rightarrow> IntakeData" where
  "exampleIntake tolerance buffer holdings monthly =
     \<lparr> experience = Beginner, riskTolerance = tolerance, horizon = MediumHorizon,
       maxDrawdownComfort = 30, monthlyContributionUsd = monthly,
       initialLumpSumUsd = Some 1000, preferredCategories = [''L1'', ''L2/Scaling'', ''DeFi''],
       exclusions = \<lparr> coins = [], categories = [''Meme''] \<rparr>,
       liquidity = \<lparr> minMarketCapUsd = 1000000000, minVolToMcap = 0.005 \<rparr>,
       holdingsRange = holdings, rebalance = Quarterly, stablecoinBufferPct = buffer,
       practiceMode = Some True \<rparr>"

text \<open>
  Scenario A: the 40 closes 1, 2, ..., 40, strictly increasing, with a constant volume.
\<close>

definition risingPrices :: "real list" where
  "risingPrices = map real [1 ..< 41]"

definition constantVolumes :: "real list" where
  "constantVolumes = replicate 40 1000"


text \<open>A ranked candidate with a given 30-day volatility.\<close>

definition exampleCandidate :: "string \<Rightarrow> string \<Rightarrow> real \<Rightarrow> CoinScore" where
  "exampleCandidate cid ticker vol =
     \<lparr> CoinScore.coinId = cid, symbol = ticker, name = cid,
       technicalScore = 60, momentumScore = 60, volumeScore = 60, volatilityScore = 40,
       fundamentalScore = 60, totalScore = 57,
       technical =
         \<lparr> rsi = Num 55,
           macd = \<lparr> macdValue = Num 1, signal = Num 0.9, histogram = Num 0.1 \<rparr>,
           sma20 = Num 1, sma50 = Num 1, ema12 = Num 1, ema26 = Num 1,
           bollingerBands = \<lparr> upper = Num 1.2, middle = Num 1, lower = Num 0.8,
                              width = Num 40 \<rparr>,
           atr = Num 0.05, obv = Num 0, volumeRatio = Num 1 \<rparr>,
       market =
         \<lparr> MarketMetrics.marketCap = 20000000000, volume24h = 2000000000,
           circulatingSupply = 140000000000, totalSupply = 140000000000,
           priceChange24h = 1, priceChange7d = 3, priceChange30d = 8, priceChange1y = 40,
           ath = 0.7, athDate = 1620000000000, atl = 0.0001, atlDate = 1430000000000 \<rparr>,
       momentum =
         \<lparr> MomentumIndicators.momentum = Num 5, rateOfChange = Num 5, priceVelocity = Num 1,
           trendStrength = Num 2, volumeMomentum = Num 0 \<rparr>,
       risk =
         \<lparr> volatility30d = Num vol, sharpeRatio = Num 1, maxDrawdown = Num 30,
           beta = Num (vol / 20), downsideDeviation = Num 40, valueAtRisk = Num 5 \<rparr>,
       signals = [''MACD bullish'', ''Below 50-day SMA''], trend = neutral,
       confidence = 70 \<rparr>"

section \<open>Policy resolution: properties\<close>

lemma riskProfiles_core_pos: "0 < RiskProfile.coreTargetPct (riskProfiles t)"
  by (cases t) simp_all

text \<open>
  Claim C5. For every intake, \<^verbatim>\<open>buildPolicy\<close> resolves the stable buffer to the larger of
  the user's override (the intake percentage divided by 100) and the preset's default; the
  core target to the larger of 0.30 and the preset core minus that buffer; the satellite
  target to one minus core minus buffer; and the BTC and ETH targets to the preset values
  times the ratio of the resolved core to the preset core, which is never zero.
\<close>

theorem buildPolicy_resolves:
  "PolicyData.stableBufferPct (buildPolicy intake)
     = max (stablecoinBufferPct intake / 100)
           (RiskProfile.stableBufferPct (riskProfiles (IntakeData.riskTolerance intake)))
   \<and> PolicyData.coreTargetPct (buildPolicy intake)
     = max 0.30 (RiskProfile.coreTargetPct (riskProfiles (IntakeData.riskTolerance intake))
                  - PolicyData.stableBufferPct (buildPolicy intake))
   \<and> PolicyData.satelliteTargetPct (buildPolicy intake)
     = 1 - PolicyData.coreTargetPct (buildPolicy intake)
         - PolicyData.stableBufferPct (buildPolicy intake)
   \<and> 0 < RiskProfile.coreTargetPct (riskProfiles (IntakeData.riskTolerance intake))
   \<and> PolicyData.btcTargetPct (buildPolicy intake)
     = RiskProfile.btcTargetPct (riskProfiles (IntakeData.riskTolerance intake))
       * (PolicyData.coreTargetPct (buildPolicy intake)
          / RiskProfile.coreTargetPct (riskProfiles (IntakeData.riskTolerance intake)))
   \<and> PolicyData.ethTargetPct (buildPolicy intake)
     = RiskProfile.ethTargetPct (riskProfiles (IntakeData.riskTolerance intake))
       * (PolicyData.coreTargetPct (buildPolicy intake)
          / RiskProfile.coreTargetPct (riskProfiles (IntakeData.riskTolerance intake)))"
  by (simp add: buildPolicy_def Let_def riskProfiles_core_pos)

section \<open>Risk scoring: properties\<close>

text \<open>
  Claim C6. For every risk score, reward score and coin, \<^verbatim>\<open>determineCategory\<close> answers
  quarantine when the risk is at least 80, or at least 60 with a reward of at most 20;
  otherwise core when the risk is at most 30 and the market cap is above the large-cap
  threshold of ten billion; otherwise high-risk when the reward is at least 70 and the
  risk at least 50; otherwise medium.
\<close>

theorem determineCategory_cases:
  "determineCategory risk_score reward_score data =
     (if risk_score \<ge> 80 \<or> (risk_score \<ge> 60 \<and> reward_score \<le> 20) then cat_quarantine
      else if risk_score \<le> 30 \<and> market_cap data > 10000000000 then cat_core
      else if reward_score \<ge> 70 \<and> risk_score \<ge> 50 then cat_high_risk
      else cat_medium)"
  by (simp add: determineCategory_def LARGE_CAP_def)

text \<open>
  In the model the \<^verbatim>\<open>try\<close> block fails exactly when no coin data was passed and the
  fetch of the coin throws. A failed history fetch does not fail the block.
\<close>

lemma calculateScoreTry_fails_iff:
  "calculateScoreTry svc fmt cid cd = Inl e \<longleftrightarrow> (cd = None \<and> coin svc cid = Inl e)"
  by (auto simp: calculateScoreTry_def Let_def split: option.splits sum.splits)

text \<open>
  Claim C7. \<^verbatim>\<open>calculateScore\<close> never raises to its caller: for every service, coin id
  and optional coin data it returns a result, and whenever a step of its \<^verbatim>\<open>try\<close> block
  throws, that result is the default with risk score 95, reward score 5, category
  quarantine, confidence 0 and the generic explanation.
\<close>

theorem calculateScore_never_raises:
  "(\<exists>result. calculateScore svc fmt cid cd = Inr result)
   \<and> (\<forall>e. calculateScoreTry svc fmt cid cd = Inl e \<longrightarrow>
          calculateScore svc fmt cid cd =
            Inr \<lparr> riskScore = 95, rewardScore = 5, category = cat_quarantine,
                  factors = \<lparr> Factors.risk = getDefaultRiskFactors,
                              reward = getDefaultRewardFactors \<rparr>,
                  confidence = 0,
                  explanation = ''Unable to calculate accurate risk score due to insufficient data.'' \<rparr>)"
  by (simp add: calculateScore_def split: sum.splits)

theorem calculateScore_never_raises_witness:
  "calculateScoreTry failingService (\<lambda>x. ''0'') ''bitcoin'' None
     = Inl (Thrown ''HTTP 500: Internal Server Error'')
   \<and> calculateScore failingService (\<lambda>x. ''0'') ''bitcoin'' None =
       Inr \<lparr> riskScore = 95, rewardScore = 5, category = cat_quarantine,
             factors = \<lparr> Factors.risk = getDefaultRiskFactors,
                         reward = getDefaultRewardFactors \<rparr>,
             confidence = 0,
             explanation = ''Unable to calculate accurate risk score due to insufficient data.'' \<rparr>"
proof -
  have f: "calculateScoreTry failingService (\<lambda>x. ''0'') ''bitcoin'' None
             = Inl (Thrown ''HTTP 500: Internal Server Error'')"
    by (simp add: calculateScoreTry_def failingService_def)
  from calculateScore_never_raises [of failingService "\<lambda>x. ''0''" "''bitcoin''" None] f
  show ?thesis by blast
qed

section \<open>Binary64 arithmetic: properties\<close>

text \<open>The exponent that the search returns is not above the one of its argument.\<close>

lemma exponentUp_le: "1 \<le> y \<Longrightarrow> 2 powi (exponentUp n y) \<le> y"
proof (induction n arbitrary: y)
  case 0
  then show ?case by simp
next
  case (Suc n)
  show ?case
  proof (cases "2 \<le> y")
    case True
    then have "2 powi (exponentUp n (y / 2)) \<le> y / 2" using Suc.IH [of "y / 2"] by simp
    then show ?thesis using True by (simp add: power_int_add)
  next
    case False
    then show ?thesis using Suc.prems by simp
  qed
qed

lemma exponentUp_nonneg: "0 \<le> exponentUp n y"
  by (induction n arbitrary: y) simp_all

lemma exponentDown_stop: "\<not> z < 1 \<Longrightarrow> exponentDown n z = 0"
  by (cases n) simp_all

lemma exponentDown_spec:
  "0 < y \<Longrightarrow> y < 1 \<Longrightarrow>
   (2 powi (exponentDown n y) \<le> y \<or> exponentDown n y = - int n)
   \<and> - int n \<le> exponentDown n y \<and> (0 < n \<longrightarrow> exponentDown n y \<le> - 1)"
proof (induction n arbitrary: y)
  case 0
  then show ?case by simp
next
  case (Suc n)
  show ?case
  proof (cases "y * 2 < 1")
    case True
    have ih: "(2 powi (exponentDown n (y * 2)) \<le> y * 2 \<or> exponentDown n (y * 2) = - int n)
              \<and> - int n \<le> exponentDown n (y * 2)"
      using Suc.IH [of "y * 2"] Suc.prems True by simp
    have le0: "exponentDown n (y * 2) \<le> 0"
      using Suc.IH [of "y * 2"] Suc.prems True by (cases n) auto
    have "2 powi (exponentDown n (y * 2) - 1) = 2 powi (exponentDown n (y * 2)) / (2::real)"
      by (simp add: power_int_diff)
    then show ?thesis using ih le0 Suc.prems by auto
  next
    case False
    then have "exponentDown n (y * 2) = 0" by (rule exponentDown_stop)
    then show ?thesis using Suc.prems False by (simp add: power_int_minus)
  qed
qed

lemma binade_spec:
  assumes "x \<noteq> 0"
  shows "(2 powi (binade x) \<le> \<bar>x\<bar> \<or> binade x = - 1022) \<and> - 1022 \<le> binade x"
proof (cases "1 \<le> \<bar>x\<bar>")
  case True
  then show ?thesis
    using exponentUp_le [of "\<bar>x\<bar>" 1023] exponentUp_nonneg [of 1023 "\<bar>x\<bar>"]
    by (simp add: binade_def)
next
  case False
  then show ?thesis
    using exponentDown_spec [of "\<bar>x\<bar>" 1022] assms by (simp add: binade_def)
qed

lemma exponentDown_unfold:
  "0 < n \<Longrightarrow> exponentDown n y = (if y < 1 then exponentDown (n - 1) (y * 2) - 1 else 0)"
  by (cases n) simp_all

lemma binade_half: "1 / 2 \<le> \<bar>x\<bar> \<Longrightarrow> - 1 \<le> binade x"
proof (cases "1 \<le> \<bar>x\<bar>")
  case True
  then show ?thesis using exponentUp_nonneg [of 1023 "\<bar>x\<bar>"] by (simp add: binade_def)
next
  case False
  assume h: "1 / 2 \<le> \<bar>x\<bar>"
  have "exponentDown 1022 \<bar>x\<bar> = exponentDown 1021 (\<bar>x\<bar> * 2) - 1"
    using False exponentDown_unfold [of 1022 "\<bar>x\<bar>"] by simp
  moreover have "exponentDown 1021 (\<bar>x\<bar> * 2) = 0"
    using h by (intro exponentDown_stop) simp
  ultimately show ?thesis using False by (simp add: binade_def)
qed

lemma binade_small: "x \<noteq> 0 \<Longrightarrow> \<bar>x\<bar> < 1 \<Longrightarrow> binade x \<le> - 1"
  using exponentDown_spec [of "\<bar>x\<bar>" 1022] by (simp add: binade_def)

text \<open>Rounding to the nearest integer moves a number by at most one half.\<close>

lemma roundHalfEven_error: "\<bar>of_int (roundHalfEven y) - y\<bar> \<le> 1 / 2"
  unfolding roundHalfEven_def Let_def by (auto simp: abs_le_iff)

lemma roundHalfEven_int: "roundHalfEven (of_int m) = m"
  by (simp add: roundHalfEven_def)

lemma roundHalfEven_nonneg: "0 \<le> y \<Longrightarrow> 0 \<le> roundHalfEven y"
  by (simp add: roundHalfEven_def Let_def)

text \<open>
  One rounding: the error is at most the unit roundoff times the value, plus half the
  smallest subnormal number.
\<close>

lemma tiny_powi: "2 powi (- 1022) * unitRoundoff = tiny"
  by (simp add: tiny_def unitRoundoff_def power_int_minus_divide)

lemma b64_error: "\<bar>b64 x - x\<bar> \<le> \<bar>x\<bar> * unitRoundoff + tiny"
proof (cases "x = 0")
  case True
  then show ?thesis by (simp add: b64_def tiny_def)
next
  case False
  define e where "e = binade x - 52"
  define y where "y = x / 2 powi e"
  have p: "(0::real) < 2 powi e" by simp
  have x: "x = y * 2 powi e" using p by (simp add: y_def)
  have b: "b64 x = of_int (roundHalfEven y) * 2 powi e"
    using False by (simp add: b64_def Let_def e_def y_def)
  have "b64 x - x = of_int (roundHalfEven y) * 2 powi e - y * 2 powi e"
    using b x by simp
  then have "b64 x - x = (of_int (roundHalfEven y) - y) * 2 powi e"
    by (simp add: algebra_simps)
  then have "\<bar>b64 x - x\<bar> = \<bar>of_int (roundHalfEven y) - y\<bar> * 2 powi e"
    using p by (simp add: abs_mult)
  also have "\<dots> \<le> (1 / 2) * 2 powi e"
    using roundHalfEven_error [of y] p by (intro mult_right_mono) simp_all
  also have "\<dots> = 2 powi (binade x) * unitRoundoff"
    by (simp add: e_def power_int_diff unitRoundoff_def)
  finally have err: "\<bar>b64 x - x\<bar> \<le> 2 powi (binade x) * unitRoundoff" .
  have u0: "0 \<le> unitRoundoff" by (simp add: unitRoundoff_def)
  have t0: "0 \<le> tiny" by (simp add: tiny_def)
  from binade_spec [OF False] show ?thesis
  proof (elim conjE disjE)
    assume "2 powi (binade x) \<le> \<bar>x\<bar>"
    then have "2 powi (binade x) * unitRoundoff \<le> \<bar>x\<bar> * unitRoundoff"
      using u0 by (rule mult_right_mono)
    then show ?thesis using err t0 by linarith
  next
    assume "binade x = - 1022"
    then have "2 powi (binade x) * unitRoundoff = tiny"
      using tiny_powi by simp
    moreover have "0 \<le> \<bar>x\<bar> * unitRoundoff" using u0 by simp
    ultimately show ?thesis using err by linarith
  qed
qed

lemma b64_nonneg: "0 \<le> x \<Longrightarrow> 0 \<le> b64 x"
  by (simp add: b64_def Let_def roundHalfEven_nonneg)

text \<open>The exponent search finds the power of two at or below its argument.\<close>

lemma exponentUp_eq:
  "2 powi e \<le> y \<Longrightarrow> y < 2 powi (e + 1) \<Longrightarrow> 0 \<le> e \<Longrightarrow> e \<le> int n \<Longrightarrow> exponentUp n y = e"
proof (induction n arbitrary: y e)
  case 0
  then show ?case by simp
next
  case (Suc n)
  show ?case
  proof (cases "2 \<le> y")
    case True
    have "e \<noteq> 0"
    proof
      assume "e = 0"
      then show False using Suc.prems(2) True by simp
    qed
    then have e1: "1 \<le> e" using Suc.prems(3) by simp
    have a: "2 powi (e - 1) \<le> y / 2"
      using Suc.prems(1) by (simp add: power_int_diff)
    have b: "y / 2 < 2 powi (e - 1 + 1)"
      using Suc.prems(2) by (simp add: power_int_add)
    have "exponentUp n (y / 2) = e - 1"
      using a b e1 Suc.prems(4) by (intro Suc.IH) simp_all
    then show ?thesis using True by simp
  next
    case False
    have "e < 1"
    proof (rule ccontr)
      assume "\<not> e < 1"
      then have "1 \<le> e" by simp
      then have "(2::real) powi 1 \<le> 2 powi e" by (intro power_int_increasing) simp_all
      then show False using Suc.prems(1) False by simp
    qed
    then show ?thesis using False Suc.prems(3) by simp
  qed
qed

lemma exponentDown_eq:
  "2 powi e \<le> y \<Longrightarrow> y < 2 powi (e + 1) \<Longrightarrow> e \<le> - 1 \<Longrightarrow> - int n \<le> e
   \<Longrightarrow> exponentDown n y = e"
proof (induction n arbitrary: y e)
  case 0
  then show ?case by simp
next
  case (Suc n)
  have "(2::real) powi (e + 1) \<le> 2 powi 0"
    using Suc.prems(3) by (intro power_int_increasing) simp_all
  then have y1: "y < 1" using Suc.prems(2) by simp
  show ?case
  proof (cases "e = - 1")
    case True
    then have "\<not> y * 2 < 1" using Suc.prems(1) by (simp add: power_int_minus_divide)
    then have "exponentDown n (y * 2) = 0" by (rule exponentDown_stop)
    then show ?thesis using y1 True by simp
  next
    case False
    then have e2: "e + 1 \<le> - 1" using Suc.prems(3) by simp
    have a: "2 powi (e + 1) \<le> y * 2"
      using Suc.prems(1) by (simp add: power_int_add)
    have b: "y * 2 < 2 powi (e + 1 + 1)"
      using Suc.prems(2) by (simp add: power_int_add)
    have "exponentDown n (y * 2) = e + 1"
      using a b e2 Suc.prems(4) by (intro Suc.IH) simp_all
    then show ?thesis using y1 by simp
  qed
qed

text \<open>
  In the normal range the binade of a number is the exponent of the power of two at or
  below it, so the significand is rounded to 53 bits.
\<close>

lemma binade_eq:
  assumes "2 powi e \<le> \<bar>x\<bar>" and "\<bar>x\<bar> < 2 powi (e + 1)" and "- 1022 \<le> e" and "e \<le> 1023"
  shows "binade x = e"
proof (cases "1 \<le> \<bar>x\<bar>")
  case True
  have "0 \<le> e"
  proof (rule ccontr)
    assume "\<not> 0 \<le> e"
    then have "e + 1 \<le> 0" by simp
    then have "(2::real) powi (e + 1) \<le> 2 powi 0" by (intro power_int_increasing) simp_all
    then show False using assms(2) True by simp
  qed
  then show ?thesis
    using True assms exponentUp_eq [of e "\<bar>x\<bar>" 1023] by (simp add: binade_def)
next
  case False
  have "e \<le> - 1"
  proof (rule ccontr)
    assume "\<not> e \<le> - 1"
    then have "0 \<le> e" by simp
    then have "(2::real) powi 0 \<le> 2 powi e" by (intro power_int_increasing) simp_all
    then show False using assms(1) False by simp
  qed
  then show ?thesis
    using False assms exponentDown_eq [of e "\<bar>x\<bar>" 1022] by (simp add: binade_def)
qed

lemma b64_in_binade:
  assumes "2 powi e \<le> \<bar>x\<bar>" and "\<bar>x\<bar> < 2 powi (e + 1)" and "- 1022 \<le> e" and "e \<le> 1023"
  shows "b64 x = of_int (roundHalfEven (x / 2 powi (e - 52))) * 2 powi (e - 52)"
proof -
  have "0 < \<bar>x\<bar>" using assms(1) by (rule less_le_trans [rotated]) simp
  then have "x \<noteq> 0" by simp
  then show ?thesis using binade_eq [OF assms] by (simp add: b64_def Let_def)
qed


text \<open>The sizes of the two error terms, and the two one-sided forms of the bound.\<close>

lemma unitRoundoff_bounds: "0 < unitRoundoff \<and> unitRoundoff \<le> 1 / 1000000000000000"
  by (simp add: unitRoundoff_def)

lemma tiny_bounds: "0 < tiny \<and> tiny * 2 ^ 64 \<le> 1 / 1000000000000000"
  by (simp add: tiny_def)

lemma unitRoundoff_powi: "unitRoundoff = 2 powi (- 53)"
  by (simp add: unitRoundoff_def power_int_minus_divide)

lemma b64_upper: "0 \<le> x \<Longrightarrow> b64 x \<le> x * (1 + unitRoundoff) + tiny"
  using b64_error [of x] by (simp add: abs_le_iff algebra_simps)

lemma b64_lower: "0 \<le> x \<Longrightarrow> x * (1 - unitRoundoff) - tiny \<le> b64 x"
  using b64_error [of x] by (simp add: abs_le_iff algebra_simps)

text \<open>From one half on, every rounded value is a multiple of the unit roundoff.\<close>

lemma b64_grid:
  assumes "1 / 2 \<le> \<bar>x\<bar>"
  shows "\<exists>m::int. b64 x = of_int m * unitRoundoff"
proof -
  define e where "e = binade x - 52"
  have x0: "x \<noteq> 0" using assms by auto
  have e: "0 \<le> e + 53" using binade_half [OF assms] by (simp add: e_def)
  have "(2::real) powi ((e + 53) + (- 53)) = 2 powi (e + 53) * 2 powi (- 53)"
    by (rule power_int_add) simp
  moreover have "(e + 53) + (- 53) = e" by simp
  ultimately have "(2::real) powi e = 2 powi (e + 53) * 2 powi (- 53)" by simp
  also have "(2::real) powi (e + 53) = 2 ^ nat (e + 53)"
    using e by (simp add: power_int_def)
  finally have p: "(2::real) powi e = of_int (2 ^ nat (e + 53)) * unitRoundoff"
    by (simp add: unitRoundoff_powi)
  have "b64 x = of_int (roundHalfEven (x / 2 powi e)) * 2 powi e"
    using x0 by (simp add: b64_def Let_def e_def)
  also have "\<dots> = of_int (roundHalfEven (x / 2 powi e) * 2 ^ nat (e + 53)) * unitRoundoff"
    unfolding p by simp
  finally show ?thesis by blast
qed

text \<open>A multiple of the unit roundoff below 1 is a binary64 number: rounding keeps it.\<close>

lemma b64_exact:
  assumes "\<bar>of_int k * unitRoundoff\<bar> < 1"
  shows "b64 (of_int k * unitRoundoff) = of_int k * unitRoundoff"
proof (cases "k = 0")
  case True
  then show ?thesis by (simp add: b64_def)
next
  case False
  define x where "x = of_int k * unitRoundoff"
  define e where "e = binade x - 52"
  have x0: "x \<noteq> 0" using False unitRoundoff_bounds by (simp add: x_def)
  have e1: "0 \<le> - 53 - e" using binade_small [OF x0] assms by (simp add: e_def x_def)
  have "x / 2 powi e = of_int k * (2 powi (- 53) / 2 powi e)"
    by (simp add: x_def unitRoundoff_powi)
  also have "(2::real) powi (- 53) / 2 powi e = 2 powi (- 53 - e)"
    by (simp add: power_int_diff)
  also have "(2::real) powi (- 53 - e) = 2 ^ nat (- 53 - e)"
    using e1 by (simp add: power_int_def)
  finally have q: "x / 2 powi e = of_int (k * 2 ^ nat (- 53 - e))" by simp
  have "b64 x = of_int (roundHalfEven (x / 2 powi e)) * 2 powi e"
    using x0 by (simp add: b64_def Let_def e_def)
  also have "\<dots> = (x / 2 powi e) * 2 powi e"
    unfolding q roundHalfEven_int by simp
  also have "\<dots> = x" by simp
  finally show ?thesis by (simp add: x_def)
qed

text \<open>The literal \<^verbatim>\<open>0.01\<close>: the double nearest to 1/100.\<close>

lemma b64_hundredth: "b64 (1 / 100) = 5764607523034235 / 576460752303423488"
  by (subst b64_in_binade [where e = "- 7"]) (simp_all add: roundHalfEven_def)

text \<open>
  The tolerance test of the composition, on a total that is a binary64 number: the
  rounded difference exceeds the double nearest to 0.01 exactly when the difference
  itself exceeds 0.01.
\<close>

lemma tolerance_test:
  assumes t: "t = b64 x"
  shows "(b64 (1 / 100) < \<bar>b64 (t - 1)\<bar>) = (1 / 100 < \<bar>t - 1\<bar>)"
proof (cases "\<bar>t - 1\<bar> \<le> 1 / 50")
  case True
  have u: "0 < unitRoundoff" "unitRoundoff \<le> 1 / 1000000000000000" using unitRoundoff_bounds by simp_all
  have ty: "0 < tiny" "tiny \<le> 1 / 1000000000000000"
  proof -
    show "0 < tiny" using tiny_bounds by simp
    have "tiny * 1 \<le> tiny * 2 ^ 64" using tiny_bounds by (intro mult_left_mono) simp_all
    then show "tiny \<le> 1 / 1000000000000000" using tiny_bounds by linarith
  qed
  have half: "1 / 2 \<le> \<bar>x\<bar>"
  proof (rule ccontr)
    assume "\<not> 1 / 2 \<le> \<bar>x\<bar>"
    then have xs: "\<bar>x\<bar> < 1 / 2" by simp
    have "\<bar>x\<bar> * unitRoundoff \<le> (1 / 2) * (1 / 1000000000000000)"
      using xs u by (intro mult_mono) simp_all
    then have "\<bar>t\<bar> < 98 / 100"
      using b64_error [of x] xs ty unfolding t by (simp add: abs_le_iff) linarith
    then show False using True by (simp add: abs_le_iff)
  qed
  obtain m :: int where m: "t = of_int m * unitRoundoff"
    using b64_grid [OF half] t by auto
  have one: "of_int (2 ^ 53) * unitRoundoff = 1" by (simp add: unitRoundoff_def)
  define j where "j = m - 2 ^ 53"
  have "of_int j * unitRoundoff = of_int m * unitRoundoff - of_int (2 ^ 53) * unitRoundoff"
    unfolding j_def by (simp only: of_int_diff left_diff_distrib)
  then have d: "t - 1 = of_int j * unitRoundoff"
    unfolding m one by simp
  have "\<bar>of_int j * unitRoundoff\<bar> < 1" using True d by simp
  then have ex: "b64 (t - 1) = t - 1" unfolding d by (rule b64_exact)
  have a: "\<bar>t - 1\<bar> = of_int \<bar>j\<bar> / 2 ^ 53"
    unfolding d by (simp add: unitRoundoff_def abs_mult)
  have l: "(b64 (1 / 100) < \<bar>t - 1\<bar>) = (90071992547410 \<le> \<bar>j\<bar>)"
  proof -
    have "(b64 (1 / 100) < \<bar>t - 1\<bar>) = (5764607523034235 < 64 * real_of_int \<bar>j\<bar>)"
      unfolding b64_hundredth a by (simp add: field_simps)
    also have "\<dots> = (real_of_int 5764607523034235 < real_of_int (64 * \<bar>j\<bar>))" by simp
    also have "\<dots> = (5764607523034235 < 64 * \<bar>j\<bar>)" by (simp only: of_int_less_iff)
    also have "\<dots> = (90071992547410 \<le> \<bar>j\<bar>)" by linarith
    finally show ?thesis .
  qed
  have r: "(1 / 100 < \<bar>t - 1\<bar>) = (90071992547410 \<le> \<bar>j\<bar>)"
  proof -
    have "(1 / 100 < \<bar>t - 1\<bar>) = (9007199254740992 < 100 * real_of_int \<bar>j\<bar>)"
      unfolding a by (simp add: field_simps)
    also have "\<dots> = (real_of_int 9007199254740992 < real_of_int (100 * \<bar>j\<bar>))" by simp
    also have "\<dots> = (9007199254740992 < 100 * \<bar>j\<bar>)" by (simp only: of_int_less_iff)
    also have "\<dots> = (90071992547410 \<le> \<bar>j\<bar>)" by linarith
    finally show ?thesis .
  qed
  show ?thesis unfolding ex l r ..
next
  case False
  then have far: "1 / 50 < \<bar>t - 1\<bar>" by simp
  have u: "0 < unitRoundoff" "unitRoundoff \<le> 1 / 1000000000000000" using unitRoundoff_bounds by simp_all
  have ty: "tiny \<le> 1 / 1000000000000000"
  proof -
    have "tiny * 1 \<le> tiny * 2 ^ 64" using tiny_bounds by (intro mult_left_mono) simp_all
    then show ?thesis using tiny_bounds by linarith
  qed
  have "\<bar>t - 1\<bar> - \<bar>b64 (t - 1)\<bar> \<le> \<bar>b64 (t - 1) - (t - 1)\<bar>" by simp
  also have "\<dots> \<le> \<bar>t - 1\<bar> * unitRoundoff + tiny" by (rule b64_error)
  also have "\<bar>t - 1\<bar> * unitRoundoff \<le> \<bar>t - 1\<bar> * (1 / 1000000000000000)"
    using u by (intro mult_left_mono) simp_all
  finally have "\<bar>t - 1\<bar> * (1 - 1 / 1000000000000000) - 1 / 1000000000000000 \<le> \<bar>b64 (t - 1)\<bar>"
    using ty by (simp add: algebra_simps)
  moreover have "(1 / 50) * (1 - 1 / 1000000000000000) \<le> \<bar>t - 1\<bar> * (1 - 1 / 1000000000000000)"
    using far by (intro mult_right_mono) simp_all
  ultimately have "b64 (1 / 100) < \<bar>b64 (t - 1)\<bar>"
    unfolding b64_hundredth by simp
  then show ?thesis using far by simp
qed

text \<open>
  A sum of non-negative numbers, rounded after every addition as \<^verbatim>\<open>reduce\<close> computes it:
  each of the \<open>n\<close> roundings adds a relative error of at most the unit roundoff.
\<close>

lemma fsum_nonneg:
  assumes "0 \<le> a" and "\<forall>p \<in> set ps. 0 \<le> p"
  shows "0 \<le> foldl (\<lambda>s p. b64 (s + p)) a ps"
  using assms by (induction ps arbitrary: a) (simp_all add: b64_nonneg)

lemma fsum_upper:
  assumes "0 \<le> a" and "\<forall>p \<in> set ps. 0 \<le> p"
  shows "foldl (\<lambda>s p. b64 (s + p)) a ps
           \<le> (a + sum_list ps + real (length ps) * tiny) * (1 + unitRoundoff) ^ length ps"
  using assms
proof (induction ps arbitrary: a)
  case Nil
  then show ?case by simp
next
  case (Cons p ps)
  define n where "n = length ps"
  define S where "S = sum_list ps"
  define w where "w = (1 + unitRoundoff) ^ n"
  have u: "0 < unitRoundoff" using unitRoundoff_bounds by simp
  have ty: "0 < tiny" using tiny_bounds by simp
  have w0: "0 \<le> w" unfolding w_def using u by simp
  have S0: "0 \<le> S" unfolding S_def using Cons.prems by (intro sum_list_nonneg) simp
  have ap: "0 \<le> a + p" using Cons.prems by simp
  have b0: "0 \<le> b64 (a + p)" using ap by (rule b64_nonneg)
  have bu: "b64 (a + p) \<le> (a + p) * (1 + unitRoundoff) + tiny" using ap by (rule b64_upper)
  have "foldl (\<lambda>s p. b64 (s + p)) (b64 (a + p)) ps \<le> (b64 (a + p) + S + real n * tiny) * w"
    unfolding S_def n_def w_def using Cons.IH [OF b0] Cons.prems by simp
  also have "\<dots> \<le> ((a + p) * (1 + unitRoundoff) + tiny + S + real n * tiny) * w"
    using bu w0 by (intro mult_right_mono) simp_all
  also have "\<dots> \<le> ((a + p + S + (real n + 1) * tiny) * (1 + unitRoundoff)) * w"
  proof (rule mult_right_mono [OF _ w0])
    have "0 \<le> (S + (real n + 1) * tiny) * unitRoundoff"
      using S0 ty u by (intro mult_nonneg_nonneg add_nonneg_nonneg) simp_all
    then show "(a + p) * (1 + unitRoundoff) + tiny + S + real n * tiny
                 \<le> (a + p + S + (real n + 1) * tiny) * (1 + unitRoundoff)"
      by (simp add: algebra_simps)
  qed
  also have "\<dots> = (a + (p + S) + (real n + 1) * tiny) * (1 + unitRoundoff) ^ Suc n"
    by (simp add: w_def algebra_simps)
  finally show ?case by (simp add: n_def S_def algebra_simps)
qed

lemma fsum_lower:
  assumes "0 \<le> a" and "\<forall>p \<in> set ps. 0 \<le> p"
  shows "(a + sum_list ps) * (1 - unitRoundoff) ^ length ps - real (length ps) * tiny
           \<le> foldl (\<lambda>s p. b64 (s + p)) a ps"
  using assms
proof (induction ps arbitrary: a)
  case Nil
  then show ?case by simp
next
  case (Cons p ps)
  define n where "n = length ps"
  define S where "S = sum_list ps"
  define w where "w = (1 - unitRoundoff) ^ n"
  have u: "0 < unitRoundoff" "unitRoundoff \<le> 1" using unitRoundoff_bounds by simp_all
  have ty: "0 < tiny" using tiny_bounds by simp
  have w0: "0 \<le> w" unfolding w_def using u by simp
  have w1: "w \<le> 1" unfolding w_def using u by (intro power_le_one) simp_all
  have S0: "0 \<le> S" unfolding S_def using Cons.prems by (intro sum_list_nonneg) simp
  have ap: "0 \<le> a + p" using Cons.prems by simp
  have b0: "0 \<le> b64 (a + p)" using ap by (rule b64_nonneg)
  have bl: "(a + p) * (1 - unitRoundoff) - tiny \<le> b64 (a + p)" using ap by (rule b64_lower)
  have "(a + (p + S)) * (1 - unitRoundoff) ^ Suc n - (real n + 1) * tiny
          = ((a + p + S) * (1 - unitRoundoff)) * w - tiny - real n * tiny"
    by (simp add: w_def algebra_simps)
  also have "\<dots> \<le> ((a + p) * (1 - unitRoundoff) + S) * w - tiny - real n * tiny"
  proof -
    have "0 \<le> S * unitRoundoff" using S0 u by simp
    then have "(a + p + S) * (1 - unitRoundoff) \<le> (a + p) * (1 - unitRoundoff) + S"
      by (simp add: algebra_simps)
    then have "((a + p + S) * (1 - unitRoundoff)) * w \<le> ((a + p) * (1 - unitRoundoff) + S) * w"
      using w0 by (rule mult_right_mono)
    then show ?thesis by simp
  qed
  also have "\<dots> \<le> ((a + p) * (1 - unitRoundoff) - tiny + S) * w - real n * tiny"
  proof -
    have "tiny * w \<le> tiny * 1" using w1 ty by (intro mult_left_mono) simp_all
    then show ?thesis by (simp add: algebra_simps)
  qed
  also have "\<dots> \<le> (b64 (a + p) + S) * w - real n * tiny"
  proof -
    have "((a + p) * (1 - unitRoundoff) - tiny + S) * w \<le> (b64 (a + p) + S) * w"
      using bl w0 by (intro mult_right_mono) simp_all
    then show ?thesis by simp
  qed
  also have "\<dots> \<le> foldl (\<lambda>s p. b64 (s + p)) (b64 (a + p)) ps"
    unfolding S_def n_def w_def using Cons.IH [OF b0] Cons.prems by simp
  finally show ?case by (simp add: n_def S_def algebra_simps)
qed

lemma fsum_range:
  "ps \<noteq> [] \<Longrightarrow> \<exists>x. foldl (\<lambda>s p. b64 (s + p)) a ps = b64 x"
  by (cases ps rule: rev_cases) auto

text \<open>Up to 2 to the 32 roundings change a value by less than one part in a million.\<close>

lemma power_growth:
  assumes "real n \<le> 2 ^ 32"
  shows "(1 + unitRoundoff) ^ n \<le> 1 + 1 / 1000000 \<and> 1 - 1 / 1000000 \<le> (1 - unitRoundoff) ^ n"
proof
  have u: "0 < unitRoundoff" using unitRoundoff_bounds by simp
  have nu: "real n * unitRoundoff \<le> 1 / 2 ^ 21"
  proof -
    have "real n * unitRoundoff \<le> 2 ^ 32 * unitRoundoff"
      using assms u by (intro mult_right_mono) simp_all
    also have "\<dots> = 1 / 2 ^ 21" by (simp add: unitRoundoff_def)
    finally show ?thesis .
  qed
  have prod: "(1 + unitRoundoff) ^ m * (1 - real m * unitRoundoff) \<le> 1" for m
  proof (induction m)
    case 0
    then show ?case by simp
  next
    case (Suc m)
    have p0: "0 \<le> (1 + unitRoundoff) ^ m" using u by simp
    have "(1 + unitRoundoff) * (1 - real (Suc m) * unitRoundoff)
            = 1 - real m * unitRoundoff - (real m + 1) * unitRoundoff * unitRoundoff"
      by (simp add: algebra_simps)
    also have "\<dots> \<le> 1 - real m * unitRoundoff"
    proof -
      have "0 \<le> (real m + 1) * unitRoundoff * unitRoundoff" using u by simp
      then show ?thesis by linarith
    qed
    finally have "(1 + unitRoundoff) * (1 - real (Suc m) * unitRoundoff)
                    \<le> 1 - real m * unitRoundoff" .
    then have "(1 + unitRoundoff) ^ m * ((1 + unitRoundoff) * (1 - real (Suc m) * unitRoundoff))
                 \<le> (1 + unitRoundoff) ^ m * (1 - real m * unitRoundoff)"
      using p0 by (rule mult_left_mono)
    then show ?case using Suc.IH by (simp add: mult.assoc mult.left_commute)
  qed
  define w where "w = (1 + unitRoundoff) ^ n"
  have w0: "0 \<le> w" unfolding w_def using u by simp
  have "w * (1 - 1 / 2 ^ 21) \<le> w * (1 - real n * unitRoundoff)"
    using nu w0 by (intro mult_left_mono) simp_all
  also have "\<dots> \<le> 1" unfolding w_def by (rule prod)
  finally have "w * (1 - 1 / 2 ^ 21) \<le> 1" .
  then have "w \<le> 1 / (1 - 1 / 2 ^ 21)" by (simp add: field_simps)
  also have "\<dots> \<le> 1 + 1 / 1000000" by simp
  finally show "(1 + unitRoundoff) ^ n \<le> 1 + 1 / 1000000" unfolding w_def .
  have "1 + real n * (- unitRoundoff) \<le> (1 + (- unitRoundoff)) ^ n"
    using unitRoundoff_bounds by (intro Bernoulli_inequality) simp
  then have "1 - real n * unitRoundoff \<le> (1 - unitRoundoff) ^ n" by simp
  moreover have "1 - 1 / 1000000 \<le> 1 - real n * unitRoundoff"
    using nu by simp
  ultimately show "1 - 1 / 1000000 \<le> (1 - unitRoundoff) ^ n" by linarith
qed

lemma count_tiny:
  assumes "real n \<le> 2 ^ 32"
  shows "real n * tiny \<le> 1 / 1000000000000000"
proof -
  have ty: "0 < tiny" using tiny_bounds by simp
  have a: "real n * tiny \<le> 2 ^ 32 * tiny" using assms ty by (intro mult_right_mono) simp_all
  have b: "(2::real) ^ 32 * tiny \<le> 2 ^ 64 * tiny" using ty by (intro mult_right_mono) simp_all
  have c: "tiny * 2 ^ 64 \<le> 1 / 1000000000000000" using tiny_bounds by (rule conjunct2)
  have d: "(2::real) ^ 64 * tiny = tiny * 2 ^ 64" by (rule mult.commute)
  show ?thesis using a b c d by linarith
qed

lemma fsum_bounds:
  assumes "0 \<le> a" and "\<forall>p \<in> set ps. 0 \<le> p" and "real (length ps) \<le> 2 ^ 32"
  shows "(a + sum_list ps) * (1 - 1 / 1000000) - 1 / 1000000000000000 \<le> foldl (\<lambda>s p. b64 (s + p)) a ps
         \<and> foldl (\<lambda>s p. b64 (s + p)) a ps \<le> (a + sum_list ps + 1 / 1000000000000000) * (1 + 1 / 1000000)"
proof
  define S where "S = a + sum_list ps"
  have S0: "0 \<le> S" unfolding S_def using assms by (intro add_nonneg_nonneg sum_list_nonneg) simp_all
  have g: "(1 + unitRoundoff) ^ length ps \<le> 1 + 1 / 1000000"
           "1 - 1 / 1000000 \<le> (1 - unitRoundoff) ^ length ps"
    using power_growth [OF assms(3)] by simp_all
  have c: "real (length ps) * tiny \<le> 1 / 1000000000000000" using assms(3) by (rule count_tiny)
  have c0: "0 \<le> real (length ps) * tiny" using tiny_bounds by simp
  have "S * (1 - 1 / 1000000) \<le> S * (1 - unitRoundoff) ^ length ps"
    using g S0 by (intro mult_left_mono) simp_all
  then have "S * (1 - 1 / 1000000) - 1 / 1000000000000000
               \<le> S * (1 - unitRoundoff) ^ length ps - real (length ps) * tiny"
    using c by linarith
  also have "\<dots> \<le> foldl (\<lambda>s p. b64 (s + p)) a ps"
    unfolding S_def using assms(1,2) by (rule fsum_lower)
  finally show "(a + sum_list ps) * (1 - 1 / 1000000) - 1 / 1000000000000000
                  \<le> foldl (\<lambda>s p. b64 (s + p)) a ps"
    unfolding S_def .
  have "foldl (\<lambda>s p. b64 (s + p)) a ps
          \<le> (S + real (length ps) * tiny) * (1 + unitRoundoff) ^ length ps"
    unfolding S_def using assms(1,2) by (rule fsum_upper)
  also have "\<dots> \<le> (S + 1 / 1000000000000000) * (1 + unitRoundoff) ^ length ps"
    using c unitRoundoff_bounds by (intro mult_right_mono) simp_all
  also have "\<dots> \<le> (S + 1 / 1000000000000000) * (1 + 1 / 1000000)"
    using g S0 by (intro mult_left_mono) simp_all
  finally show "foldl (\<lambda>s p. b64 (s + p)) a ps \<le> (a + sum_list ps + 1 / 1000000000000000) * (1 + 1 / 1000000)"
    unfolding S_def .
qed

text \<open>The exact sum of the rounded products of a list with a factor.\<close>

lemma scaled_sum_bounds:
  assumes "0 \<le> k" and "\<forall>p \<in> set ps. 0 \<le> p"
  shows "sum_list ps * k * (1 - unitRoundoff) - real (length ps) * tiny
           \<le> sum_list (map (\<lambda>p. b64 (p * k)) ps)
         \<and> sum_list (map (\<lambda>p. b64 (p * k)) ps)
           \<le> sum_list ps * k * (1 + unitRoundoff) + real (length ps) * tiny"
  using assms(2)
proof (induction ps)
  case Nil
  then show ?case by simp
next
  case (Cons p ps)
  have pk: "0 \<le> p * k" using Cons.prems assms(1) by simp
  have "p * k * (1 - unitRoundoff) - tiny \<le> b64 (p * k)
        \<and> b64 (p * k) \<le> p * k * (1 + unitRoundoff) + tiny"
    using b64_lower [OF pk] b64_upper [OF pk] by simp
  then show ?case using Cons.IH Cons.prems by (simp add: algebra_simps)
qed

lemma sum_list_le_length:
  fixes ps :: "real list"
  shows "\<forall>p \<in> set ps. p \<le> 1 \<Longrightarrow> sum_list ps \<le> real (length ps)"
  by (induction ps) auto

text \<open>
  The rounded total of shares between 0 and 1 that sum to at least 0.3, and the rounded
  total of the rescaled shares.
\<close>

lemma total_bounds:
  assumes rng: "\<forall>p \<in> set ps. 0 \<le> p \<and> p \<le> 1"
    and S: "3 / 10 \<le> sum_list ps"
    and n: "real (length ps) \<le> 2 ^ 32"
  shows "29 / 100 \<le> foldl (\<lambda>s p. b64 (s + p)) 0 ps
         \<and> foldl (\<lambda>s p. b64 (s + p)) 0 ps \<le> 2 ^ 33"
proof -
  have nn: "\<forall>p \<in> set ps. 0 \<le> p" using rng by simp
  have b: "(0 + sum_list ps) * (1 - 1 / 1000000) - 1 / 1000000000000000 \<le> foldl (\<lambda>s p. b64 (s + p)) 0 ps
           \<and> foldl (\<lambda>s p. b64 (s + p)) 0 ps \<le> (0 + sum_list ps + 1 / 1000000000000000) * (1 + 1 / 1000000)"
    using nn n by (intro fsum_bounds) simp_all
  have "sum_list ps \<le> real (length ps)" using rng by (intro sum_list_le_length) simp
  then have "sum_list ps \<le> 2 ^ 32" using n by linarith
  then show ?thesis using b S by simp
qed

lemma rescaled_total:
  assumes rng: "\<forall>p \<in> set ps. 0 \<le> p \<and> p \<le> 1"
    and S: "3 / 10 \<le> sum_list ps"
    and n: "real (length ps) \<le> 2 ^ 32"
  shows "0 \<le> b64 (1 / foldl (\<lambda>s p. b64 (s + p)) 0 ps)
         \<and> b64 (1 / foldl (\<lambda>s p. b64 (s + p)) 0 ps) \<le> 4
         \<and> \<bar>foldl (\<lambda>s p. b64 (s + p)) 0
               (map (\<lambda>p. b64 (p * b64 (1 / foldl (\<lambda>s p. b64 (s + p)) 0 ps))) ps) - 1\<bar>
             \<le> 1 / 100"
proof -
  define t where "t = foldl (\<lambda>s p. b64 (s + p)) 0 ps"
  define k where "k = b64 (1 / t)"
  define qs where "qs = map (\<lambda>p. b64 (p * k)) ps"
  define T where "T = sum_list ps"
  define v where "v = T * k"
  define w where "w = k * t"
  define Q where "Q = sum_list qs"
  have nn: "\<forall>p \<in> set ps. 0 \<le> p" using rng by simp
  have u: "0 < unitRoundoff" "unitRoundoff \<le> 1 / 1000000000000000" using unitRoundoff_bounds by simp_all
  define ty64 where "ty64 = tiny * 2 ^ 64"
  have ty: "0 < tiny" "ty64 \<le> 1 / 1000000000000000" using tiny_bounds by (simp_all add: ty64_def)
  have ty1: "tiny \<le> 1 / 1000000000000000"
  proof -
    have "tiny * 1 \<le> tiny * 2 ^ 64" using ty by (intro mult_left_mono) simp_all
    then show ?thesis using ty unfolding ty64_def by linarith
  qed
  have ct: "real (length ps) * tiny \<le> 1 / 1000000000000000" using count_tiny [OF n] by simp
  have tb: "T * (1 - 1 / 1000000) - 1 / 1000000000000000 \<le> t" "t \<le> (T + 1 / 1000000000000000) * (1 + 1 / 1000000)"
    using fsum_bounds [of 0 ps] nn n by (simp_all add: t_def T_def)
  have t29: "29 / 100 \<le> t" "t \<le> 2 ^ 33"
    using total_bounds [OF rng S n] by (simp_all add: t_def)
  have tpos: "0 < t" using t29 by linarith
  define r where "r = 1 / t"
  have r0: "0 \<le> r" unfolding r_def using tpos by simp
  have r4: "r \<le> 100 / 29" unfolding r_def using t29 tpos by (simp add: field_simps)
  have rt: "r * t = 1" unfolding r_def using tpos by simp
  have k0: "0 \<le> k" unfolding k_def r_def [symmetric] using r0 by (rule b64_nonneg)
  have ku: "k \<le> r * (1 + unitRoundoff) + tiny"
    unfolding k_def r_def [symmetric] using r0 by (rule b64_upper)
  have kl: "r * (1 - unitRoundoff) - tiny \<le> k"
    unfolding k_def r_def [symmetric] using r0 by (rule b64_lower)
  define ru where "ru = r * unitRoundoff"
  have ru4: "ru \<le> (100 / 29) * (1 / 1000000000000000)"
    unfolding ru_def using r0 r4 u by (intro mult_mono) simp_all
  have ku': "k \<le> r + ru + tiny" using ku unfolding ru_def by (simp add: algebra_simps)
  have kl': "r - ru - tiny \<le> k" using kl unfolding ru_def by (simp add: algebra_simps)
  have k4: "k \<le> 4" using ku' ru4 r4 ty1 by linarith
  have tt: "tiny * t \<le> 1 / 1000000000000000"
  proof -
    have "tiny * t \<le> tiny * 2 ^ 33" using t29 ty by (intro mult_left_mono) simp_all
    also have "\<dots> \<le> tiny * 2 ^ 64" using ty by (intro mult_left_mono) simp_all
    finally show ?thesis using ty unfolding ty64_def by linarith
  qed
  have rut: "ru * t = unitRoundoff" unfolding ru_def using rt by (simp add: mult.assoc mult.left_commute mult.commute)
  have wu: "w \<le> 1 + 2 / 1000000000000000"
  proof -
    have "k * t \<le> (r + ru + tiny) * t"
      using ku' tpos by (intro mult_right_mono) simp_all
    also have "\<dots> = r * t + ru * t + tiny * t" by (simp add: algebra_simps)
    finally show ?thesis unfolding w_def rt rut using u tt by linarith
  qed
  have wl: "1 - 2 / 1000000000000000 \<le> w"
  proof -
    have "(r - ru - tiny) * t \<le> k * t"
      using kl' tpos by (intro mult_right_mono) simp_all
    moreover have "(r - ru - tiny) * t = r * t - ru * t - tiny * t" by (simp add: algebra_simps)
    ultimately show ?thesis unfolding w_def rt rut using u tt by linarith
  qed
  have T0: "0 \<le> T" unfolding T_def using nn by (intro sum_list_nonneg) simp
  have v0: "0 \<le> v" unfolding v_def using T0 k0 by simp
  have kt: "k * (1 / 1000000000000000) \<le> 4 / 1000000000000000" using k4 by simp
  have vu: "v \<le> 1 + 2 / 1000000"
  proof -
    have "k * (T * (1 - 1 / 1000000) - 1 / 1000000000000000) \<le> k * t"
      using tb(1) k0 by (rule mult_left_mono)
    moreover have "k * (T * (1 - 1 / 1000000) - 1 / 1000000000000000)
                     = v * (1 - 1 / 1000000) - k * (1 / 1000000000000000)"
      unfolding v_def by (simp add: algebra_simps)
    ultimately have "v * (1 - 1 / 1000000) - k * (1 / 1000000000000000) \<le> w"
      unfolding w_def by simp
    moreover have "v * (1 - 1 / 1000000) = v - v / 1000000" by (simp add: algebra_simps)
    ultimately show ?thesis using wu kt by linarith
  qed
  have vl: "1 - 2 / 1000000 \<le> v"
  proof -
    have "k * t \<le> k * ((T + 1 / 1000000000000000) * (1 + 1 / 1000000))"
      using tb(2) k0 by (rule mult_left_mono)
    moreover have "k * ((T + 1 / 1000000000000000) * (1 + 1 / 1000000))
                     = (v + k * (1 / 1000000000000000)) * (1 + 1 / 1000000)"
      unfolding v_def by (simp add: algebra_simps)
    ultimately have "w \<le> (v + k * (1 / 1000000000000000)) * (1 + 1 / 1000000)"
      unfolding w_def by simp
    moreover have "(v + k * (1 / 1000000000000000)) * (1 + 1 / 1000000)
                     = v + k * (1 / 1000000000000000) + v / 1000000
                       + (k * (1 / 1000000000000000)) / 1000000"
      by (simp add: algebra_simps)
    ultimately show ?thesis using wl kt by linarith
  qed
  have qb: "v * (1 - unitRoundoff) - real (length ps) * tiny \<le> Q"
           "Q \<le> v * (1 + unitRoundoff) + real (length ps) * tiny"
    using scaled_sum_bounds [OF k0 nn] by (simp_all add: Q_def qs_def v_def T_def)
  have vuu: "v * unitRoundoff \<le> 2 / 1000000000000000"
  proof -
    have "v * unitRoundoff \<le> (1 + 2 / 1000000) * (1 / 1000000000000000)"
      using v0 vu u by (intro mult_mono) simp_all
    then show ?thesis by simp
  qed
  have d1: "v * (1 + unitRoundoff) = v + v * unitRoundoff" by (simp add: algebra_simps)
  have d2: "v * (1 - unitRoundoff) = v - v * unitRoundoff" by (simp add: algebra_simps)
  have Qu: "Q \<le> 1 + 3 / 1000000" using qb(2) vu vuu ct d1 by linarith
  have Ql: "1 - 3 / 1000000 \<le> Q" using qb(1) vl vuu ct d2 by linarith
  have qn: "\<forall>q \<in> set qs. 0 \<le> q"
    using nn k0 by (auto simp: qs_def intro!: b64_nonneg)
  have len: "real (length qs) \<le> 2 ^ 32" using n by (simp add: qs_def)
  have fb: "Q * (1 - 1 / 1000000) - 1 / 1000000000000000 \<le> foldl (\<lambda>s p. b64 (s + p)) 0 qs"
           "foldl (\<lambda>s p. b64 (s + p)) 0 qs \<le> (Q + 1 / 1000000000000000) * (1 + 1 / 1000000)"
    using fsum_bounds [of 0 qs] qn len by (simp_all add: Q_def)
  have e1: "Q * (1 - 1 / 1000000) = Q - Q / 1000000" by (simp add: algebra_simps)
  have e2: "(Q + 1 / 1000000000000000) * (1 + 1 / 1000000)
              = Q + 1 / 1000000000000000 + Q / 1000000 + (1 / 1000000000000000) / 1000000"
    by (simp add: algebra_simps)
  have "\<bar>foldl (\<lambda>s p. b64 (s + p)) 0 qs - 1\<bar> \<le> 1 / 100"
    using fb Qu Ql unfolding e1 e2 by linarith
  then show ?thesis using k0 k4 unfolding qs_def k_def t_def by simp
qed

lemma small_bounds:
  "unitRoundoff \<le> 1 / 1000000000000000 \<and> tiny \<le> 1 / 1000000000000000
   \<and> 0 < unitRoundoff \<and> 0 < tiny"
proof -
  have "tiny * 1 \<le> tiny * 2 ^ 64" using tiny_bounds by (intro mult_left_mono) simp_all
  then have "tiny \<le> 1 / 1000000000000000" using tiny_bounds by linarith
  then show ?thesis using unitRoundoff_bounds tiny_bounds by simp
qed

text \<open>A result of moderate size does not overflow: it is the rounded number.\<close>

lemma toBinary64_Num:
  assumes "\<bar>x\<bar> \<le> 2 ^ 64"
  shows "toBinary64 (Num x) = Num (b64 x)"
proof -
  have "\<bar>x\<bar> * unitRoundoff \<le> 2 ^ 64 * (1 / 1000000000000000)"
    using assms small_bounds by (intro mult_mono) simp_all
  then have "\<bar>b64 x\<bar> < 2 ^ 65"
    using b64_error [of x] assms small_bounds by (simp add: abs_le_iff) linarith
  also have "(2::real) ^ 65 \<le> 2 ^ 1024" by (rule power_increasing) simp_all
  finally have "\<not> overflowThreshold \<le> \<bar>b64 x\<bar>" by (simp only: overflowThreshold_def not_le)
  then show ?thesis by (simp add: toBinary64_def)
qed

lemma f64_add_Num: "\<bar>a + b\<bar> \<le> 2 ^ 64 \<Longrightarrow> f64_add (Num a) (Num b) = Num (b64 (a + b))"
  by (simp add: f64_add_def toBinary64_Num)

lemma f64_sub_Num: "\<bar>a - b\<bar> \<le> 2 ^ 64 \<Longrightarrow> f64_sub (Num a) (Num b) = Num (b64 (a - b))"
  by (simp add: f64_sub_def js_sub_def toBinary64_Num)

lemma f64_mul_Num: "\<bar>a * b\<bar> \<le> 2 ^ 64 \<Longrightarrow> f64_mul (Num a) (Num b) = Num (b64 (a * b))"
  by (simp add: f64_mul_def toBinary64_Num)

lemma f64_div_Num:
  "b \<noteq> 0 \<Longrightarrow> \<bar>a / b\<bar> \<le> 2 ^ 64 \<Longrightarrow> f64_div (Num a) (Num b) = Num (b64 (a / b))"
  by (simp add: f64_div_def toBinary64_Num)

section \<open>Contribution plans: properties\<close>

text \<open>
  The roundings of the contribution examples, one at a time: the share, its product with
  the budget, the quotient by 5 and the multiple of 5.
\<close>

lemma dca_a_share: "b64 (7 / 20) = 3152519739159347 / 9007199254740992"
  by (subst b64_in_binade [where e = "- 2"]) (simp_all add: roundHalfEven_def)

lemma dca_a_product: "b64 (551690954352885725 / 4503599627370496) = 8620171161763839 / 70368744177664"
  by (subst b64_in_binade [where e = "6"]) (simp_all add: roundHalfEven_def)

lemma dca_a_quotient: "b64 (8620171161763839 / 351843720888320) = 6896136929411071 / 281474976710656"
  by (subst b64_in_binade [where e = "4"]) (simp_all add: roundHalfEven_def)

lemma dca_a_multiple: "b64 120 = 120"
  by (subst b64_in_binade [where e = "6"]) (simp_all add: roundHalfEven_def)

lemma dca_b_share: "b64 (3 / 20) = 5404319552844595 / 36028797018963968"
  by (subst b64_in_binade [where e = "- 3"]) (simp_all add: roundHalfEven_def)

lemma dca_b_product: "b64 (135107988821114875 / 18014398509481984) = 15 / 2"
  by (subst b64_in_binade [where e = "2"]) (simp_all add: roundHalfEven_def)

lemma dca_b_quotient: "b64 (3 / 2) = 3 / 2"
  by (subst b64_in_binade [where e = "0"]) (simp_all add: roundHalfEven_def)

lemma dca_b_multiple: "b64 10 = 10"
  by (subst b64_in_binade [where e = "3"]) (simp_all add: roundHalfEven_def)

lemma dca_c_product: "b64 (5 / 2) = 5 / 2"
  by (subst b64_in_binade [where e = "1"]) (simp_all add: roundHalfEven_def)

lemma dca_c_quotient: "b64 (1 / 2) = 1 / 2"
  by (subst b64_in_binade [where e = "- 1"]) (simp_all add: roundHalfEven_def)

lemma dca_c_multiple: "b64 5 = 5"
  by (subst b64_in_binade [where e = "2"]) (simp_all add: roundHalfEven_def)

lemma js_max_commute: "js_max a b = js_max b a"
  by (cases a; cases b) (simp_all add: max.commute)

text \<open>
  Claim C10. Every allocation row receives the monthly amount
  max(5, round(allocationPct * monthlyContributionUsd / 5) * 5), the product, the quotient
  and the multiple of 5 each rounded to binary64 as the code computes them; and there are
  an allocation whose shares sum to 1 and a positive monthly budget for which the amounts
  add up to strictly more than the budget: two rows of 1/2 with a budget of 5 receive 5
  each.
\<close>

theorem addDcaPlans_amounts:
  "map (\<lambda>item. amountUsd (dca item)) (addDcaPlans allocation intake)
     = map (\<lambda>item. js_max (Num 5)
                     (f64_mul (js_roundnum
                                 (f64_div (f64_mul (Num (allocationPct item))
                                                   (Num (monthlyContributionUsd intake)))
                                          (Num 5)))
                              (Num 5)))
           allocation
   \<and> (\<exists>alloc intake' amounts.
         sum_list (map allocationPct alloc) = 1 \<and> 0 < monthlyContributionUsd intake'
         \<and> map (\<lambda>item. amountUsd (dca item)) (addDcaPlans alloc intake') = map Num amounts
         \<and> monthlyContributionUsd intake' < sum_list amounts)"
proof
  show "map (\<lambda>item. amountUsd (dca item)) (addDcaPlans allocation intake)
     = map (\<lambda>item. js_max (Num 5)
                     (f64_mul (js_roundnum
                                 (f64_div (f64_mul (Num (allocationPct item))
                                                   (Num (monthlyContributionUsd intake)))
                                          (Num 5)))
                              (Num 5)))
           allocation"
    by (simp add: addDcaPlans_def Let_def js_max_commute [of "Num 5"])
next
  let ?alloc = "[exampleItem (1 / 2), exampleItem (1 / 2)]"
  let ?intake = "exampleIntake Balanced 5 (8, 12) 5"
  have s: "sum_list (map allocationPct ?alloc) = 1"
    by (simp add: exampleItem_def)
  have b: "0 < monthlyContributionUsd ?intake"
    by (simp add: exampleIntake_def)
  have m: "map (\<lambda>item. amountUsd (dca item)) (addDcaPlans ?alloc ?intake) = map Num [5, 5]"
    by (simp add: addDcaPlans_def Let_def exampleItem_def exampleIntake_def f64_mul_Num
                  f64_div_Num js_round_def dca_c_product dca_c_quotient dca_c_multiple)
  have l: "monthlyContributionUsd ?intake < sum_list [5, 5]"
    by (simp add: exampleIntake_def)
  have "sum_list (map allocationPct ?alloc) = 1 \<and> 0 < monthlyContributionUsd ?intake
         \<and> map (\<lambda>item. amountUsd (dca item)) (addDcaPlans ?alloc ?intake) = map Num [5, 5]
         \<and> monthlyContributionUsd ?intake < sum_list [5, 5]"
    using s b m l by (simp only: simp_thms)
  then show "\<exists>alloc intake' amounts.
         sum_list (map allocationPct alloc) = 1 \<and> 0 < monthlyContributionUsd intake'
         \<and> map (\<lambda>item. amountUsd (dca item)) (addDcaPlans alloc intake') = map Num amounts
         \<and> monthlyContributionUsd intake' < sum_list amounts"
    by - (rule exI [of _ ?alloc], rule exI [of _ ?intake], rule exI [of _ "[5, 5]"])
qed

text \<open>
  Two rows at a tie of the rounding. A share of 0.35 (the double nearest to it) with a
  budget of 350: the product is 122.49999999999999, the quotient 24.499999999999996, and
  the amount 120. A share of 0.15 with a budget of 50: the product is 7.5, the quotient
  1.5, and the amount 10.
\<close>

theorem addDcaPlans_amounts_witness:
  "map (\<lambda>item. amountUsd (dca item))
       (addDcaPlans [exampleItem (b64 (35 / 100))] (exampleIntake Balanced 5 (8, 12) 350))
     = [Num 120]
   \<and> map (\<lambda>item. amountUsd (dca item))
         (addDcaPlans [exampleItem (b64 (15 / 100))] (exampleIntake Balanced 5 (8, 12) 50))
     = [Num 10]"
proof
  have "map (\<lambda>item. amountUsd (dca item))
          (addDcaPlans [exampleItem (b64 (35 / 100))] (exampleIntake Balanced 5 (8, 12) 350))
        = map (\<lambda>item. js_max (Num 5)
                     (f64_mul (js_roundnum
                                 (f64_div (f64_mul (Num (allocationPct item))
                                                   (Num (monthlyContributionUsd
                                                           (exampleIntake Balanced 5 (8, 12) 350))))
                                          (Num 5)))
                              (Num 5)))
              [exampleItem (b64 (35 / 100))]"
    using addDcaPlans_amounts [of "[exampleItem (b64 (35 / 100))]"
                                  "exampleIntake Balanced 5 (8, 12) 350"]
    by (rule conjunct1)
  also have "\<dots> = [Num 120]"
    by (simp add: exampleItem_def exampleIntake_def f64_mul_Num f64_div_Num js_round_def
                  dca_a_share dca_a_product dca_a_quotient dca_a_multiple)
  finally show "map (\<lambda>item. amountUsd (dca item))
          (addDcaPlans [exampleItem (b64 (35 / 100))] (exampleIntake Balanced 5 (8, 12) 350))
        = [Num 120]" .
next
  have "map (\<lambda>item. amountUsd (dca item))
          (addDcaPlans [exampleItem (b64 (15 / 100))] (exampleIntake Balanced 5 (8, 12) 50))
        = map (\<lambda>item. js_max (Num 5)
                     (f64_mul (js_roundnum
                                 (f64_div (f64_mul (Num (allocationPct item))
                                                   (Num (monthlyContributionUsd
                                                           (exampleIntake Balanced 5 (8, 12) 50))))
                                          (Num 5)))
                              (Num 5)))
              [exampleItem (b64 (15 / 100))]"
    using addDcaPlans_amounts [of "[exampleItem (b64 (15 / 100))]"
                                  "exampleIntake Balanced 5 (8, 12) 50"]
    by (rule conjunct1)
  also have "\<dots> = [Num 10]"
    by (simp add: exampleItem_def exampleIntake_def f64_mul_Num f64_div_Num js_round_def
                  dca_b_share dca_b_product dca_b_quotient dca_b_multiple)
  finally show "map (\<lambda>item. amountUsd (dca item))
          (addDcaPlans [exampleItem (b64 (15 / 100))] (exampleIntake Balanced 5 (8, 12) 50))
        = [Num 10]" .
qed

section \<open>Indicators: helper lemmas\<close>

lemma sumReduce_sum_list: "sumReduce xs = sum_list xs"
proof -
  have "foldl (\<lambda>sum x. sum + x) a xs = a + sum_list xs" for a :: real
    by (induction xs arbitrary: a) simp_all
  then show ?thesis by (simp add: sumReduce_def)
qed

lemma nat_max_diff: "nat (max (int a - int b) 0) = a - b"
  by arith

lemma js_index_neg: "0 < n \<Longrightarrow> js_index (- int n) len = len - n"
  by (simp add: js_index_def nat_max_diff del: max.absorb1 max.absorb2 max.absorb3 max.absorb4)

lemma js_index_nonneg: "js_index (int n) len = min n len"
  by (simp add: js_index_def)

lemma js_slice_from_neg: "0 < n \<Longrightarrow> js_slice_from (- int n) xs = drop (length xs - n) xs"
  by (simp add: js_slice_from_def js_index_neg)

lemma js_slice_neg_neg:
  "0 < b \<Longrightarrow> b \<le> a \<Longrightarrow> a \<le> length xs \<Longrightarrow>
   js_slice (- int a) (- int b) xs = take (a - b) (drop (length xs - a) xs)"
  by (simp add: js_slice_def js_index_neg Let_def)

lemma js_slice_take: "js_slice 0 n xs = take (js_index n (length xs)) xs"
  by (simp add: js_slice_def js_index_def Let_def)

lemma js_slice_zero: "js_slice 0 (int n) xs = take n xs"
proof -
  have "take (min n (length xs)) xs = take n xs"
    by (cases "n \<le> length xs") (simp_all add: min_def)
  then show ?thesis
    using js_index_nonneg [of 0 "length xs"] js_index_nonneg [of n "length xs"]
    by (simp add: js_slice_def)
qed

lemma fold_invariant:
  "P acc \<Longrightarrow> (\<And>x a. x \<in> set xs \<Longrightarrow> P a \<Longrightarrow> P (f x a)) \<Longrightarrow> P (fold f xs acc)"
  by (induction xs arbitrary: acc) simp_all

text \<open>The loop of \<^verbatim>\<open>calculateRSI\<close> keeps both sums non-negative.\<close>

lemma rsi_fold_nonneg:
  fixes ps :: "real list"
  shows "0 \<le> fst acc \<Longrightarrow> 0 \<le> snd acc \<Longrightarrow>
   0 \<le> fst (fold (\<lambda>i (gains, losses).
                       let change = ps ! i - ps ! (i - 1)
                       in if change > 0 then (gains + change, losses)
                          else (gains, losses - change)) is acc)
   \<and> 0 \<le> snd (fold (\<lambda>i (gains, losses).
                       let change = ps ! i - ps ! (i - 1)
                       in if change > 0 then (gains + change, losses)
                          else (gains, losses - change)) is acc)"
  by (rule fold_invariant [where P = "\<lambda>a. 0 \<le> fst a \<and> 0 \<le> snd a"])
     (auto simp: Let_def split: prod.splits)

text \<open>Without a falling step the loop leaves the losses where they were.\<close>

lemma rsi_fold_no_loss:
  fixes ps :: "real list"
  shows "\<forall>i \<in> set is. ps ! (i - 1) \<le> ps ! i \<Longrightarrow>
   snd (fold (\<lambda>i (gains, losses).
                       let change = ps ! i - ps ! (i - 1)
                       in if change > 0 then (gains + change, losses)
                          else (gains, losses - change)) is acc) = snd acc"
  by (rule fold_invariant [where P = "\<lambda>a. snd a = snd acc"])
     (auto simp: Let_def split: prod.splits)

lemma calculateRSI_short: "length ps < 15 \<Longrightarrow> calculateRSI ps 14 = Num 50"
  by (simp add: calculateRSI_def)

lemma calculateRSI_range:
  assumes "15 \<le> length ps"
  shows "\<exists>r. calculateRSI ps 14 = Num r \<and> 0 \<le> r \<and> r \<le> 100"
proof -
  let ?f = "(\<lambda>i (gains, losses).
                       let change = ps ! i - ps ! (i - 1)
                       in if change > 0 then (gains + change, losses)
                          else (gains, losses - change))"
  obtain g l where gl: "fold ?f [length ps - 14 ..< length ps] (0, 0) = (g, l)"
    by (cases "fold ?f [length ps - 14 ..< length ps] (0, 0)")
  have nn: "0 \<le> g \<and> 0 \<le> l"
    using rsi_fold_nonneg [of "(0, 0)" ps "[length ps - 14 ..< length ps]"] gl by simp
  show ?thesis
  proof (cases "l = 0")
    case True
    then show ?thesis using assms gl by (simp add: calculateRSI_def)
  next
    case False
    then have lpos: "0 < l" using nn by simp
    have rs: "0 \<le> g / l" using nn lpos by simp
    then have d: "1 + g / l \<noteq> 0" by linarith
    have q: "0 \<le> 100 / (1 + g / l) \<and> 100 / (1 + g / l) \<le> 100"
      using rs by (simp add: divide_le_eq)
    show ?thesis
      using assms gl False d q by (simp add: calculateRSI_def js_sub_def)
  qed
qed

lemma calculateRSI_no_decline:
  assumes "15 \<le> length ps"
    and "\<forall>i \<in> set [length ps - 14 ..< length ps]. ps ! (i - 1) \<le> ps ! i"
  shows "calculateRSI ps 14 = Num 100"
proof -
  let ?f = "(\<lambda>i (gains, losses).
                       let change = ps ! i - ps ! (i - 1)
                       in if change > 0 then (gains + change, losses)
                          else (gains, losses - change))"
  obtain g l where gl: "fold ?f [length ps - 14 ..< length ps] (0, 0) = (g, l)"
    by (cases "fold ?f [length ps - 14 ..< length ps] (0, 0)")
  have "l = 0"
    using rsi_fold_no_loss [OF assms(2), of "(0, 0)"] gl by simp
  then show ?thesis using assms(1) gl by (simp add: calculateRSI_def)
qed

lemma calculateSMA_Num:
  assumes "0 < n" and "n \<le> length ps"
  shows "calculateSMA ps n = Num (sum_list (drop (length ps - n) ps) / real n)"
  using assms
  by (simp add: calculateSMA_def js_slice_from_neg sumReduce_sum_list)

lemma ema_fold_Num:
  "fold (\<lambda>i ema. js_add (js_mul (js_sub (Num (ps ! i)) ema) (Num k)) ema) is (Num e)
     = Num (fold (\<lambda>i e. (ps ! i - e) * k + e) is e)"
  by (induction "is" arbitrary: e) (simp_all add: js_sub_def)

text \<open>With enough history the EMA is a finite number: the seed and every step are.\<close>

lemma calculateEMA_Num:
  assumes "0 < n" and "n \<le> length ps"
  shows "calculateEMA ps n
           = Num (fold (\<lambda>i e. (ps ! i - e) * (2 / (real n + 1)) + e) [n ..< length ps]
                       (sum_list (take n ps) / real n))"
proof -
  have "calculateSMA (take n ps) n = Num (sum_list (take n ps) / real n)"
    using calculateSMA_Num [of n "take n ps"] assms by simp
  then show ?thesis
    using assms by (simp add: calculateEMA_def js_slice_zero ema_fold_Num)
qed

section \<open>Indicators: properties\<close>

text \<open>
  Claim C3. With period 14, \<^verbatim>\<open>calculateRSI\<close> returns exactly 50 for every price series
  of fewer than 15 points. For every series of at least 15 points, so for every series of
  at least 31, it returns a number between 0 and 100; and it returns 100 when the average
  loss is zero, that is when none of the last 14 steps is a fall.
\<close>

theorem calculateRSI_default_and_bounds:
  "(length ps < 15 \<longrightarrow> calculateRSI ps 14 = Num 50)
   \<and> (15 \<le> length ps \<longrightarrow> (\<exists>r. calculateRSI ps 14 = Num r \<and> 0 \<le> r \<and> r \<le> 100))
   \<and> (15 \<le> length ps \<and> (\<forall>i. length ps - 14 \<le> i \<and> i < length ps \<longrightarrow> ps ! (i - 1) \<le> ps ! i)
        \<longrightarrow> calculateRSI ps 14 = Num 100)"
  using calculateRSI_short [of ps] calculateRSI_range [of ps] calculateRSI_no_decline [of ps]
  by auto

text \<open>Facts about the series of scenario A.\<close>

lemma rp_nth: "i < 40 \<Longrightarrow> risingPrices ! i = real i + 1"
  by (simp add: risingPrices_def)

lemma rp_len: "length risingPrices = 40"
  by (simp add: risingPrices_def)

lemma rp_sorted: "sorted_wrt (<) risingPrices"
  by (simp add: risingPrices_def sorted_wrt_iff_nth_less)

lemma rp_last: "last risingPrices = 40"
  by (simp add: risingPrices_def last_map)

lemma rp_js_last: "js_last risingPrices = Num 40"
  using rp_len rp_last by (auto simp: js_last_def)

theorem calculateRSI_default_and_bounds_witness:
  "calculateRSI [10, 11, 12] 14 = Num 50
   \<and> (\<exists>r. calculateRSI risingPrices 14 = Num r \<and> 0 \<le> r \<and> r \<le> 100)
   \<and> calculateRSI risingPrices 14 = Num 100"
proof -
  have "risingPrices ! (i - 1) \<le> risingPrices ! i" if "26 \<le> i" and "i < 40" for i
    using that rp_sorted by (simp add: sorted_wrt_iff_nth_less rp_len less_imp_le)
  then have "\<forall>i. length risingPrices - 14 \<le> i \<and> i < length risingPrices
          \<longrightarrow> risingPrices ! (i - 1) \<le> risingPrices ! i"
    by (simp add: rp_len)
  then show ?thesis
    using calculateRSI_default_and_bounds [of "[10, 11, 12]"]
          calculateRSI_default_and_bounds [of risingPrices]
    by (simp add: rp_len)
qed

text \<open>The sum of finite numbers is finite.\<close>

lemma js_sumReduce_Num: "js_sumReduce (map Num xs) = Num (sum_list xs)"
proof -
  have "foldl (\<lambda>sum x. js_add sum x) (Num a) (map Num xs) = Num (a + sum_list xs)" for a
    by (induction xs arbitrary: a) simp_all
  then show ?thesis by (simp add: js_sumReduce_def)
qed

lemma short_sma_ema:
  assumes "ps \<noteq> []" and "length ps < period"
  shows "calculateSMA ps period = Num (last ps) \<and> calculateEMA ps period = Num (last ps)"
  using assms by (simp add: calculateSMA_def calculateEMA_def js_last_def)

text \<open>The MACD of a non-empty series is a finite number, zero below 12 points.\<close>

lemma ema_finite:
  assumes "ps \<noteq> []" and "0 < n"
  shows "\<exists>e. calculateEMA ps n = Num e"
proof (cases "length ps < n")
  case True
  then show ?thesis using short_sma_ema [OF assms(1)] by blast
next
  case False
  then show ?thesis using calculateEMA_Num [of n ps] assms(2) by simp
qed

lemma macd_finite:
  assumes "ps \<noteq> []"
  shows "\<exists>m. calculateMACD ps
               = \<lparr> macdValue = Num m, signal = Num (m * 0.9), histogram = Num (m - m * 0.9) \<rparr>"
proof -
  obtain a where a: "calculateEMA ps 12 = Num a" using ema_finite [OF assms, of 12] by auto
  obtain b where b: "calculateEMA ps 26 = Num b" using ema_finite [OF assms, of 26] by auto
  have "calculateMACD ps = \<lparr> macdValue = Num (a - b), signal = Num ((a - b) * 0.9),
                              histogram = Num ((a - b) - (a - b) * 0.9) \<rparr>"
    by (simp add: calculateMACD_def a b js_sub_def Let_def)
  then show ?thesis by blast
qed

lemma macd_short:
  assumes "ps \<noteq> []" and "length ps < 12"
  shows "calculateMACD ps = \<lparr> macdValue = Num 0, signal = Num 0, histogram = Num 0 \<rparr>"
  using assms by (simp add: calculateMACD_def calculateEMA_def js_last_def js_sub_def Let_def)

text \<open>
  The Bollinger bands of a non-empty series shorter than the period: the middle is the
  last price and the deviation is taken around it, over all the points, divided by the
  period.
\<close>

lemma bollinger_short:
  assumes "ps \<noteq> []" and "length ps < period"
  shows "calculateBollingerBands ps period
           = (let sd = sqrt (sum_list (map (\<lambda>p. (p - last ps) * (p - last ps)) ps) / real period)
              in \<lparr> upper = Num (last ps + sd * 2), middle = Num (last ps),
                   lower = Num (last ps - sd * 2),
                   width = js_mul (js_div (Num (last ps + sd * 2 - (last ps - sd * 2)))
                                          (Num (last ps)))
                                  (Num 100) \<rparr>)"
proof -
  have pos: "0 < period" using assms(2) by simp
  have sma: "calculateSMA ps period = Num (last ps)"
    using short_sma_ema [OF assms] by simp
  have sl: "js_slice_from (- int period) ps = ps"
    using assms(2) pos by (simp add: js_slice_from_neg)
  have sq: "map (\<lambda>price. js_mul (js_sub (Num price) (Num (last ps)))
                              (js_sub (Num price) (Num (last ps)))) ps
              = map Num (map (\<lambda>p. (p - last ps) * (p - last ps)) ps)"
    by (simp add: js_sub_def)
  have nn: "0 \<le> sum_list (map (\<lambda>p. (p - last ps) * (p - last ps)) ps) / real period"
    by (intro divide_nonneg_nonneg sum_list_nonneg) auto
  show ?thesis
    unfolding calculateBollingerBands_def Let_def sma sl sq js_sumReduce_Num
    using pos nn by (simp add: js_sub_def)
qed

text \<open>
  Claim C4, as stated, fails on the empty series: \<^verbatim>\<open>prices[prices.length - 1]\<close> is
  \<^verbatim>\<open>undefined\<close> there, and \<^verbatim>\<open>calculateSMA\<close> and \<^verbatim>\<open>calculateEMA\<close> return it for every
  positive period; the MACD and the Bollinger bands, computed from them, are NaN.
\<close>

theorem sma_ema_empty_undefined:
  "(\<forall>period. calculateSMA [] (Suc period) = Undefined
             \<and> calculateEMA [] (Suc period) = Undefined)
   \<and> calculateMACD [] = \<lparr> macdValue = NaN, signal = NaN, histogram = NaN \<rparr>
   \<and> calculateBollingerBands [] 20
       = \<lparr> upper = NaN, middle = Undefined, lower = NaN, width = NaN \<rparr>"
  by (simp add: calculateSMA_def calculateEMA_def js_last_def calculateMACD_def
                calculateBollingerBands_def js_slice_from_def js_sumReduce_def js_sub_def
                Let_def)

text \<open>
  Claim C4, amended. No indicator function throws, and on input shorter than its guard
  each guarded indicator returns its neutral default: RSI 50, ATR 0, OBV 0 (also when the
  two series differ in length), volume ratio 1, momentum and rate of change 0, velocity 0,
  trend strength 0, volume momentum 0, volatility 0, Sharpe ratio 0, beta 0, maximum
  drawdown 0, downside deviation 0, value at risk 0. For every non-empty price series
  shorter than the period, \<^verbatim>\<open>calculateSMA\<close> and \<^verbatim>\<open>calculateEMA\<close> return the last price of
  the series; on the empty series they return \<^verbatim>\<open>undefined\<close> for every positive period.
  \<^verbatim>\<open>calculateMACD\<close> and \<^verbatim>\<open>calculateBollingerBands\<close> have no guard of their own: the MACD
  of a non-empty series is a finite number, 0 with signal 0 and histogram 0 below 12
  points, and the Bollinger bands of a non-empty series shorter than the period are
  centred on the last price.
\<close>

theorem short_input_defaults:
  "(ps \<noteq> [] \<and> length ps < period \<longrightarrow>
      calculateSMA ps period = Num (last ps) \<and> calculateEMA ps period = Num (last ps))
   \<and> (0 < period \<longrightarrow>
        calculateSMA [] period = Undefined \<and> calculateEMA [] period = Undefined)
   \<and> (ps \<noteq> [] \<longrightarrow>
        (\<exists>m. calculateMACD ps
               = \<lparr> macdValue = Num m, signal = Num (m * 0.9), histogram = Num (m - m * 0.9) \<rparr>))
   \<and> (ps \<noteq> [] \<and> length ps < 12 \<longrightarrow>
        calculateMACD ps = \<lparr> macdValue = Num 0, signal = Num 0, histogram = Num 0 \<rparr>)
   \<and> (ps \<noteq> [] \<and> length ps < period \<longrightarrow>
        calculateBollingerBands ps period
          = (let sd = sqrt (sum_list (map (\<lambda>p. (p - last ps) * (p - last ps)) ps)
                             / real period)
             in \<lparr> upper = Num (last ps + sd * 2), middle = Num (last ps),
                  lower = Num (last ps - sd * 2),
                  width = js_mul (js_div (Num (last ps + sd * 2 - (last ps - sd * 2)))
                                         (Num (last ps)))
                                 (Num 100) \<rparr>))
   \<and> (length ps < period + 1 \<longrightarrow> calculateRSI ps period = Num 50)
   \<and> (length ps < period + 1 \<longrightarrow> calculateATR ps period = Num 0)
   \<and> (length ps \<noteq> length vs \<or> length ps < 2 \<longrightarrow> calculateOBV ps vs = Num 0)
   \<and> (length vs < 20 \<longrightarrow> calculateVolumeRatio vs = Num 1)
   \<and> (length ps < period + 1 \<longrightarrow>
        calculatePriceMomentum ps period = Num 0 \<and> calculateROC ps period = Num 0)
   \<and> (length ps < 5 \<longrightarrow> calculateVelocity ps = Num 0)
   \<and> (length ps < 20 \<longrightarrow> calculateTrendStrength ps = Num 0)
   \<and> (length vs < 10 \<longrightarrow> calculateVolumeMomentum vs = Num 0)
   \<and> (length ps < period \<longrightarrow> calculateVolatility ps period = Num 0)
   \<and> (length ps < 30 \<longrightarrow> calculateSharpeRatio ps = Num 0 \<and> calculateBeta ps = Num 0)
   \<and> (length ps < 2 \<longrightarrow>
        calculateMaxDrawdown ps = Num 0 \<and> calculateDownsideDeviation ps = Num 0
        \<and> calculateValueAtRisk ps level = Some (Num 0))"
proof -
  have a: "ps \<noteq> [] \<and> length ps < period \<longrightarrow>
      calculateSMA ps period = Num (last ps) \<and> calculateEMA ps period = Num (last ps)"
    using short_sma_ema [of ps period] by simp
  have b: "0 < period \<longrightarrow>
        calculateSMA [] period = Undefined \<and> calculateEMA [] period = Undefined"
    by (simp add: calculateSMA_def calculateEMA_def js_last_def)
  have c: "ps \<noteq> [] \<longrightarrow>
        (\<exists>m. calculateMACD ps
               = \<lparr> macdValue = Num m, signal = Num (m * 0.9), histogram = Num (m - m * 0.9) \<rparr>)"
    using macd_finite [of ps] by simp
  have d: "ps \<noteq> [] \<and> length ps < 12 \<longrightarrow>
        calculateMACD ps = \<lparr> macdValue = Num 0, signal = Num 0, histogram = Num 0 \<rparr>"
    using macd_short [of ps] by simp
  have e: "ps \<noteq> [] \<and> length ps < period \<longrightarrow>
        calculateBollingerBands ps period
          = (let sd = sqrt (sum_list (map (\<lambda>p. (p - last ps) * (p - last ps)) ps)
                             / real period)
             in \<lparr> upper = Num (last ps + sd * 2), middle = Num (last ps),
                  lower = Num (last ps - sd * 2),
                  width = js_mul (js_div (Num (last ps + sd * 2 - (last ps - sd * 2)))
                                         (Num (last ps)))
                                 (Num 100) \<rparr>)"
    using bollinger_short [of ps period] by blast
  have f: "(length ps < period + 1 \<longrightarrow> calculateRSI ps period = Num 50)
   \<and> (length ps < period + 1 \<longrightarrow> calculateATR ps period = Num 0)
   \<and> (length ps \<noteq> length vs \<or> length ps < 2 \<longrightarrow> calculateOBV ps vs = Num 0)
   \<and> (length vs < 20 \<longrightarrow> calculateVolumeRatio vs = Num 1)
   \<and> (length ps < period + 1 \<longrightarrow>
        calculatePriceMomentum ps period = Num 0 \<and> calculateROC ps period = Num 0)
   \<and> (length ps < 5 \<longrightarrow> calculateVelocity ps = Num 0)
   \<and> (length ps < 20 \<longrightarrow> calculateTrendStrength ps = Num 0)
   \<and> (length vs < 10 \<longrightarrow> calculateVolumeMomentum vs = Num 0)"
    by (simp add: calculateRSI_def calculateATR_def calculateOBV_def calculateVolumeRatio_def
                  calculatePriceMomentum_def calculateROC_def calculateVelocity_def
                  calculateTrendStrength_def calculateVolumeMomentum_def)
  have g: "(length ps < period \<longrightarrow> calculateVolatility ps period = Num 0)
   \<and> (length ps < 30 \<longrightarrow> calculateSharpeRatio ps = Num 0 \<and> calculateBeta ps = Num 0)
   \<and> (length ps < 2 \<longrightarrow>
        calculateMaxDrawdown ps = Num 0 \<and> calculateDownsideDeviation ps = Num 0
        \<and> calculateValueAtRisk ps level = Some (Num 0))"
    by (simp add: calculateVolatility_def calculateSharpeRatio_def calculateBeta_def
                  calculateMaxDrawdown_def calculateDownsideDeviation_def
                  calculateValueAtRisk_def)
  show ?thesis using a b c d e f g by - (elim conjE, intro conjI, assumption+)
qed

theorem short_input_defaults_witness:
  "calculateSMA [3, 4] 20 = Num 4 \<and> calculateEMA [3, 4] 20 = Num 4
   \<and> calculateSMA [] 20 = Undefined \<and> calculateEMA [] 20 = Undefined
   \<and> calculateMACD [3, 4] = \<lparr> macdValue = Num 0, signal = Num 0, histogram = Num 0 \<rparr>
   \<and> middle (calculateBollingerBands [3, 4] 20) = Num 4
   \<and> calculateRSI [3, 4] 20 = Num 50
   \<and> calculateATR [3, 4] 20 = Num 0
   \<and> calculateOBV [3] [7] = Num 0
   \<and> calculateVolumeRatio [7] = Num 1
   \<and> calculatePriceMomentum [3, 4] 20 = Num 0 \<and> calculateROC [3, 4] 20 = Num 0
   \<and> calculateVelocity [3] = Num 0
   \<and> calculateTrendStrength [3] = Num 0
   \<and> calculateVolumeMomentum [7] = Num 0
   \<and> calculateVolatility [3, 4] 20 = Num 0
   \<and> calculateSharpeRatio [3, 4] = Num 0 \<and> calculateBeta [3, 4] = Num 0
   \<and> calculateMaxDrawdown [3] = Num 0 \<and> calculateDownsideDeviation [3] = Num 0
   \<and> calculateValueAtRisk [3] 0.95 = Some (Num 0)"
  using short_input_defaults [of "[3, 4]" 20 "[7]" "0.95"]
        short_input_defaults [of "[3]" 20 "[7]" "0.95"]
  by (simp add: Let_def)

section \<open>Scenario A: a rising series\<close>

lemma sorted_le_last:
  fixes xs :: "real list"
  shows "sorted_wrt (<) xs \<Longrightarrow> x \<in> set xs \<Longrightarrow> x \<le> last xs"
  by (induction xs) (auto simp: less_imp_le)

lemma sum_list_le_bound:
  fixes xs :: "real list"
  shows "(\<And>x. x \<in> set xs \<Longrightarrow> x \<le> c) \<Longrightarrow> sum_list xs \<le> real (length xs) * c"
  by (induction xs) (auto simp: algebra_simps intro: add_mono)

text \<open>A strictly increasing series of two or more points has a mean below its last point.\<close>

lemma strict_sorted_sum_lt:
  fixes xs :: "real list"
  assumes "sorted_wrt (<) xs" and "2 \<le> length xs"
  shows "sum_list xs < real (length xs) * last xs"
proof -
  obtain x y zs where xs: "xs = x # y # zs"
    using assms(2) by (cases xs; cases "tl xs") auto
  have tl: "sorted_wrt (<) (y # zs)" using assms(1) xs by simp
  have lt: "x < last (y # zs)"
  proof -
    have "x < y" using assms(1) xs by simp
    moreover have "y \<le> last (y # zs)" using sorted_le_last [OF tl, of y] by simp
    ultimately show ?thesis by linarith
  qed
  have "sum_list (y # zs) \<le> real (length (y # zs)) * last (y # zs)"
    by (rule sum_list_le_bound) (rule sorted_le_last [OF tl])
  then show ?thesis using lt xs by (simp add: algebra_simps)
qed

lemma rising_sma20:
  fixes ps :: "real list"
  assumes "sorted_wrt (<) ps" and "length ps = 40"
  shows "\<exists>a. calculateSMA ps 20 = Num a \<and> a < last ps"
proof -
  have d: "sorted_wrt (<) (drop 20 ps)" using assms(1) by (rule sorted_wrt_drop)
  have "sum_list (drop 20 ps) < real (length (drop 20 ps)) * last (drop 20 ps)"
    by (rule strict_sorted_sum_lt [OF d]) (simp add: assms(2))
  then have "sum_list (drop 20 ps) / 20 < last ps"
    using assms(2) by simp
  moreover have "calculateSMA ps 20 = Num (sum_list (drop 20 ps) / 20)"
    using calculateSMA_Num [of 20 ps] assms(2) by simp
  ultimately show ?thesis by blast
qed

lemma rising_rsi:
  fixes ps :: "real list"
  assumes "sorted_wrt (<) ps" and "length ps = 40"
  shows "calculateRSI ps 14 = Num 100"
proof (rule calculateRSI_no_decline)
  show "15 \<le> length ps" using assms(2) by simp
  show "\<forall>i \<in> set [length ps - 14 ..< length ps]. ps ! (i - 1) \<le> ps ! i"
    using assms by (auto simp: sorted_wrt_iff_nth_less less_imp_le)
qed

lemma js_slice_from_last5: "js_slice_from (- 5) xs = drop (length xs - 5) xs"
  using js_slice_from_neg [of 5 xs] by simp

lemma js_slice_older10:
  "10 \<le> length xs \<Longrightarrow> js_slice (- 10) (- 5) xs = take 5 (drop (length xs - 10) xs)"
  using js_slice_neg_neg [of 5 10 xs] by simp

lemma js_slice_older20:
  "20 \<le> length xs \<Longrightarrow> js_slice (- 20) (- 5) xs = take 15 (drop (length xs - 20) xs)"
  using js_slice_neg_neg [of 5 20 xs] by simp

lemma constant_volumeMomentum: "calculateVolumeMomentum (replicate 40 v) = Num 0"
  by (simp add: calculateVolumeMomentum_def js_slice_from_last5 js_slice_older10
                sumReduce_sum_list sum_list_replicate Let_def)

lemma constant_volumeRatio: "calculateVolumeRatio (replicate 40 v) = Num 1"
  by (simp add: calculateVolumeRatio_def js_slice_from_last5 js_slice_older20
                sumReduce_sum_list sum_list_replicate Let_def)

text \<open>
  An overbought RSI and a price not above the 50-day average are two bearish signals; with
  no rising volume at most two signals are bullish, so the trend is not bullish.
\<close>

lemma generateSignals_not_bullish:
  assumes "rsi t = Num 100"
    and "\<not> js_gt (js_last ps) (sma50 t)"
    and "\<not> js_gt (volumeMomentum m) (Num 20)"
  shows "fst (generateSignals t m ps) \<noteq> bullish"
  using assms by (simp add: generateSignals_def Let_def js_gt_def)

text \<open>What scenario A computes for the series 1, 2, ..., 40.\<close>

lemma rp_sum12: "sum_list (take 12 risingPrices) = 78"
  unfolding risingPrices_def by code_simp

lemma rp_sum26: "sum_list (take 26 risingPrices) = 351"
  unfolding risingPrices_def by code_simp

lemma rp_fold:
  "fold (\<lambda>i e. (risingPrices ! i - e) * k + e) [n ..< 40] a
     = fold (\<lambda>i e. (real i + 1 - e) * k + e) [n ..< 40] a"
  by (rule fold_cong) (auto simp: rp_nth)

lemma rp_ema12:
  "calculateEMA risingPrices 12
     = Num (fold (\<lambda>i e. (real i + 1 - e) * (2 / 13) + e) [12 ..< 40] (78 / 12))"
proof -
  have "calculateEMA risingPrices 12
          = Num (fold (\<lambda>i e. (risingPrices ! i - e) * (2 / (real 12 + 1)) + e)
                      [12 ..< length risingPrices] (sum_list (take 12 risingPrices) / real 12))"
    by (rule calculateEMA_Num) (simp_all add: rp_len)
  also have "\<dots> = Num (fold (\<lambda>i e. (real i + 1 - e) * (2 / (real 12 + 1)) + e)
                      [12 ..< 40] (78 / real 12))"
    by (simp only: rp_len rp_sum12 rp_fold)
  also have "\<dots> = Num (fold (\<lambda>i e. (real i + 1 - e) * (2 / 13) + e) [12 ..< 40] (78 / 12))"
    by simp
  finally show ?thesis .
qed

lemma rp_ema26:
  "calculateEMA risingPrices 26
     = Num (fold (\<lambda>i e. (real i + 1 - e) * (2 / 27) + e) [26 ..< 40] (351 / 26))"
proof -
  have "calculateEMA risingPrices 26
          = Num (fold (\<lambda>i e. (risingPrices ! i - e) * (2 / (real 26 + 1)) + e)
                      [26 ..< length risingPrices] (sum_list (take 26 risingPrices) / real 26))"
    by (rule calculateEMA_Num) (simp_all add: rp_len)
  also have "\<dots> = Num (fold (\<lambda>i e. (real i + 1 - e) * (2 / (real 26 + 1)) + e)
                      [26 ..< 40] (351 / real 26))"
    by (simp only: rp_len rp_sum26 rp_fold)
  also have "\<dots> = Num (fold (\<lambda>i e. (real i + 1 - e) * (2 / 27) + e) [26 ..< 40] (351 / 26))"
    by simp
  finally show ?thesis .
qed

lemma rp_ema_lt:
  "fold (\<lambda>i e. (real i + 1 - e) * (2 / 27) + e) [26 ..< 40] (351 / 26)
          < fold (\<lambda>i e. (real i + 1 - e) * (2 / 13) + e) [12 ..< 40] (78 / 12 :: real)"
  by (simp add: upt_rec_numeral)

lemma rp_histogram:
  "js_gt (histogram (calculateMACD risingPrices)) (Num 0)"
proof -
  obtain a b where a: "calculateEMA risingPrices 12 = Num a"
    and b: "calculateEMA risingPrices 26 = Num b" and lt: "b < a"
    using rp_ema12 rp_ema26 rp_ema_lt by blast
  then show ?thesis
    by (simp add: calculateMACD_def Let_def js_sub_def js_gt_def)
qed

lemma rp_momentum: "calculatePriceMomentum risingPrices 10 = Num (100 / 3)"
  by (simp add: calculatePriceMomentum_def rp_len rp_nth)

text \<open>
  Claim C9, as stated, fails on the series 1, 2, ..., 40 with constant volume: with fewer
  than 50 points the 50-day average is the last price itself, so the price is not above
  it, and with RSI overbought the signals are two bearish against two bullish: the trend
  is neutral.
\<close>

theorem rising_series_not_bullish:
  "sma50 (calculateTechnicalIndicators risingPrices constantVolumes) = Num 40
   \<and> js_last risingPrices = Num 40
   \<and> \<not> js_gt (js_last risingPrices)
              (sma50 (calculateTechnicalIndicators risingPrices constantVolumes))
   \<and> generateSignals (calculateTechnicalIndicators risingPrices constantVolumes)
                      (calculateMomentum risingPrices constantVolumes) risingPrices
       = (neutral, [''RSI overbought'', ''MACD bullish'', ''Below 50-day SMA'',
                    ''Strong momentum''])"
proof -
  have r: "calculateRSI risingPrices 14 = Num 100"
    using rising_rsi [OF rp_sorted rp_len] .
  have s: "calculateSMA risingPrices 50 = Num 40"
    by (simp add: calculateSMA_def rp_len rp_js_last)
  have v: "calculateVolumeMomentum constantVolumes = Num 0"
    unfolding constantVolumes_def by (rule constant_volumeMomentum)
  show ?thesis
    using rp_histogram
    by (simp add: calculateTechnicalIndicators_def calculateMomentum_def generateSignals_def
                  Let_def r s v rp_js_last rp_momentum js_gt_def)
qed

text \<open>
  Claim C9, amended. For every strictly increasing 40-point price series with constant
  volume: \<^verbatim>\<open>calculateRSI\<close> returns 100; the price is above the 20-day average, so
  \<^verbatim>\<open>scoreTechnical\<close> adds that bonus of 10; the 50-day average is the last price itself, so
  the price is not above it and \<^verbatim>\<open>scoreTechnical\<close> adds nothing for it (the score is 50,
  less 15 for the overbought RSI, plus or minus 10 for MACD, plus 10 for the 20-day
  average, plus the Bollinger term, with nothing for the volume ratio of 1); and
  \<^verbatim>\<open>generateSignals\<close> does not classify the trend as bullish.
\<close>

theorem rising_series_scenario:
  assumes "sorted_wrt (<) ps" and "length ps = 40" and "vs = replicate 40 v"
    and "t = calculateTechnicalIndicators ps vs" and "m = calculateMomentum ps vs"
  shows "rsi t = Num 100
     \<and> js_gt (js_last ps) (sma20 t)
     \<and> sma50 t = js_last ps
     \<and> \<not> js_gt (js_last ps) (sma50 t)
     \<and> scoreTechnical t (js_last ps)
         = max 0 (min 100
             (50 - 15
              + (if js_gt (histogram (macd t)) (Num 0) then 10 else - 10)
              + 10
              + 0
              + (if js_lt (js_div (js_sub (js_last ps) (lower (bollingerBands t)))
                                  (js_sub (upper (bollingerBands t)) (lower (bollingerBands t))))
                          (Num 0.2) then 10
                 else if js_gt (js_div (js_sub (js_last ps) (lower (bollingerBands t)))
                                       (js_sub (upper (bollingerBands t))
                                               (lower (bollingerBands t))))
                               (Num 0.8) then - 10
                 else 0)
              + 0))
     \<and> fst (generateSignals t m ps) \<noteq> bullish"
proof -
  have r: "rsi t = Num 100"
    using rising_rsi [OF assms(1,2)] assms(4) by (simp add: calculateTechnicalIndicators_def)
  obtain a where a: "sma20 t = Num a" and lt: "a < last ps"
    using rising_sma20 [OF assms(1,2)] assms(4)
    by (auto simp: calculateTechnicalIndicators_def)
  have l: "js_last ps = Num (last ps)"
    using assms(2) by (auto simp: js_last_def)
  have s50: "sma50 t = js_last ps"
    using assms(2,4) by (simp add: calculateTechnicalIndicators_def calculateSMA_def)
  have g20: "js_gt (js_last ps) (sma20 t)"
    using a lt l by (simp add: js_gt_def)
  have n50: "\<not> js_gt (js_last ps) (sma50 t)"
    using s50 l by (simp add: js_gt_def)
  have vr: "volumeRatio t = Num 1"
    using assms(3,4) by (simp add: calculateTechnicalIndicators_def constant_volumeRatio)
  have vm: "volumeMomentum m = Num 0"
    using assms(3,5) by (simp add: calculateMomentum_def constant_volumeMomentum)
  have sc: "scoreTechnical t (js_last ps)
         = max 0 (min 100
             (50 - 15
              + (if js_gt (histogram (macd t)) (Num 0) then 10 else - 10)
              + 10
              + 0
              + (if js_lt (js_div (js_sub (js_last ps) (lower (bollingerBands t)))
                                  (js_sub (upper (bollingerBands t)) (lower (bollingerBands t))))
                          (Num 0.2) then 10
                 else if js_gt (js_div (js_sub (js_last ps) (lower (bollingerBands t)))
                                       (js_sub (upper (bollingerBands t))
                                               (lower (bollingerBands t))))
                               (Num 0.8) then - 10
                 else 0)
              + 0))"
    using g20 n50 by (simp add: scoreTechnical_def Let_def r vr js_gt_def)
  have nb: "fst (generateSignals t m ps) \<noteq> bullish"
    by (rule generateSignals_not_bullish [OF r n50]) (simp add: vm js_gt_def)
  show ?thesis using r g20 s50 n50 sc nb by blast
qed

theorem rising_series_scenario_witness:
  "rsi (calculateTechnicalIndicators risingPrices constantVolumes) = Num 100
   \<and> js_gt (js_last risingPrices)
            (sma20 (calculateTechnicalIndicators risingPrices constantVolumes))
   \<and> sma50 (calculateTechnicalIndicators risingPrices constantVolumes) = js_last risingPrices
   \<and> fst (generateSignals (calculateTechnicalIndicators risingPrices constantVolumes)
                           (calculateMomentum risingPrices constantVolumes) risingPrices)
       \<noteq> bullish"
  using rising_series_scenario [OF rp_sorted rp_len, of constantVolumes 1000
          "calculateTechnicalIndicators risingPrices constantVolumes"
          "calculateMomentum risingPrices constantVolumes"]
  by (simp add: constantVolumes_def)

section \<open>Allocation composition: properties\<close>

text \<open>
  The total of up to 2 to the 32 rows with shares between 0 and 5 is a finite number: the
  rounded sum of the shares.
\<close>

lemma totalAllocation_fold:
  assumes "\<forall>item \<in> set rows. 0 \<le> allocationPct item \<and> allocationPct item \<le> 5"
    and "0 \<le> a" and "a + 6 * real (length rows) \<le> 2 ^ 40"
  shows "foldl (\<lambda>sum item. f64_add sum (Num (allocationPct item))) (Num a) rows
           = Num (foldl (\<lambda>s p. b64 (s + p)) a (map allocationPct rows))"
  using assms
proof (induction rows arbitrary: a)
  case Nil
  then show ?case by simp
next
  case (Cons item rows)
  define p where "p = allocationPct item"
  have p: "0 \<le> p" "p \<le> 5" using Cons.prems(1) by (simp_all add: p_def)
  have ap: "0 \<le> a + p" "a + p \<le> 2 ^ 40 + 5"
    using p Cons.prems(2,3) by simp_all
  have add: "f64_add (Num a) (Num p) = Num (b64 (a + p))"
    using ap by (intro f64_add_Num) simp
  have b0: "0 \<le> b64 (a + p)" using ap(1) by (rule b64_nonneg)
  have "(a + p) * unitRoundoff \<le> (2 ^ 40 + 5) * (1 / 1000000000000000)"
    using ap small_bounds by (intro mult_mono) simp_all
  moreover have "(a + p) * (1 + unitRoundoff) = a + p + (a + p) * unitRoundoff"
    by (simp add: algebra_simps)
  ultimately have "b64 (a + p) \<le> a + 6"
    using b64_upper [OF ap(1)] p small_bounds by simp
  then have bnd: "b64 (a + p) + 6 * real (length rows) \<le> 2 ^ 40"
    using Cons.prems(3) by simp
  have "foldl (\<lambda>sum item. f64_add sum (Num (allocationPct item))) (Num (b64 (a + p))) rows
          = Num (foldl (\<lambda>s p. b64 (s + p)) (b64 (a + p)) (map allocationPct rows))"
    using Cons.prems(1) b0 bnd by (intro Cons.IH) simp_all
  then show ?case using add by (simp add: p_def)
qed

lemma totalAllocation_Num:
  assumes "\<forall>item \<in> set rows. 0 \<le> allocationPct item \<and> allocationPct item \<le> 5"
    and "real (length rows) \<le> 2 ^ 32"
  shows "totalAllocation rows = Num (foldl (\<lambda>s p. b64 (s + p)) 0 (map allocationPct rows))"
  unfolding totalAllocation_def using assms by (intro totalAllocation_fold) simp_all

lemma scaleAllocations_Num:
  assumes "\<forall>item \<in> set rows. \<bar>allocationPct item * k\<bar> \<le> 2 ^ 64"
  shows "scaleAllocations rows (Num k)
           = Inr (map (\<lambda>item. item\<lparr>allocationPct := b64 (allocationPct item * k)\<rparr>) rows)"
  using assms by (induction rows) (simp_all add: f64_mul_Num)

lemma scaled_shares:
  "map allocationPct (map (\<lambda>item. item\<lparr>allocationPct := b64 (allocationPct item * k)\<rparr>) xs)
     = map (\<lambda>p. b64 (p * k)) (map allocationPct xs)"
  by (simp add: comp_def)

lemma scaled_coinIds:
  "map AllocationItem.coinId
       (map (\<lambda>item. item\<lparr>allocationPct := b64 (allocationPct item * k)\<rparr>) xs)
     = map AllocationItem.coinId xs"
  by (simp add: comp_def)

text \<open>
  The composition of rows with shares between 0 and 1 that sum to at least 0.3: the total
  is a finite number, the rows are rescaled by the rounded 1/total exactly when the total
  deviates from 1 by more than 0.01, and the total of the returned rows is within 0.01
  of 1.
\<close>

lemma combine_total:
  assumes rng: "\<forall>item \<in> set (core @ satellites). 0 \<le> allocationPct item \<and> allocationPct item \<le> 1"
    and S: "3 / 10 \<le> sum_list (map allocationPct (core @ satellites))"
    and n: "real (length (core @ satellites)) \<le> 2 ^ 32"
  shows "\<exists>total allocation composed.
           totalAllocation (core @ satellites) = Num total
           \<and> combineAndValidateAllocations core satellites policy intake = Inr allocation
           \<and> allocation
               = (if 1 / 100 < \<bar>total - 1\<bar>
                  then map (\<lambda>item. item\<lparr>allocationPct :=
                                      b64 (allocationPct item * b64 (1 / total))\<rparr>)
                           (core @ satellites)
                  else core @ satellites)
           \<and> totalAllocation allocation = Num composed
           \<and> \<bar>composed - 1\<bar> \<le> 1 / 100"
proof -
  define rows where "rows = core @ satellites"
  define ps where "ps = map allocationPct rows"
  define t where "t = foldl (\<lambda>s p. b64 (s + p)) 0 ps"
  define k where "k = b64 (1 / t)"
  define scaled where
    "scaled = map (\<lambda>item. item\<lparr>allocationPct := b64 (allocationPct item * k)\<rparr>) rows"
  have rng1: "\<forall>item \<in> set rows. 0 \<le> allocationPct item \<and> allocationPct item \<le> 1"
    using rng unfolding rows_def .
  have prng: "\<forall>p \<in> set ps. 0 \<le> p \<and> p \<le> 1" using rng1 by (auto simp: ps_def)
  have pS: "3 / 10 \<le> sum_list ps" using S by (simp add: ps_def rows_def)
  have pn: "real (length ps) \<le> 2 ^ 32" using n by (simp add: ps_def rows_def)
  have rng5: "\<forall>item \<in> set rows. 0 \<le> allocationPct item \<and> allocationPct item \<le> 5"
    using rng1 by fastforce
  have rn: "real (length rows) \<le> 2 ^ 32" using n by (simp add: rows_def)
  have tot: "totalAllocation rows = Num t"
    unfolding t_def ps_def using rng5 rn by (rule totalAllocation_Num)
  have tb: "29 / 100 \<le> t" "t \<le> 2 ^ 33"
    using total_bounds [OF prng pS pn] by (simp_all add: t_def)
  have kb: "0 \<le> k" "k \<le> 4"
    and comp: "\<bar>foldl (\<lambda>s p. b64 (s + p)) 0 (map (\<lambda>p. b64 (p * k)) ps) - 1\<bar> \<le> 1 / 100"
    using rescaled_total [OF prng pS pn] by (simp_all add: k_def t_def)
  have ne: "ps \<noteq> []" using pS by auto
  obtain x where x: "t = b64 x" unfolding t_def using fsum_range [OF ne] by blast
  have sub: "f64_sub (Num t) (Num 1) = Num (b64 (t - 1))"
    using tb by (intro f64_sub_Num) (simp add: abs_le_iff)
  have test: "js_gt (js_abs (f64_sub (Num t) (Num 1))) (Num (b64 (1 / 100)))
                = (1 / 100 < \<bar>t - 1\<bar>)"
    unfolding sub using tolerance_test [OF x] by (simp add: js_gt_def)
  have "\<bar>1 / t\<bar> \<le> 100 / 29" using tb by (simp add: field_simps abs_le_iff)
  then have dv: "f64_div (Num 1) (Num t) = Num k"
    unfolding k_def using tb by (intro f64_div_Num) simp_all
  have pk: "\<forall>item \<in> set rows. \<bar>allocationPct item * k\<bar> \<le> 2 ^ 64"
  proof
    fix item assume "item \<in> set rows"
    then have p: "0 \<le> allocationPct item" "allocationPct item \<le> 1"
      using rng1 by simp_all
    have "allocationPct item * k \<le> 1 * 4" using p kb by (intro mult_mono) simp_all
    moreover have "0 \<le> allocationPct item * k" using p kb by simp
    ultimately show "\<bar>allocationPct item * k\<bar> \<le> 2 ^ 64" by simp
  qed
  have sc: "scaleAllocations rows (Num k) = Inr scaled"
    unfolding scaled_def using pk by (rule scaleAllocations_Num)
  have cmb: "combineAndValidateAllocations core satellites policy intake
               = (if 1 / 100 < \<bar>t - 1\<bar> then Inr scaled else Inr rows)"
    unfolding combineAndValidateAllocations_def Let_def rows_def [symmetric] tot
    using test dv sc by simp
  have q5: "\<forall>item \<in> set scaled. 0 \<le> allocationPct item \<and> allocationPct item \<le> 5"
  proof
    fix item assume "item \<in> set scaled"
    then obtain r where r: "r \<in> set rows"
      and item: "item = r\<lparr>allocationPct := b64 (allocationPct r * k)\<rparr>"
      unfolding scaled_def by auto
    have p: "0 \<le> allocationPct r" "allocationPct r \<le> 1" using rng1 r by simp_all
    have pk0: "0 \<le> allocationPct r * k" using p kb by simp
    have pk4: "allocationPct r * k \<le> 1 * 4" using p kb by (intro mult_mono) simp_all
    have "allocationPct r * k * unitRoundoff \<le> 4 * (1 / 1000000000000000)"
      using pk0 pk4 small_bounds by (intro mult_mono) simp_all
    moreover have "allocationPct r * k * (1 + unitRoundoff)
                     = allocationPct r * k + allocationPct r * k * unitRoundoff"
      by (simp add: algebra_simps)
    ultimately have "b64 (allocationPct r * k) \<le> 5"
      using b64_upper [OF pk0] pk4 small_bounds by simp
    then show "0 \<le> allocationPct item \<and> allocationPct item \<le> 5"
      using b64_nonneg [OF pk0] item by simp
  qed
  have sn: "real (length scaled) \<le> 2 ^ 32" using rn by (simp add: scaled_def)
  have stot: "totalAllocation scaled
                = Num (foldl (\<lambda>s p. b64 (s + p)) 0 (map (\<lambda>p. b64 (p * k)) ps))"
    using totalAllocation_Num [OF q5 sn] unfolding scaled_def ps_def by (simp add: comp_def)
  show ?thesis
  proof (cases "1 / 100 < \<bar>t - 1\<bar>")
    case True
    have "totalAllocation (core @ satellites) = Num t
           \<and> combineAndValidateAllocations core satellites policy intake = Inr scaled
           \<and> scaled
               = (if 1 / 100 < \<bar>t - 1\<bar>
                  then map (\<lambda>item. item\<lparr>allocationPct :=
                                      b64 (allocationPct item * b64 (1 / t))\<rparr>)
                           (core @ satellites)
                  else core @ satellites)
           \<and> totalAllocation scaled
               = Num (foldl (\<lambda>s p. b64 (s + p)) 0 (map (\<lambda>p. b64 (p * k)) ps))
           \<and> \<bar>foldl (\<lambda>s p. b64 (s + p)) 0 (map (\<lambda>p. b64 (p * k)) ps) - 1\<bar> \<le> 1 / 100"
      using True tot cmb stot comp unfolding rows_def scaled_def k_def by simp
    then show ?thesis by blast
  next
    case False
    have "totalAllocation (core @ satellites) = Num t
           \<and> combineAndValidateAllocations core satellites policy intake = Inr (core @ satellites)
           \<and> core @ satellites
               = (if 1 / 100 < \<bar>t - 1\<bar>
                  then map (\<lambda>item. item\<lparr>allocationPct :=
                                      b64 (allocationPct item * b64 (1 / t))\<rparr>)
                           (core @ satellites)
                  else core @ satellites)
           \<and> totalAllocation (core @ satellites) = Num t
           \<and> \<bar>t - 1\<bar> \<le> 1 / 100"
      using False tot cmb unfolding rows_def by simp
    then show ?thesis by blast
  qed
qed

text \<open>In each preset the BTC and ETH targets add up to the core target.\<close>

lemma preset_core_split:
  "RiskProfile.btcTargetPct (riskProfiles t) + RiskProfile.ethTargetPct (riskProfiles t)
     = RiskProfile.coreTargetPct (riskProfiles t)"
  by (cases t) simp_all

lemma preset_stable_pos: "1 / 20 \<le> RiskProfile.stableBufferPct (riskProfiles t)"
  by (cases t) simp_all

text \<open>The fields of a resolved policy that the composition depends on.\<close>

lemma buildPolicy_fields:
  "PolicyData.btcTargetPct (buildPolicy intake) + PolicyData.ethTargetPct (buildPolicy intake)
     = PolicyData.coreTargetPct (buildPolicy intake)
   \<and> 3 / 10 \<le> PolicyData.coreTargetPct (buildPolicy intake)
   \<and> 1 / 20 \<le> PolicyData.stableBufferPct (buildPolicy intake)
   \<and> PolicyData.satelliteTargetPct (buildPolicy intake)
       = 1 - PolicyData.coreTargetPct (buildPolicy intake)
           - PolicyData.stableBufferPct (buildPolicy intake)"
proof -
  define p where "p = riskProfiles (IntakeData.riskTolerance intake)"
  define s where "s = max (stablecoinBufferPct intake / 100) (RiskProfile.stableBufferPct p)"
  define c where "c = max (3 / 10) (RiskProfile.coreTargetPct p - s)"
  have pos: "0 < RiskProfile.coreTargetPct p"
    unfolding p_def by (rule riskProfiles_core_pos)
  have f: "PolicyData.btcTargetPct (buildPolicy intake)
             = RiskProfile.btcTargetPct p * (c / RiskProfile.coreTargetPct p)
           \<and> PolicyData.ethTargetPct (buildPolicy intake)
             = RiskProfile.ethTargetPct p * (c / RiskProfile.coreTargetPct p)
           \<and> PolicyData.coreTargetPct (buildPolicy intake) = c
           \<and> PolicyData.stableBufferPct (buildPolicy intake) = s
           \<and> PolicyData.satelliteTargetPct (buildPolicy intake) = 1 - c - s"
    by (simp add: buildPolicy_def Let_def p_def s_def c_def)
  have "RiskProfile.btcTargetPct p * (c / RiskProfile.coreTargetPct p)
          + RiskProfile.ethTargetPct p * (c / RiskProfile.coreTargetPct p)
        = (RiskProfile.btcTargetPct p + RiskProfile.ethTargetPct p)
            * (c / RiskProfile.coreTargetPct p)"
    by (simp only: distrib_right)
  also have "\<dots> = RiskProfile.coreTargetPct p * (c / RiskProfile.coreTargetPct p)"
    unfolding p_def by (simp only: preset_core_split)
  also have "\<dots> = c"
    using pos by simp
  finally have split: "RiskProfile.btcTargetPct p * (c / RiskProfile.coreTargetPct p)
          + RiskProfile.ethTargetPct p * (c / RiskProfile.coreTargetPct p) = c" .
  have c: "3 / 10 \<le> c" unfolding c_def by (rule max.cobounded1)
  have "1 / 20 \<le> RiskProfile.stableBufferPct p"
    unfolding p_def by (rule preset_stable_pos)
  also have "\<dots> \<le> s" unfolding s_def by (rule max.cobounded2)
  finally have s: "1 / 20 \<le> s" .
  show ?thesis
    using f split c s by (simp only: simp_thms)
qed

text \<open>
  The core rows of a resolved policy are BTC, ETH and the stable buffer, and sum to the
  core target plus the buffer, which is at least 0.35.
\<close>

lemma core_rows:
  assumes "0 < PolicyData.stableBufferPct policy"
  shows "map allocationPct (buildCoreAllocations policy intake)
           = [PolicyData.btcTargetPct policy, PolicyData.ethTargetPct policy,
              PolicyData.stableBufferPct policy]"
  using assms by (simp add: buildCoreAllocations_def)


lemma core_coinIds:
  assumes "0 < PolicyData.stableBufferPct policy"
  shows "map AllocationItem.coinId (buildCoreAllocations policy intake)
           = [''bitcoin'', ''ethereum'', ''usd-coin'']"
  using assms by (simp add: buildCoreAllocations_def)


text \<open>
  The core rows of a resolved policy whose stable-buffer override is between 0 and 100
  percent: three rows with shares between 0 and 1 that sum to at least 0.3.
\<close>

lemma preset_ranges:
  "2 / 5 \<le> RiskProfile.coreTargetPct (riskProfiles t)
   \<and> 0 \<le> RiskProfile.btcTargetPct (riskProfiles t)
   \<and> RiskProfile.btcTargetPct (riskProfiles t) \<le> 1
   \<and> 0 \<le> RiskProfile.ethTargetPct (riskProfiles t)
   \<and> RiskProfile.ethTargetPct (riskProfiles t) \<le> 1
   \<and> RiskProfile.stableBufferPct (riskProfiles t) \<le> 1"
  by (cases t) simp_all

lemma resolved_core_rows:
  assumes "0 \<le> stablecoinBufferPct intake" and "stablecoinBufferPct intake \<le> 100"
  shows "(\<forall>item \<in> set (buildCoreAllocations (buildPolicy intake) intake).
            0 \<le> allocationPct item \<and> allocationPct item \<le> 1)
         \<and> 3 / 10 \<le> sum_list (map allocationPct (buildCoreAllocations (buildPolicy intake) intake))
         \<and> length (buildCoreAllocations (buildPolicy intake) intake) = 3"
proof -
  define p where "p = riskProfiles (IntakeData.riskTolerance intake)"
  define s where "s = max (stablecoinBufferPct intake / 100) (RiskProfile.stableBufferPct p)"
  define c where "c = max (3 / 10) (RiskProfile.coreTargetPct p - s)"
  define r where "r = c / RiskProfile.coreTargetPct p"
  have pr: "2 / 5 \<le> RiskProfile.coreTargetPct p"
    "0 \<le> RiskProfile.btcTargetPct p" "RiskProfile.btcTargetPct p \<le> 1"
    "0 \<le> RiskProfile.ethTargetPct p" "RiskProfile.ethTargetPct p \<le> 1"
    "RiskProfile.stableBufferPct p \<le> 1"
    using preset_ranges [of "IntakeData.riskTolerance intake"] by (simp_all add: p_def)
  have sp: "1 / 20 \<le> RiskProfile.stableBufferPct p"
    unfolding p_def by (rule preset_stable_pos)
  have s0: "1 / 20 \<le> s" "s \<le> 1" using sp pr(6) assms by (simp_all add: s_def)
  have c0: "3 / 10 \<le> c" "c \<le> RiskProfile.coreTargetPct p"
    using s0 pr(1) by (simp_all add: c_def)
  have r0: "0 \<le> r" "r \<le> 1" using c0 pr(1) by (simp_all add: r_def)
  have f: "PolicyData.btcTargetPct (buildPolicy intake) = RiskProfile.btcTargetPct p * r"
          "PolicyData.ethTargetPct (buildPolicy intake) = RiskProfile.ethTargetPct p * r"
          "PolicyData.stableBufferPct (buildPolicy intake) = s"
          "PolicyData.coreTargetPct (buildPolicy intake) = c"
    by (simp_all add: buildPolicy_def Let_def p_def s_def c_def r_def)
  have b: "0 \<le> RiskProfile.btcTargetPct p * r" "RiskProfile.btcTargetPct p * r \<le> 1"
  proof -
    show "0 \<le> RiskProfile.btcTargetPct p * r" using pr r0 by simp
    have "RiskProfile.btcTargetPct p * r \<le> 1 * 1" using pr r0 by (intro mult_mono) simp_all
    then show "RiskProfile.btcTargetPct p * r \<le> 1" by simp
  qed
  have e: "0 \<le> RiskProfile.ethTargetPct p * r" "RiskProfile.ethTargetPct p * r \<le> 1"
  proof -
    show "0 \<le> RiskProfile.ethTargetPct p * r" using pr r0 by simp
    have "RiskProfile.ethTargetPct p * r \<le> 1 * 1" using pr r0 by (intro mult_mono) simp_all
    then show "RiskProfile.ethTargetPct p * r \<le> 1" by simp
  qed
  have pos: "0 < PolicyData.stableBufferPct (buildPolicy intake)" using f s0 by simp
  have rows: "map allocationPct (buildCoreAllocations (buildPolicy intake) intake)
                = [RiskProfile.btcTargetPct p * r, RiskProfile.ethTargetPct p * r, s]"
    using core_rows [OF pos, of intake] f by simp
  have split: "PolicyData.btcTargetPct (buildPolicy intake)
                 + PolicyData.ethTargetPct (buildPolicy intake) = c"
    using buildPolicy_fields [of intake] f by simp
  have "\<forall>q \<in> set (map allocationPct (buildCoreAllocations (buildPolicy intake) intake)).
          0 \<le> q \<and> q \<le> 1"
    unfolding rows using b e s0 by simp
  then have p1: "\<forall>item \<in> set (buildCoreAllocations (buildPolicy intake) intake).
                   0 \<le> allocationPct item \<and> allocationPct item \<le> 1"
    by simp
  have "sum_list (map allocationPct (buildCoreAllocations (buildPolicy intake) intake)) = c + s"
    unfolding rows using split f by simp
  then have p2: "3 / 10 \<le> sum_list (map allocationPct
                                        (buildCoreAllocations (buildPolicy intake) intake))"
    using c0 s0 by simp
  have "length (map allocationPct (buildCoreAllocations (buildPolicy intake) intake)) = 3"
    unfolding rows by simp
  then have p3: "length (buildCoreAllocations (buildPolicy intake) intake) = 3" by simp
  show ?thesis using p1 p2 p3 by (simp only: simp_thms)
qed

text \<open>
  Claim C1. For every list of core rows and satellites whose shares lie between 0 and 1,
  with core shares that sum to at least 0.3 and fewer than 2 to the 32 rows in all (an
  array of the language holds no more), \<^verbatim>\<open>combineAndValidateAllocations\<close> returns a
  list whose total is within 0.01 of 1: when the concatenated total deviates from 1 by
  more than 0.01, every row is rescaled by 1/total, and otherwise the rows are returned as
  they are. The totals are the totals the code computes, in binary64. The core rows of
  every resolved policy, for a stable-buffer override between 0 and 100 percent, are three
  such rows, so this holds for every satellite list with shares between 0 and 1, the
  empty list included.
\<close>

theorem composed_total_is_one:
  "((\<forall>item \<in> set (core @ satellites). 0 \<le> allocationPct item \<and> allocationPct item \<le> 1)
      \<and> 3 / 10 \<le> sum_list (map allocationPct core)
      \<and> length (core @ satellites) < 2 ^ 32
     \<longrightarrow> (\<exists>total allocation composed.
            totalAllocation (core @ satellites) = Num total
            \<and> combineAndValidateAllocations core satellites policy intake = Inr allocation
            \<and> allocation
                = (if 1 / 100 < \<bar>total - 1\<bar>
                   then map (\<lambda>item. item\<lparr>allocationPct :=
                                       b64 (allocationPct item * b64 (1 / total))\<rparr>)
                            (core @ satellites)
                   else core @ satellites)
            \<and> totalAllocation allocation = Num composed
            \<and> \<bar>composed - 1\<bar> \<le> 1 / 100))
   \<and> (0 \<le> stablecoinBufferPct intake' \<and> stablecoinBufferPct intake' \<le> 100
        \<longrightarrow> (\<forall>item \<in> set (buildCoreAllocations (buildPolicy intake') intake').
               0 \<le> allocationPct item \<and> allocationPct item \<le> 1)
            \<and> 3 / 10 \<le> sum_list (map allocationPct
                                      (buildCoreAllocations (buildPolicy intake') intake'))
            \<and> length (buildCoreAllocations (buildPolicy intake') intake') = 3)"
proof (rule conjI; rule impI)
  assume h: "(\<forall>item \<in> set (core @ satellites). 0 \<le> allocationPct item \<and> allocationPct item \<le> 1)
      \<and> 3 / 10 \<le> sum_list (map allocationPct core)
      \<and> length (core @ satellites) < 2 ^ 32"
  then have rng: "\<forall>item \<in> set (core @ satellites).
                    0 \<le> allocationPct item \<and> allocationPct item \<le> 1"
    by (rule conjunct1)
  have "0 \<le> sum_list (map allocationPct satellites)"
    using rng by (intro sum_list_nonneg) auto
  then have S: "3 / 10 \<le> sum_list (map allocationPct (core @ satellites))"
    using h by simp
  have "real (length (core @ satellites)) < real ((2::nat) ^ 32)"
    using h by (simp only: of_nat_less_iff)
  then have n: "real (length (core @ satellites)) \<le> 2 ^ 32" by simp
  show "\<exists>total allocation composed.
            totalAllocation (core @ satellites) = Num total
            \<and> combineAndValidateAllocations core satellites policy intake = Inr allocation
            \<and> allocation
                = (if 1 / 100 < \<bar>total - 1\<bar>
                   then map (\<lambda>item. item\<lparr>allocationPct :=
                                       b64 (allocationPct item * b64 (1 / total))\<rparr>)
                            (core @ satellites)
                   else core @ satellites)
            \<and> totalAllocation allocation = Num composed
            \<and> \<bar>composed - 1\<bar> \<le> 1 / 100"
    using rng S n by (rule combine_total)
next
  assume "0 \<le> stablecoinBufferPct intake' \<and> stablecoinBufferPct intake' \<le> 100"
  then have a: "0 \<le> stablecoinBufferPct intake'" and b: "stablecoinBufferPct intake' \<le> 100"
    by simp_all
  show "(\<forall>item \<in> set (buildCoreAllocations (buildPolicy intake') intake').
               0 \<le> allocationPct item \<and> allocationPct item \<le> 1)
            \<and> 3 / 10 \<le> sum_list (map allocationPct
                                      (buildCoreAllocations (buildPolicy intake') intake'))
            \<and> length (buildCoreAllocations (buildPolicy intake') intake') = 3"
    using a b by (rule resolved_core_rows)
qed

text \<open>
  The roundings of scenario C and of the Balanced example, one at a time: each value lies
  in the binade named, where its significand is rounded to 53 bits.
\<close>

lemma conservative_sum1: "b64 (2 / 5) = 3602879701896397 / 9007199254740992"
  by (subst b64_in_binade [where e = "- 2"]) (simp_all add: roundHalfEven_def)

lemma conservative_sum2: "b64 (3602879701896397 / 9007199254740992 + 1 / 5) = 5404319552844595 / 9007199254740992"
  by (subst b64_in_binade [where e = "- 1"]) (simp_all add: roundHalfEven_def)

lemma conservative_sum3: "b64 (5404319552844595 / 9007199254740992 + 3 / 20) = 3 / 4"
  by (subst b64_in_binade [where e = "- 1"]) (simp_all add: roundHalfEven_def)

lemma conservative_scale: "b64 (1 / (3 / 4)) = 6004799503160661 / 4503599627370496"
  by (subst b64_in_binade [where e = "0"]) (simp_all add: roundHalfEven_def)

lemma conservative_share1: "b64 (2 / 5 * (6004799503160661 / 4503599627370496)) = 4803839602528529 / 9007199254740992"
  by (subst b64_in_binade [where e = "- 1"]) (simp_all add: roundHalfEven_def)

lemma conservative_share2: "b64 (1 / 5 * (6004799503160661 / 4503599627370496)) = 4803839602528529 / 18014398509481984"
  by (subst b64_in_binade [where e = "- 2"]) (simp_all add: roundHalfEven_def)

lemma conservative_share3: "b64 (3 / 20 * (6004799503160661 / 4503599627370496)) = 7205759403792793 / 36028797018963968"
  by (subst b64_in_binade [where e = "- 3"]) (simp_all add: roundHalfEven_def)










lemma conservative_policy:
  "PolicyData.btcTargetPct (buildPolicy (exampleIntake Conservative 5 (6, 10) 500)) = 2 / 5
   \<and> PolicyData.ethTargetPct (buildPolicy (exampleIntake Conservative 5 (6, 10) 500)) = 1 / 5
   \<and> PolicyData.stableBufferPct (buildPolicy (exampleIntake Conservative 5 (6, 10) 500)) = 3 / 20"
  by (simp add: buildPolicy_def exampleIntake_def Let_def)


text \<open>
  Scenario C: the Conservative policy with no satellite gives BTC, ETH and USDC. The
  total of the core rows is 0.75, so the rows are rescaled; the composed shares are 8/15,
  4/15 and 1/5 up to the last bit.
\<close>

theorem composed_total_is_one_witness:
  "\<exists>total allocation composed.
     totalAllocation
       (buildCoreAllocations (buildPolicy (exampleIntake Conservative 5 (6, 10) 500))
                             (exampleIntake Conservative 5 (6, 10) 500) @ []) = Num total
     \<and> combineAndValidateAllocations
         (buildCoreAllocations (buildPolicy (exampleIntake Conservative 5 (6, 10) 500))
                               (exampleIntake Conservative 5 (6, 10) 500))
         [] (buildPolicy (exampleIntake Conservative 5 (6, 10) 500))
         (exampleIntake Conservative 5 (6, 10) 500) = Inr allocation
     \<and> totalAllocation allocation = Num composed
     \<and> \<bar>composed - 1\<bar> \<le> 1 / 100
     \<and> total = 3 / 4
     \<and> map AllocationItem.coinId allocation = [''bitcoin'', ''ethereum'', ''usd-coin'']
     \<and> list_all2 (\<lambda>share q. \<bar>share - q\<bar> \<le> 1 / 1000000000000000)
                  (map allocationPct allocation) [8 / 15, 4 / 15, 1 / 5]"
proof -
  define i where "i = exampleIntake Conservative 5 (6, 10) 500"
  define core where "core = buildCoreAllocations (buildPolicy i) i"
  have buf: "0 \<le> stablecoinBufferPct i \<and> stablecoinBufferPct i \<le> 100"
    by (simp add: i_def exampleIntake_def)
  have rows: "(\<forall>item \<in> set core. 0 \<le> allocationPct item \<and> allocationPct item \<le> 1)
            \<and> 3 / 10 \<le> sum_list (map allocationPct core)
            \<and> length core = 3"
    unfolding core_def
    using composed_total_is_one [of "[]" "[]" "buildPolicy i" i i, THEN conjunct2] buf
    by (rule mp)
  have rng: "\<forall>item \<in> set core. 0 \<le> allocationPct item \<and> allocationPct item \<le> 1"
    and len: "length core = 3"
    using rows by simp_all
  have hyp: "(\<forall>item \<in> set (core @ []). 0 \<le> allocationPct item \<and> allocationPct item \<le> 1)
      \<and> 3 / 10 \<le> sum_list (map allocationPct core)
      \<and> length (core @ []) < 2 ^ 32"
    using rows by simp
  have "\<exists>total allocation composed.
            totalAllocation (core @ []) = Num total
            \<and> combineAndValidateAllocations core [] (buildPolicy i) i = Inr allocation
            \<and> allocation
                = (if 1 / 100 < \<bar>total - 1\<bar>
                   then map (\<lambda>item. item\<lparr>allocationPct :=
                                       b64 (allocationPct item * b64 (1 / total))\<rparr>)
                            (core @ [])
                   else core @ [])
            \<and> totalAllocation allocation = Num composed
            \<and> \<bar>composed - 1\<bar> \<le> 1 / 100"
    using composed_total_is_one [of core "[]" "buildPolicy i" i i, THEN conjunct1] hyp
    by (rule mp)
  then obtain total allocation composed where
    t: "totalAllocation (core @ []) = Num total"
    and a: "combineAndValidateAllocations core [] (buildPolicy i) i = Inr allocation"
    and e: "allocation
                = (if 1 / 100 < \<bar>total - 1\<bar>
                   then map (\<lambda>item. item\<lparr>allocationPct :=
                                       b64 (allocationPct item * b64 (1 / total))\<rparr>)
                            (core @ [])
                   else core @ [])"
    and c: "totalAllocation allocation = Num composed"
    and d: "\<bar>composed - 1\<bar> \<le> 1 / 100"
    by blast
  have pos: "0 < PolicyData.stableBufferPct (buildPolicy i)"
    using conservative_policy unfolding i_def by simp
  have shares: "map allocationPct core = [2 / 5, 1 / 5, 3 / 20]"
    unfolding core_def using core_rows [OF pos, of i] conservative_policy
    unfolding i_def by simp
  have ids: "map AllocationItem.coinId core = [''bitcoin'', ''ethereum'', ''usd-coin'']"
    unfolding core_def using pos by (rule core_coinIds)
  have rng5: "\<forall>item \<in> set (core @ []). 0 \<le> allocationPct item \<and> allocationPct item \<le> 5"
    using rng by fastforce
  have "totalAllocation (core @ [])
          = Num (foldl (\<lambda>s p. b64 (s + p)) 0 (map allocationPct (core @ [])))"
    using rng5 len by (intro totalAllocation_Num) simp_all
  also have "\<dots> = Num (3 / 4)"
    by (simp only: append_Nil2 shares foldl_Cons foldl_Nil add_0 conservative_sum1
                   conservative_sum2 conservative_sum3)
  finally have tv: "total = 3 / 4" using t by simp
  have e': "allocation
              = map (\<lambda>item. item\<lparr>allocationPct :=
                               b64 (allocationPct item * b64 (1 / (3 / 4)))\<rparr>) core"
    using e unfolding tv by simp
  have m: "map allocationPct allocation
             = [4803839602528529 / 9007199254740992, 4803839602528529 / 18014398509481984,
                7205759403792793 / 36028797018963968]"
    unfolding e' scaled_shares shares
    by (simp only: list.map conservative_scale conservative_share1 conservative_share2
                   conservative_share3)
  have cl: "list_all2 (\<lambda>share q. \<bar>share - q\<bar> \<le> 1 / 1000000000000000)
                  (map allocationPct allocation) [8 / 15, 4 / 15, 1 / 5]"
    unfolding m by simp
  have n: "map AllocationItem.coinId allocation = [''bitcoin'', ''ethereum'', ''usd-coin'']"
    unfolding e' scaled_coinIds by (rule ids)
  have final: "totalAllocation (core @ []) = Num total
     \<and> combineAndValidateAllocations core [] (buildPolicy i) i = Inr allocation
     \<and> totalAllocation allocation = Num composed
     \<and> \<bar>composed - 1\<bar> \<le> 1 / 100
     \<and> total = 3 / 4
     \<and> map AllocationItem.coinId allocation = [''bitcoin'', ''ethereum'', ''usd-coin'']
     \<and> list_all2 (\<lambda>share q. \<bar>share - q\<bar> \<le> 1 / 1000000000000000)
                  (map allocationPct allocation) [8 / 15, 4 / 15, 1 / 5]"
    using t a c d tv n cl by (simp only: simp_thms)
  show ?thesis
    using final unfolding core_def i_def
    by - (rule exI [of _ total], rule exI [of _ allocation], rule exI [of _ composed])
qed

section \<open>Satellite caps: properties\<close>

lemma bucketTotals_fold:
  "foldl (\<lambda>totals sat.
            totals(AllocationItem.bucket sat :=
                     totals (AllocationItem.bucket sat) + allocationPct sat)) f xs b
     = f b + sum_list (map allocationPct (filter (\<lambda>s. AllocationItem.bucket s = b) xs))"
  by (induction xs arbitrary: f) simp_all

text \<open>The total of a bucket is the sum of the shares of its rows.\<close>

lemma bucketTotals_sum:
  "bucketTotals xs b
     = sum_list (map allocationPct (filter (\<lambda>s. AllocationItem.bucket s = b) xs))"
  by (simp add: bucketTotals_def bucketTotals_fold)












text \<open>Every resolved policy has non-negative caps, so the bounds hold for all of them.\<close>

lemma buildPolicy_caps_nonneg:
  "0 \<le> PolicyData.perAssetCapPct (buildPolicy intake)
   \<and> (\<forall>b. 0 \<le> PolicyData.bucketCaps (buildPolicy intake) b)"
  by (cases "IntakeData.riskTolerance intake")
     (simp_all add: buildPolicy_def Let_def split: bucket.split)


section \<open>Fallback selection: properties\<close>

lemma foldl_invariant:
  "P acc \<Longrightarrow> (\<And>a x. x \<in> set xs \<Longrightarrow> P a \<Longrightarrow> P (f a x)) \<Longrightarrow> P (foldl f acc xs)"
  by (induction xs arbitrary: acc) simp_all

text \<open>A bucket's total, read off the columns of buckets and shares.\<close>

lemma bucketTotals_zip:
  "bucketTotals xs b
     = sum_list (map snd (filter (\<lambda>p. fst p = b)
                                 (zip (map AllocationItem.bucket xs) (map allocationPct xs))))"
  unfolding bucketTotals_sum by (induction xs) simp_all

text \<open>Every row of the fallback selection is at most the per-asset cap.\<close>

lemma fallback_per_asset:
  "\<forall>s \<in> set (fallbackSatelliteSelection fmt cands policy).
     allocationPct s \<le> PolicyData.perAssetCapPct policy"
proof (cases "snd (PolicyData.holdingsTargetRange policy) - 3 = 0")
  case True
  then show ?thesis by (simp add: fallbackSatelliteSelection_def)
next
  case False
  have "\<forall>s \<in> set (fst (foldl
                 (\<lambda>(satellites, bucketLimits) c.
                    let b = riskLevel c
                    in if bucketLimits b < PolicyData.bucketCaps policy b
                       then (let allocation = min t (PolicyData.perAssetCapPct policy)
                             in (satellites @
                                   [\<lparr> coinId = CoinScore.coinId c,
                                      symbol = CoinScore.symbol c,
                                      name = CoinScore.name c,
                                      role = Satellite,
                                      bucket = b,
                                      allocationPct = allocation,
                                      reasons = [''Score: '' @ fmt (totalScore c),
                                                 ''Trend: '' @ trendName (trend c)],
                                      risks = [''Market volatility'', ''Project execution risk''],
                                      dca = \<lparr> amountUsd = Num 0, cadence = ''Monthly'' \<rparr> \<rparr>],
                                 bucketLimits(b := bucketLimits b + allocation)))
                       else (satellites, bucketLimits))
                 ([], (\<lambda>b. 0)) xs)).
           allocationPct s \<le> PolicyData.perAssetCapPct policy" for t xs
    by (rule foldl_invariant
          [where P = "\<lambda>st. \<forall>s \<in> set (fst st). allocationPct s \<le> PolicyData.perAssetCapPct policy"])
       (auto simp: Let_def split: prod.splits)
  then show ?thesis
    using False by (simp add: fallbackSatelliteSelection_def Let_def)
qed

text \<open>
  Claim C8 holds up to the bucket caps, which the fallback selection can exceed: it tests
  the amount already placed in a bucket against the cap before it adds a row, not the
  amount after. With the Balanced policy and at most 7 holdings there are 4 satellite
  slots of 0.45 / 4 = 0.1125 each; two High candidates, which pass the candidate filter,
  both get a row, and the High bucket holds 0.225 against its cap of 0.15.
\<close>

theorem fallback_exceeds_bucket_cap:
  "filterCandidates [exampleCandidate ''dogecoin'' ''DOGE'' 85,
                     exampleCandidate ''shiba-inu'' ''SHIB'' 90]
       (exampleIntake Balanced 5 (4, 7) 500)
       (buildPolicy (exampleIntake Balanced 5 (4, 7) 500))
     = [exampleCandidate ''dogecoin'' ''DOGE'' 85, exampleCandidate ''shiba-inu'' ''SHIB'' 90]
   \<and> map allocationPct
         (fallbackSatelliteSelection (\<lambda>x. ''57.0'')
            [exampleCandidate ''dogecoin'' ''DOGE'' 85,
             exampleCandidate ''shiba-inu'' ''SHIB'' 90]
            (buildPolicy (exampleIntake Balanced 5 (4, 7) 500)))
       = [9 / 80, 9 / 80]
   \<and> map AllocationItem.bucket
         (fallbackSatelliteSelection (\<lambda>x. ''57.0'')
            [exampleCandidate ''dogecoin'' ''DOGE'' 85,
             exampleCandidate ''shiba-inu'' ''SHIB'' 90]
            (buildPolicy (exampleIntake Balanced 5 (4, 7) 500)))
       = [High, High]
   \<and> bucketTotals
         (fallbackSatelliteSelection (\<lambda>x. ''57.0'')
            [exampleCandidate ''dogecoin'' ''DOGE'' 85,
             exampleCandidate ''shiba-inu'' ''SHIB'' 90]
            (buildPolicy (exampleIntake Balanced 5 (4, 7) 500))) High
       = 9 / 40
   \<and> PolicyData.bucketCaps (buildPolicy (exampleIntake Balanced 5 (4, 7) 500)) High = 3 / 20"
proof -
  define i where "i = exampleIntake Balanced 5 (4, 7) 500"
  define c1 where "c1 = exampleCandidate ''dogecoin'' ''DOGE'' 85"
  define c2 where "c2 = exampleCandidate ''shiba-inu'' ''SHIB'' 90"
  have pol: "PolicyData.satelliteTargetPct (buildPolicy i) = 9 / 20
             \<and> PolicyData.perAssetCapPct (buildPolicy i) = 3 / 20
             \<and> PolicyData.bucketCaps (buildPolicy i) High = 3 / 20
             \<and> PolicyData.holdingsTargetRange (buildPolicy i) = (4, 7)"
    by (simp add: i_def buildPolicy_def exampleIntake_def Let_def)
  have lv: "riskLevel c1 = High \<and> riskLevel c2 = High"
    by (simp add: riskLevel_def c1_def c2_def exampleCandidate_def)
  have flt: "filterCandidates [c1, c2] i (buildPolicy i) = [c1, c2]"
    using pol lv
    by (simp add: filterCandidates_def Let_def upt_rec_numeral)
       (simp add: c1_def c2_def exampleCandidate_def i_def exampleIntake_def)
  have sl: "js_slice 0 4 [c1, c2] = [c1, c2]"
    by (simp add: js_slice_take js_index_def)
  have fb: "map allocationPct (fallbackSatelliteSelection (\<lambda>x. ''57.0'') [c1, c2] (buildPolicy i))
              = [9 / 80, 9 / 80]
            \<and> map AllocationItem.bucket
                 (fallbackSatelliteSelection (\<lambda>x. ''57.0'') [c1, c2] (buildPolicy i))
              = [High, High]"
    using pol lv sl by (simp add: fallbackSatelliteSelection_def Let_def)
  have bt: "bucketTotals (fallbackSatelliteSelection (\<lambda>x. ''57.0'') [c1, c2] (buildPolicy i)) High
              = 9 / 40"
    using fb by (simp add: bucketTotals_zip)
  show ?thesis
    using flt fb bt pol unfolding c1_def c2_def i_def by (simp only: simp_thms)
qed

text \<open>A failed advisory call is answered by the fallback selection.\<close>

lemma selectSatellites_falls_back:
  "selectSatellitesWithAI fmt (Inl e) cands policy intake
     = Inr (fallbackSatelliteSelection fmt cands policy)"
  by (simp add: selectSatellitesWithAI_def)

lemma foldl_fst_nonempty:
  assumes "\<And>st x. fst st \<noteq> [] \<Longrightarrow> fst (f st x) \<noteq> []" and "fst st \<noteq> []"
  shows "fst (foldl f st xs) \<noteq> []"
  using assms(2)
  by (rule foldl_invariant [where P = "\<lambda>st. fst st \<noteq> []"]) (rule assms(1))

text \<open>
  With at least one satellite slot and a first candidate whose bucket has a positive cap,
  as every candidate that passed the filter has, the fallback selection is not empty.
\<close>

lemma fallback_nonempty:
  assumes "cands \<noteq> []"
    and "1 \<le> snd (PolicyData.holdingsTargetRange policy) - 3"
    and "0 < PolicyData.bucketCaps policy (riskLevel (hd cands))"
  shows "fallbackSatelliteSelection fmt cands policy \<noteq> []"
proof -
  define n where "n = snd (PolicyData.holdingsTargetRange policy) - 3"
  obtain c rest where cands: "cands = c # rest" using assms(1) by (cases cands) auto
  have "js_index n (length cands) \<noteq> 0"
    using assms(2) cands by (simp add: js_index_def n_def)
  then obtain k where k: "js_index n (length cands) = Suc k"
    by (cases "js_index n (length cands)") auto
  have sl: "js_slice 0 n cands = c # take k rest"
    using k cands by (simp add: js_slice_take)
  have cap: "0 < PolicyData.bucketCaps policy (riskLevel c)" using assms(3) cands by simp
  have n0: "n \<noteq> 0" using assms(2) by (simp add: n_def)
  show ?thesis
    apply (simp only: fallbackSatelliteSelection_def Let_def)
    apply (simp only: n_def [symmetric] sl n0 if_False foldl_Cons)
    apply (rule foldl_fst_nonempty)
     apply (auto simp: cap split: prod.splits)
    done
qed

end
